theory Spec2Isabelle
  imports Complex_Main
begin

section \<open>Values shared by all filters\<close>

text \<open>
  The filters of \<^verbatim>\<open>fogpy/filters.py\<close> work on numpy arrays. Every operation the
  filters apply to a channel is elementwise, so a channel grid is modelled by the list of
  its pixels in row-major order; only the water-cloud filter looks at rows, and there a
  grid is the list of its rows. Floating-point channel values are modelled by the reals.
  An operation that raises in Python returns \<open>Inl\<close> of the exception.
\<close>

datatype error =
    NotApplicableError string
  | ValueError
  | KeyError
  | IndexError
  | AttributeError
  | MaskError
  | TypeError
  | ImportError

text \<open>
  \<^verbatim>\<open>numpy.argmin\<close> of a one-dimensional array: the index of the first occurrence of the
  minimum; it raises \<^verbatim>\<open>ValueError\<close> on an empty array.
\<close>

fun argmin_list :: "real list \<Rightarrow> nat" where
  "argmin_list [] = 0"
| "argmin_list [x] = 0"
| "argmin_list (x # y # ys) =
     (let j = argmin_list (y # ys) in if (y # ys) ! j < x then Suc j else 0)"

definition argmin :: "real list \<Rightarrow> error + nat" where
  "argmin xs = (if xs = [] then Inl ValueError else Inr (argmin_list xs))"

text \<open>Python list indexing with a non-negative index.\<close>

definition getitem :: "'a list \<Rightarrow> nat \<Rightarrow> error + 'a" where
  "getitem xs i = (if i < length xs then Inr (xs ! i) else Inl IndexError)"

text \<open>Python dictionary lookup \<^verbatim>\<open>d[k]\<close> on a dictionary literal.\<close>

definition dict_get :: "('k \<times> 'v) list \<Rightarrow> 'k \<Rightarrow> error + 'v" where
  "dict_get d k = (case map_of d k of None \<Rightarrow> Inl KeyError | Some v \<Rightarrow> Inr v)"

section \<open>CirrusCloudFilter\<close>

definition sza_opt :: "real list" where
  "sza_opt = [1.0, 1.25, 1.50, 1.75, 2.0]"

definition bt_opt :: "int list" where
  "bt_opt = [260, 270, 280, 290, 300, 310]"

definition find_nearest_lut_sza :: "real \<Rightarrow> error + real" where
  "find_nearest_lut_sza sza =
     (case argmin (map (\<lambda>i. \<bar>sza - i\<bar>) sza_opt) of
        Inl e \<Rightarrow> Inl e
      | Inr sza_idx \<Rightarrow> getitem sza_opt sza_idx)"

definition find_nearest_lut_bt :: "real \<Rightarrow> error + int" where
  "find_nearest_lut_bt bt =
     (case argmin (map (\<lambda>i. \<bar>bt - of_int i\<bar>) bt_opt) of
        Inl e \<Rightarrow> Inl e
      | Inr bt_idx \<Rightarrow> getitem bt_opt bt_idx)"

definition lut :: "(int \<times> (real \<times> real) list) list" where
  "lut =
     [(260, [(1.0, 0.55), (1.25, 0.60), (1.50, 0.65), (1.75, 0.90), (2.0, 1.10)]),
      (270, [(1.0, 0.58), (1.25, 0.63), (1.50, 0.81), (1.75, 1.03), (2.0, 1.13)]),
      (280, [(1.0, 1.30), (1.25, 1.61), (1.50, 1.88), (1.75, 2.14), (2.0, 2.30)]),
      (290, [(1.0, 3.06), (1.25, 3.72), (1.50, 3.95), (1.75, 4.27), (2.0, 4.73)]),
      (300, [(1.0, 5.77), (1.25, 6.92), (1.50, 7.00), (1.75, 7.42), (2.0, 8.43)]),
      (310, [(1.0, 9.41), (1.25, 11.22), (1.50, 11.03), (1.75, 11.60), (2.0, 13.39)])]"

definition apply_lut :: "real \<Rightarrow> int \<Rightarrow> error + real" where
  "apply_lut sza bt =
     (case dict_get lut bt of
        Inl e \<Rightarrow> Inl e
      | Inr row \<Rightarrow> dict_get row sza)"

text \<open>
  The threshold of one pixel, as the three vectorised calls of
  \<^verbatim>\<open>CirrusCloudFilter.filter_function\<close> compute it from the pixel's secant of the sun
  zenith angle and its 10.8 um brightness temperature.
\<close>

definition bt_thres :: "real \<Rightarrow> real \<Rightarrow> error + real" where
  "bt_thres secsza ir108 =
     (case find_nearest_lut_sza secsza of
        Inl e \<Rightarrow> Inl e
      | Inr secsza_lut \<Rightarrow>
          (case find_nearest_lut_bt ir108 of
             Inl e \<Rightarrow> Inl e
           | Inr chn108_ma_lut \<Rightarrow> apply_lut secsza_lut chn108_ma_lut))"

text \<open>
  Running a fallible function over the pixels: the first pixel that raises ends the run,
  as the exception would.
\<close>

fun map_err :: "('a \<Rightarrow> error + 'b) \<Rightarrow> 'a list \<Rightarrow> error + 'b list" where
  "map_err f [] = Inr []"
| "map_err f (x # xs) =
     (case f x of
        Inl e \<Rightarrow> Inl e
      | Inr y \<Rightarrow> (case map_err f xs of Inl e \<Rightarrow> Inl e | Inr ys \<Rightarrow> Inr (y # ys)))"

text \<open>
  \<^verbatim>\<open>CirrusCloudFilter.filter_function\<close>. The secant grid \<open>secsza\<close> is what
  \<^verbatim>\<open>1 / np.cos(np.deg2rad(astronomy.sun_zenith_angle(time, lon, lat)))\<close> returned: the
  zenith angle comes from pyorbital, outside this repository. Grids of different shapes
  cannot be combined (\<^verbatim>\<open>ValueError\<close>), and \<^verbatim>\<open>np.min\<close> raises the same on an
  empty grid.
\<close>

definition cirrus_filter_function ::
  "real list \<Rightarrow> real list \<Rightarrow> real list \<Rightarrow> real list \<Rightarrow> error + bool list" where
  "cirrus_filter_function ir108 ir120 ir087 secsza =
     (if length ir120 \<noteq> length ir108 \<or> length ir087 \<noteq> length ir108
         \<or> length secsza \<noteq> length ir108 \<or> secsza = []
      then Inl ValueError
      else
        (let bt_diff = map2 (-) ir108 ir120 in
         case map_err (\<lambda>(s, b). bt_thres s b) (zip secsza ir108) of
           Inl e \<Rightarrow> Inl e
         | Inr thres \<Rightarrow>
             (let bt_ci_mask = map2 (\<lambda>d t. d > t) bt_diff thres;
                  strong_ci_diff = map2 (-) ir087 ir108;
                  strong_ci_mask = map (\<lambda>d. d > 0) strong_ci_diff;
                  cirrus_mask = map2 (\<or>) bt_ci_mask strong_ci_mask
              in Inr cirrus_mask)))"

text \<open>
  The reading of "nearest key": a key of the axis at minimal distance from the value.
\<close>

definition nearest_key :: "real list \<Rightarrow> real \<Rightarrow> real \<Rightarrow> bool" where
  "nearest_key keys x k \<longleftrightarrow> k \<in> set keys \<and> (\<forall>k' \<in> set keys. \<bar>x - k\<bar> \<le> \<bar>x - k'\<bar>)"

section \<open>Properties of the lookup table\<close>

lemma argmin_list_less: "xs \<noteq> [] \<Longrightarrow> argmin_list xs < length xs"
  by (induction xs rule: argmin_list.induct) (auto simp: Let_def)

lemma argmin_list_least: "i < length xs \<Longrightarrow> xs ! argmin_list xs \<le> xs ! i"
proof (induction xs arbitrary: i rule: argmin_list.induct)
  case 1
  then show ?case by simp
next
  case (2 x)
  then show ?case by simp
next
  case (3 x y ys)
  let ?j = "argmin_list (y # ys)"
  show ?case
  proof (cases i)
    case 0
    then show ?thesis by (auto simp: Let_def)
  next
    case (Suc i')
    with 3 have "(y # ys) ! ?j \<le> (y # ys) ! i'" by auto
    with Suc show ?thesis by (auto simp: Let_def)
  qed
qed


lemma sza_opt_nonempty: "sza_opt \<noteq> []"
  by (simp add: sza_opt_def)

lemma bt_opt_nonempty: "bt_opt \<noteq> []"
  by (simp add: bt_opt_def)

lemma sza_idx_less: "argmin_list (map f sza_opt) < length sza_opt"
  using argmin_list_less [of "map f sza_opt"] sza_opt_nonempty by simp

lemma bt_idx_less: "argmin_list (map f bt_opt) < length bt_opt"
  using argmin_list_less [of "map f bt_opt"] bt_opt_nonempty by simp

lemma find_nearest_lut_sza_eq:
  "find_nearest_lut_sza s = Inr (sza_opt ! argmin_list (map (\<lambda>i. \<bar>s - i\<bar>) sza_opt))"
  using sza_idx_less [of "\<lambda>i. \<bar>s - i\<bar>"] sza_opt_nonempty
  by (simp add: find_nearest_lut_sza_def argmin_def getitem_def)

lemma find_nearest_lut_bt_eq:
  "find_nearest_lut_bt b = Inr (bt_opt ! argmin_list (map (\<lambda>i. \<bar>b - of_int i\<bar>) bt_opt))"
  using bt_idx_less [of "\<lambda>i. \<bar>b - of_int i\<bar>"] bt_opt_nonempty
  by (simp add: find_nearest_lut_bt_def argmin_def getitem_def)

lemma find_nearest_lut_sza_mem: "\<exists>k \<in> set sza_opt. find_nearest_lut_sza s = Inr k"
  unfolding find_nearest_lut_sza_eq using sza_idx_less nth_mem by blast

lemma find_nearest_lut_bt_mem: "\<exists>k \<in> set bt_opt. find_nearest_lut_bt b = Inr k"
  unfolding find_nearest_lut_bt_eq using bt_idx_less nth_mem by blast

lemma sza_opt_cases:
  "s \<in> set sza_opt \<longleftrightarrow> s = 1.0 \<or> s = 1.25 \<or> s = 1.50 \<or> s = 1.75 \<or> s = 2.0"
  by (simp add: sza_opt_def)

lemma bt_opt_cases:
  "b \<in> set bt_opt \<longleftrightarrow> b = 260 \<or> b = 270 \<or> b = 280 \<or> b = 290 \<or> b = 300 \<or> b = 310"
  by (simp add: bt_opt_def)

lemma apply_lut_not_isl:
  "s \<in> set sza_opt \<Longrightarrow> b \<in> set bt_opt \<Longrightarrow> \<not> isl (apply_lut s b)"
  unfolding sza_opt_cases bt_opt_cases
  by (elim disjE; simp add: apply_lut_def dict_get_def lut_def)

lemma apply_lut_total:
  "s \<in> set sza_opt \<Longrightarrow> b \<in> set bt_opt \<Longrightarrow> \<exists>v. apply_lut s b = Inr v"
  using apply_lut_not_isl [of s b] by (cases "apply_lut s b") auto

lemma find_nearest_lut_sza_nearest:
  assumes "find_nearest_lut_sza s = Inr k"
  shows "nearest_key sza_opt s k"
proof -
  let ?ds = "map (\<lambda>i. \<bar>s - i\<bar>) sza_opt"
  let ?j = "argmin_list ?ds"
  have k: "k = sza_opt ! ?j" using assms unfolding find_nearest_lut_sza_eq by simp
  have j: "?j < length sza_opt" by (rule sza_idx_less)
  have "\<bar>s - k\<bar> \<le> \<bar>s - k'\<bar>" if "k' \<in> set sza_opt" for k'
  proof -
    from that obtain i where i: "i < length sza_opt" "k' = sza_opt ! i"
      by (auto simp: in_set_conv_nth)
    have "?ds ! ?j \<le> ?ds ! i" using i by (intro argmin_list_least) simp
    then show ?thesis using i j k by simp
  qed
  then show ?thesis using j k by (simp add: nearest_key_def)
qed

lemma exact_sza: "k \<in> set sza_opt \<Longrightarrow> find_nearest_lut_sza k = Inr k"
  unfolding sza_opt_cases
  by (elim disjE; simp add: sza_opt_def find_nearest_lut_sza_def argmin_def getitem_def)

lemma exact_bt: "k \<in> set bt_opt \<Longrightarrow> find_nearest_lut_bt (of_int k) = Inr k"
  unfolding bt_opt_cases
  by (elim disjE; simp add: bt_opt_def find_nearest_lut_bt_def argmin_def getitem_def)

lemma bt_thres_on_key: "bt_thres 1.0 260 = Inr 0.55"
  by (simp add: bt_thres_def sza_opt_def bt_opt_def find_nearest_lut_sza_def find_nearest_lut_bt_def argmin_def getitem_def Let_def apply_lut_def dict_get_def lut_def)


lemma find_nearest_lut_bt_nearest:
  assumes "find_nearest_lut_bt b = Inr k"
  shows "nearest_key (map of_int bt_opt) b (of_int k)"
proof -
  let ?ds = "map (\<lambda>i. \<bar>b - of_int i\<bar>) bt_opt"
  let ?j = "argmin_list ?ds"
  have k: "k = bt_opt ! ?j" using assms unfolding find_nearest_lut_bt_eq by simp
  have j: "?j < length bt_opt" by (rule bt_idx_less)
  have "\<bar>b - of_int k\<bar> \<le> \<bar>b - of_int k'\<bar>" if "k' \<in> set bt_opt" for k'
  proof -
    from that obtain i where i: "i < length bt_opt" "k' = bt_opt ! i"
      by (auto simp: in_set_conv_nth)
    have "?ds ! ?j \<le> ?ds ! i" using i by (intro argmin_list_least) simp
    then show ?thesis using i j k by simp
  qed
  then show ?thesis using j k by (auto simp: nearest_key_def)
qed

lemma bt_thres_total:
  "\<exists>ks kb v. find_nearest_lut_sza s = Inr ks \<and> find_nearest_lut_bt b = Inr kb
     \<and> ks \<in> set sza_opt \<and> kb \<in> set bt_opt \<and> apply_lut ks kb = Inr v \<and> bt_thres s b = Inr v"
proof -
  obtain ks where ks: "ks \<in> set sza_opt" "find_nearest_lut_sza s = Inr ks"
    using find_nearest_lut_sza_mem by blast
  obtain kb where kb: "kb \<in> set bt_opt" "find_nearest_lut_bt b = Inr kb"
    using find_nearest_lut_bt_mem by blast
  obtain v where v: "apply_lut ks kb = Inr v"
    using apply_lut_total [OF ks(1) kb(1)] by blast
  have "bt_thres s b = Inr v" using ks kb v by (simp add: bt_thres_def)
  with ks kb v show ?thesis by blast
qed

lemma map_err_Inr:
  "map_err f xs = Inr ys \<Longrightarrow> length ys = length xs \<and> (\<forall>i < length xs. f (xs ! i) = Inr (ys ! i))"
proof (induction xs arbitrary: ys)
  case Nil
  then show ?case by simp
next
  case (Cons x xs)
  from Cons.prems obtain y ys' where y: "f x = Inr y" and ys': "map_err f xs = Inr ys'"
    and ys: "ys = y # ys'"
    by (auto split: sum.splits)
  from Cons.IH [OF ys'] have ih: "length ys' = length xs" "\<forall>i < length xs. f (xs ! i) = Inr (ys' ! i)"
    by simp_all
  show ?case
  proof (intro conjI allI impI)
    show "length ys = length (x # xs)" using ih ys by simp
  next
    fix i assume "i < length (x # xs)"
    then show "f ((x # xs) ! i) = Inr (ys ! i)"
      using ih y ys by (cases i) simp_all
  qed
qed

lemma map_err_total:
  "(\<And>x. x \<in> set xs \<Longrightarrow> \<exists>y. f x = Inr y) \<Longrightarrow> \<exists>ys. map_err f xs = Inr ys"
proof (induction xs)
  case Nil
  then show ?case by simp
next
  case (Cons x xs)
  then obtain y where "f x = Inr y" by fastforce
  moreover from Cons obtain ys where "map_err f xs = Inr ys" by fastforce
  ultimately show ?case by simp
qed

lemma cirrus_filter_function_total:
  assumes "length ir120 = length ir108" "length ir087 = length ir108"
    "length secsza = length ir108" "secsza \<noteq> []"
  shows "\<exists>msk. cirrus_filter_function ir108 ir120 ir087 secsza = Inr msk"
proof -
  have "\<exists>ys. map_err (\<lambda>(s, b). bt_thres s b) (zip secsza ir108) = Inr ys"
  proof (rule map_err_total)
    fix x assume "x \<in> set (zip secsza ir108)"
    show "\<exists>y. (case x of (s, b) \<Rightarrow> bt_thres s b) = Inr y"
      using bt_thres_total [of "fst x" "snd x"] by (cases x) auto
  qed
  then obtain ys where "map_err (\<lambda>(s, b). bt_thres s b) (zip secsza ir108) = Inr ys" ..
  then show ?thesis using assms by (simp add: cirrus_filter_function_def)
qed

lemma cirrus_filter_function_pixel:
  assumes "cirrus_filter_function ir108 ir120 ir087 secsza = Inr msk"
  shows "length msk = length ir108 \<and>
    (\<forall>i < length ir108. \<exists>t. bt_thres (secsza ! i) (ir108 ! i) = Inr t \<and>
       (msk ! i \<longleftrightarrow> ir108 ! i - ir120 ! i > t \<or> ir087 ! i - ir108 ! i > 0))"
proof -
  from assms have len: "length ir120 = length ir108" "length ir087 = length ir108"
    "length secsza = length ir108"
    by (auto simp: cirrus_filter_function_def split: if_splits)
  from assms obtain thres where th: "map_err (\<lambda>(s, b). bt_thres s b) (zip secsza ir108) = Inr thres"
    and msk: "msk = map2 (\<or>) (map2 (\<lambda>d t. d > t) (map2 (-) ir108 ir120) thres)
                 (map (\<lambda>d. d > 0) (map2 (-) ir087 ir108))"
    by (auto simp: cirrus_filter_function_def Let_def split: if_splits sum.splits)
  from map_err_Inr [OF th] len have tl: "length thres = length ir108"
    and tv: "\<forall>i < length ir108. bt_thres (secsza ! i) (ir108 ! i) = Inr (thres ! i)"
    by auto
  have "length msk = length ir108" using msk len tl by simp
  moreover have "\<exists>t. bt_thres (secsza ! i) (ir108 ! i) = Inr t \<and>
       (msk ! i \<longleftrightarrow> ir108 ! i - ir120 ! i > t \<or> ir087 ! i - ir108 ! i > 0)"
    if "i < length ir108" for i
    using that tv len tl msk by (intro exI [of _ "thres ! i"]) simp
  ultimately show ?thesis by blast
qed

text \<open>
  C10. Whatever real numbers the secant of the zenith angle and the brightness temperature
  are, the two snapping functions return a key of the table, \<open>1.0, 1.25, 1.50, 1.75, 2.0\<close>
  and \<open>260, 270, 280, 290, 300, 310\<close>, and the nested dictionary access that follows
  finds both keys: the threshold of every pixel is defined.
\<close>

theorem lut_access_total:
  "(\<exists>ks kb v. find_nearest_lut_sza s = Inr ks \<and> find_nearest_lut_bt b = Inr kb
      \<and> (ks = 1.0 \<or> ks = 1.25 \<or> ks = 1.50 \<or> ks = 1.75 \<or> ks = 2.0)
      \<and> (kb = 260 \<or> kb = 270 \<or> kb = 280 \<or> kb = 290 \<or> kb = 300 \<or> kb = 310)
      \<and> apply_lut ks kb = Inr v \<and> bt_thres s b = Inr v)"
  using bt_thres_total [of s b] unfolding sza_opt_cases bt_opt_cases by blast

theorem lut_access_total_witness:
  "find_nearest_lut_sza 1.6 = Inr 1.5 \<and> find_nearest_lut_bt 1000 = Inr 310
     \<and> apply_lut 1.5 310 = Inr 11.03 \<and> bt_thres 1.6 1000 = Inr 11.03"
proof -
  have s: "find_nearest_lut_sza 1.6 = Inr 1.5"
    by (simp add: sza_opt_def find_nearest_lut_sza_def argmin_def getitem_def)
  have b: "find_nearest_lut_bt 1000 = Inr 310"
    by (simp add: bt_opt_def find_nearest_lut_bt_def argmin_def getitem_def)
  have v: "apply_lut 1.5 310 = Inr 11.03"
    by (simp add: apply_lut_def dict_get_def lut_def)
  obtain ks kb v' where k: "find_nearest_lut_sza 1.6 = Inr ks"
      "find_nearest_lut_bt 1000 = Inr kb" "apply_lut ks kb = Inr v'"
      "bt_thres 1.6 1000 = Inr v'"
    using lut_access_total [of "1.6" 1000] by blast
  from k(1,2) s b have "ks = 1.5" "kb = 310" by simp_all
  with k(3,4) v have "bt_thres 1.6 1000 = Inr 11.03" by simp
  with s b v show ?thesis by simp
qed

text \<open>
  C6. (1) On a pair of table keys the threshold is the table's entry: both lookups of the
  nested dictionary succeed and \<open>bt_thres\<close> returns the value found; in particular
  secant 1.0 and 260 K give 0.55. (2) For any input the threshold is the entry at a key
  nearest to the secant and a key nearest to the brightness temperature, each axis on
  its own. (3) The filter returns a mask of the grid's shape in which a pixel is masked
  exactly when its split-window difference (10.8 um minus 12.0 um) exceeds the pixel's
  threshold or its 8.7 um minus 10.8 um difference exceeds 0; (4) it returns such a mask
  for all non-empty grids of one shape.
\<close>

theorem cirrus_threshold_and_mask:
  "(\<forall>ks \<in> set sza_opt. \<forall>kb \<in> set bt_opt.
      \<exists>row v. map_of lut kb = Some row \<and> map_of row ks = Some v
        \<and> bt_thres ks (of_int kb) = Inr v)
   \<and> bt_thres 1.0 260 = Inr 0.55
   \<and> (\<exists>ks kb v. nearest_key sza_opt s ks \<and> nearest_key (map of_int bt_opt) b (of_int kb)
        \<and> kb \<in> set bt_opt \<and> apply_lut ks kb = Inr v \<and> bt_thres s b = Inr v)
   \<and> (cirrus_filter_function ir108 ir120 ir087 secsza = Inr msk \<longrightarrow>
        length msk = length ir108 \<and>
        (\<forall>i < length ir108. \<exists>t. bt_thres (secsza ! i) (ir108 ! i) = Inr t \<and>
           (msk ! i \<longleftrightarrow> ir108 ! i - ir120 ! i > t \<or> ir087 ! i - ir108 ! i > 0)))
   \<and> (length ir120 = length ir108 \<and> length ir087 = length ir108
        \<and> length secsza = length ir108 \<and> secsza \<noteq> [] \<longrightarrow>
        (\<exists>m. cirrus_filter_function ir108 ir120 ir087 secsza = Inr m))"
proof (intro conjI)
  show "\<forall>ks \<in> set sza_opt. \<forall>kb \<in> set bt_opt.
      \<exists>row v. map_of lut kb = Some row \<and> map_of row ks = Some v
        \<and> bt_thres ks (of_int kb) = Inr v"
  proof (intro ballI)
    fix ks kb assume k: "ks \<in> set sza_opt" "kb \<in> set bt_opt"
    from apply_lut_total [OF k] obtain v where v: "apply_lut ks kb = Inr v" ..
    then obtain row where "map_of lut kb = Some row" "map_of row ks = Some v"
      by (auto simp: apply_lut_def dict_get_def split: option.splits)
    moreover have "bt_thres ks (of_int kb) = Inr v"
      using exact_sza [OF k(1)] exact_bt [OF k(2)] v by (simp add: bt_thres_def)
    ultimately show "\<exists>row v. map_of lut kb = Some row \<and> map_of row ks = Some v
        \<and> bt_thres ks (of_int kb) = Inr v" by blast
  qed
next
  show "bt_thres 1.0 260 = Inr 0.55" by (rule bt_thres_on_key)
next
  from bt_thres_total [of s b] obtain ks kb v where
    "find_nearest_lut_sza s = Inr ks" "find_nearest_lut_bt b = Inr kb"
    "kb \<in> set bt_opt" "apply_lut ks kb = Inr v" "bt_thres s b = Inr v"
    by blast
  then show "\<exists>ks kb v. nearest_key sza_opt s ks \<and> nearest_key (map of_int bt_opt) b (of_int kb)
        \<and> kb \<in> set bt_opt \<and> apply_lut ks kb = Inr v \<and> bt_thres s b = Inr v"
    using find_nearest_lut_sza_nearest find_nearest_lut_bt_nearest by blast
next
  show "cirrus_filter_function ir108 ir120 ir087 secsza = Inr msk \<longrightarrow>
        length msk = length ir108 \<and>
        (\<forall>i < length ir108. \<exists>t. bt_thres (secsza ! i) (ir108 ! i) = Inr t \<and>
           (msk ! i \<longleftrightarrow> ir108 ! i - ir120 ! i > t \<or> ir087 ! i - ir108 ! i > 0))"
    using cirrus_filter_function_pixel by blast
next
  show "length ir120 = length ir108 \<and> length ir087 = length ir108
        \<and> length secsza = length ir108 \<and> secsza \<noteq> [] \<longrightarrow>
        (\<exists>m. cirrus_filter_function ir108 ir120 ir087 secsza = Inr m)"
    using cirrus_filter_function_total by blast
qed

theorem cirrus_threshold_and_mask_witness:
  "cirrus_filter_function [260, 300] [259, 299] [250, 290] [1, 2] = Inr [True, False]
   \<and> bt_thres 1 260 = Inr 0.55 \<and> bt_thres 2 300 = Inr 8.43
   \<and> (\<exists>t. bt_thres ([1, 2] ! 0) ([260, 300] ! 0) = Inr t \<and>
        ([True, False] ! 0 \<longleftrightarrow> [260, 300] ! 0 - [259, 299] ! 0 > t
            \<or> [250, 290] ! 0 - [260, 300::real] ! 0 > 0))"
proof -
  have t1: "bt_thres 1 260 = Inr 0.55"
    using bt_thres_on_key by simp
  have t2: "bt_thres 2 300 = Inr 8.43"
    by (simp add: bt_thres_def sza_opt_def bt_opt_def find_nearest_lut_sza_def
        find_nearest_lut_bt_def argmin_def getitem_def apply_lut_def dict_get_def lut_def)
  have f: "cirrus_filter_function [260, 300] [259, 299] [250, 290] [1, 2] = Inr [True, False]"
    by (simp add: cirrus_filter_function_def t1 t2)
  from cirrus_threshold_and_mask [of 1 260 "[260, 300]" "[259, 299]" "[250, 290]"
      "[1, 2]" "[True, False]"] f
  have "\<forall>i < length [260, 300::real]. \<exists>t. bt_thres ([1, 2] ! i) ([260, 300] ! i) = Inr t \<and>
           ([True, False] ! i \<longleftrightarrow> [260, 300] ! i - [259, 299] ! i > t
              \<or> [250, 290] ! i - [260, 300::real] ! i > 0)"
    by blast
  then have "\<exists>t. bt_thres ([1, 2] ! 0) ([260, 300] ! 0) = Inr t \<and>
           ([True, False] ! 0 \<longleftrightarrow> [260, 300] ! 0 - [259, 299] ! 0 > t
              \<or> [250, 290] ! 0 - [260, 300::real] ! 0 > 0)"
    by (elim allE [of _ 0] impE) simp_all
  with f t1 t2 show ?thesis by blast
qed

section \<open>The filter object and the filter contract\<close>

text \<open>
  A numpy float that is the outcome of a division or of a model run may be infinite or
  not-a-number. Every comparison with not-a-number is false.
\<close>

datatype npfloat = Fin real | PosInf | NegInf | NaN

definition np_div :: "real \<Rightarrow> real \<Rightarrow> npfloat" where
  "np_div a b =
     (if b \<noteq> 0 then Fin (a / b)
      else if a > 0 then PosInf else if a < 0 then NegInf else NaN)"

fun np_gt :: "npfloat \<Rightarrow> real \<Rightarrow> bool" where
  "np_gt (Fin x) t = (x > t)"
| "np_gt PosInf t = True"
| "np_gt NegInf t = False"
| "np_gt NaN t = False"

fun np_ge :: "npfloat \<Rightarrow> real \<Rightarrow> bool" where
  "np_ge (Fin x) t = (x \<ge> t)"
| "np_ge PosInf t = True"
| "np_ge NegInf t = False"
| "np_ge NaN t = False"

text \<open>
  A masked array (\<^verbatim>\<open>numpy.ma.MaskedArray\<close>): the data and, pixel by pixel, whether the
  pixel is masked. The array handed to a filter is a masked array or a plain one.
\<close>

record masked =
  ma_data :: "real list"
  ma_mask :: "bool list"

datatype array = NDArray "real list" | MaskedArray "real list" "bool list"

datatype log_entry =
    Missing string
  | Info string
  | Debug string
  | ThresWarning real
  | ThresDebug real
  | HistRange real real
  | Stats nat nat nat nat nat

text \<open>
  The state of a filter instance: the array \<open>arr\<close>, its mask \<open>inmask\<close> (\<open>None\<close>
  for a plain array; \<^verbatim>\<open>self.inmask\<close> and \<^verbatim>\<open>self.arr.mask\<close> are one object), the
  names of the keyword arguments that became attributes, and the two outputs
  \<^verbatim>\<open>self.result\<close> and \<^verbatim>\<open>self.mask\<close>. The values of the keyword arguments are the
  arguments of each filter's \<open>filter_function\<close> below.
\<close>

record filter_obj =
  arr :: "real list"
  inmask :: "bool list option"
  attrs :: "string list"
  result :: "masked option"
  msk :: "bool list option"

definition init :: "array \<Rightarrow> string list \<Rightarrow> filter_obj" where
  "init a kwargs =
     (case a of
        MaskedArray d m \<Rightarrow>
          \<lparr>arr = d, inmask = Some m, attrs = kwargs, result = None, msk = None\<rparr>
      | NDArray d \<Rightarrow>
          \<lparr>arr = d, inmask = None, attrs = kwargs, result = None, msk = None\<rparr>)"

text \<open>
  \<^verbatim>\<open>__init__\<close> sets these attributes on every instance, whatever the keyword arguments
  are; \<^verbatim>\<open>time\<close> is among them.
\<close>

definition init_attrs :: "string list" where
  "init_attrs = [''arr'', ''inmask'', ''result'', ''mask'', ''name'', ''time'', ''save'',
     ''plot'', ''dir'', ''bg_img'', ''resize'', ''nprocs'']"

definition hasattr :: "filter_obj \<Rightarrow> string \<Rightarrow> bool" where
  "hasattr self a \<longleftrightarrow> a \<in> set (attrs self) \<or> a \<in> set init_attrs"

datatype filter_class =
    BaseArrayFilter
  | CloudFilter
  | SnowFilter
  | IceCloudFilter
  | CirrusCloudFilter
  | WaterCloudFilter
  | SpatialCloudTopHeightFilter
  | SpatialHomogeneityFilter
  | CloudPhysicsFilter
  | LowCloudFilter

fun class_name :: "filter_class \<Rightarrow> string" where
  "class_name BaseArrayFilter = ''BaseArrayFilter''"
| "class_name CloudFilter = ''CloudFilter''"
| "class_name SnowFilter = ''SnowFilter''"
| "class_name IceCloudFilter = ''IceCloudFilter''"
| "class_name CirrusCloudFilter = ''CirrusCloudFilter''"
| "class_name WaterCloudFilter = ''WaterCloudFilter''"
| "class_name SpatialCloudTopHeightFilter = ''SpatialCloudTopHeightFilter''"
| "class_name SpatialHomogeneityFilter = ''SpatialHomogeneityFilter''"
| "class_name CloudPhysicsFilter = ''CloudPhysicsFilter''"
| "class_name LowCloudFilter = ''LowCloudFilter''"

text \<open>
  The class attribute \<^verbatim>\<open>attrlist\<close>. The base class declares none: reading
  \<^verbatim>\<open>self.attrlist\<close> on an instance of the base class raises \<^verbatim>\<open>AttributeError\<close>.
\<close>

fun attrlist :: "filter_class \<Rightarrow> string list option" where
  "attrlist BaseArrayFilter = None"
| "attrlist CloudFilter = Some [''ir108'', ''ir039'']"
| "attrlist SnowFilter = Some [''vis006'', ''vis008'', ''nir016'', ''ir108'']"
| "attrlist IceCloudFilter = Some [''ir120'', ''ir087'', ''ir108'']"
| "attrlist CirrusCloudFilter =
     Some [''ir120'', ''ir087'', ''ir108'', ''lat'', ''lon'', ''time'']"
| "attrlist WaterCloudFilter = Some [''vis006'', ''nir016'', ''ir039'', ''cloudmask'']"
| "attrlist SpatialCloudTopHeightFilter = Some [''ir108'', ''clusters'', ''cluster_z'']"
| "attrlist SpatialHomogeneityFilter = Some [''ir108'', ''clusters'']"
| "attrlist CloudPhysicsFilter = Some [''reff'', ''cot'']"
| "attrlist LowCloudFilter =
     Some [''lwp'', ''cth'', ''ir108'', ''clusters'', ''reff'', ''elev'']"

text \<open>
  \<^verbatim>\<open>isapplicable\<close>: the list \<open>ret\<close> of one boolean per required attribute, a warning
  for each missing one, and \<^verbatim>\<open>all(ret)\<close>.
\<close>

definition isapplicable :: "filter_class \<Rightarrow> filter_obj \<Rightarrow> error + (bool \<times> log_entry list)" where
  "isapplicable cls self =
     (case attrlist cls of
        None \<Rightarrow> Inl AttributeError
      | Some al \<Rightarrow>
          (let ret = map (hasattr self) al;
               warnings = map Missing (filter (\<lambda>a. \<not> hasattr self a) al)
           in Inr (list_all (\<lambda>b. b) ret, warnings)))"

text \<open>
  numpy combines two arrays element by element after broadcasting them to one shape. On
  the flat grids of this development: arrays of one size are combined pixel by pixel, an
  array of one element is repeated to the size of the other, and every other pair of
  sizes raises \<^verbatim>\<open>ValueError\<close>.
\<close>

definition broadcast2 :: "('a \<Rightarrow> 'b \<Rightarrow> 'c) \<Rightarrow> 'a list \<Rightarrow> 'b list \<Rightarrow> error + 'c list" where
  "broadcast2 f xs ys =
     (if length xs = length ys then Inr (map2 f xs ys)
      else if length xs = 1 then Inr (map (f (hd xs)) ys)
      else if length ys = 1 then Inr (map (\<lambda>x. f x (hd ys)) xs)
      else Inl ValueError)"

definition bind_err :: "error + 'a \<Rightarrow> ('a \<Rightarrow> error + 'b) \<Rightarrow> error + 'b" where
  "bind_err r f = (case r of Inl e \<Rightarrow> Inl e | Inr x \<Rightarrow> f x)"

text \<open>
  \<^verbatim>\<open>np.ma.array(self.arr, mask=self.mask)\<close>. A mask of one element is repeated to the
  size of the data (\<open>resize_mask\<close>); a mask of any other size that is not the size of
  the data is refused (\<^verbatim>\<open>MaskError\<close>). The default \<^verbatim>\<open>keep_mask=True\<close> then combines
  the new mask with the mask the array already has.
\<close>

definition resize_mask :: "bool list \<Rightarrow> nat \<Rightarrow> bool list" where
  "resize_mask m n = (if length m = n then m else replicate n (hd m))"

definition ma_array :: "real list \<Rightarrow> bool list option \<Rightarrow> bool list \<Rightarrow> error + masked" where
  "ma_array a am m =
     (if length m \<noteq> length a \<and> length m \<noteq> 1 then Inl MaskError
      else (case am of
              None \<Rightarrow> Inr \<lparr>ma_data = a, ma_mask = resize_mask m (length a)\<rparr>
            | Some im \<Rightarrow>
                if length im \<noteq> length a then Inl MaskError
                else Inr \<lparr>ma_data = a, ma_mask = map2 (\<or>) (resize_mask m (length a)) im\<rparr>))"

text \<open>
  The two statements every \<open>filter_function\<close> ends with: \<^verbatim>\<open>self.mask = ...\<close> and
  \<^verbatim>\<open>self.result = np.ma.array(self.arr, mask=self.mask)\<close>.
\<close>

definition set_result :: "filter_obj \<Rightarrow> bool list \<Rightarrow> error + filter_obj" where
  "set_result self m =
     (case ma_array (arr self) (inmask self) m of
        Inl e \<Rightarrow> Inl e
      | Inr r \<Rightarrow> Inr (self\<lparr>msk := Some m, result := Some r\<rparr>))"

definition count_true :: "bool list \<Rightarrow> nat" where
  "count_true bs = length (filter (\<lambda>b. b) bs)"

text \<open>
  \<^verbatim>\<open>filter_stats\<close>: the five numbers of the report. The two counts that combine the
  mask with the inbound mask broadcast them.
\<close>

definition filter_stats :: "filter_obj \<Rightarrow> error + log_entry" where
  "filter_stats self =
     (case msk self of
        None \<Rightarrow> Inl AttributeError
      | Some m \<Rightarrow>
          (let filter_size = length m; filter_num = count_true m in
           case inmask self of
             None \<Rightarrow> Inr (Stats filter_size filter_num 0 filter_num (filter_size - filter_num))
           | Some im \<Rightarrow>
               bind_err (broadcast2 (\<lambda>i f. \<not> i \<and> f) im m) (\<lambda>new_masked.
               bind_err (broadcast2 (\<lambda>f i. \<not> f \<and> \<not> i) m im) (\<lambda>remain.
                 Inr (Stats filter_size filter_num (count_true im)
                        (count_true new_masked) (count_true remain))))))"

text \<open>
  \<^verbatim>\<open>check_results\<close> reports the statistics; plotting is off by default and is not
  modelled.
\<close>

definition check_results :: "filter_obj \<Rightarrow> error + log_entry list" where
  "check_results self =
     (case filter_stats self of Inl e \<Rightarrow> Inl e | Inr s \<Rightarrow> Inr [s])"

text \<open>
  \<^verbatim>\<open>apply\<close>. The filter's \<open>filter_function\<close> is the argument \<open>ff\<close>: it returns what
  it logged and either the exception it raised or the instance with \<^verbatim>\<open>self.result\<close> and
  \<^verbatim>\<open>self.mask\<close> set. The outcome of \<open>apply\<close> is everything logged and either the
  exception or the pair \<^verbatim>\<open>(self.result, self.mask)\<close>.
\<close>

definition apply_filter ::
  "filter_class \<Rightarrow> (filter_obj \<Rightarrow> log_entry list \<times> (error + filter_obj)) \<Rightarrow> filter_obj
     \<Rightarrow> log_entry list \<times> (error + (masked option \<times> bool list option))" where
  "apply_filter cls ff self =
     (case isapplicable cls self of
        Inl e \<Rightarrow> ([], Inl e)
      | Inr (ok, warnings) \<Rightarrow>
          if ok then
            (case ff self of
               (l, Inl e) \<Rightarrow> (warnings @ l, Inl e)
             | (l, Inr self1) \<Rightarrow>
                 (case check_results self1 of
                    Inl e \<Rightarrow> (warnings @ l, Inl e)
                  | Inr l2 \<Rightarrow> (warnings @ l @ l2, Inr (result self1, msk self1))))
          else (warnings, Inl (NotApplicableError (class_name cls))))"

text \<open>
  The shape of every \<open>filter_function\<close>: log that the filter runs, compute the mask
  (which may raise), then set the mask and the result.
\<close>

definition run_filter ::
  "string \<Rightarrow> log_entry list \<times> (error + bool list) \<Rightarrow> filter_obj
     \<Rightarrow> log_entry list \<times> (error + filter_obj)" where
  "run_filter banner computed self =
     (case computed of
        (l, Inl e) \<Rightarrow> (Info banner # l, Inl e)
      | (l, Inr m) \<Rightarrow> (Info banner # l, set_result self m))"

section \<open>The threshold filters\<close>

text \<open>\<^verbatim>\<open>BaseArrayFilter.filter_function\<close> masks every pixel.\<close>

definition BaseArrayFilter_filter_function ::
  "filter_obj \<Rightarrow> log_entry list \<times> (error + filter_obj)" where
  "BaseArrayFilter_filter_function self =
     ([], set_result self (replicate (length (arr self)) True))"

text \<open>
  \<^verbatim>\<open>SnowFilter.filter_function\<close>, operation by operation. The index is \<open>inf\<close> or
  \<open>nan\<close> where the two channels sum to zero.
\<close>

definition snow_mask :: "real list \<Rightarrow> real list \<Rightarrow> real list \<Rightarrow> real list \<Rightarrow> error + bool list" where
  "snow_mask vis006 vis008 nir016 ir108 =
     bind_err (broadcast2 (-) vis006 nir016) (\<lambda>num.
     bind_err (broadcast2 (+) vis006 nir016) (\<lambda>den.
     bind_err (broadcast2 np_div num den) (\<lambda>ndsi.
     bind_err (broadcast2 (\<and>) (map (\<lambda>v. v / 100 \<ge> 0.11) vis008) (map (\<lambda>t. t \<ge> 256) ir108))
       (\<lambda>temp_thres.
     broadcast2 (\<and>) temp_thres (map (\<lambda>x. np_ge x 0.4) ndsi)))))"

definition SnowFilter_filter_function ::
  "real list \<Rightarrow> real list \<Rightarrow> real list \<Rightarrow> real list \<Rightarrow> filter_obj
     \<Rightarrow> log_entry list \<times> (error + filter_obj)" where
  "SnowFilter_filter_function vis006 vis008 nir016 ir108 =
     run_filter ''Applying Snow Filter'' ([], snow_mask vis006 vis008 nir016 ir108)"

text \<open>\<^verbatim>\<open>IceCloudFilter.filter_function\<close> (its log line says "Snow Filter" too).\<close>

definition ice_mask :: "real list \<Rightarrow> real list \<Rightarrow> real list \<Rightarrow> error + bool list" where
  "ice_mask ir120 ir087 ir108 =
     bind_err (broadcast2 (-) ir120 ir087) (\<lambda>ic_diff.
     broadcast2 (\<or>) (map (\<lambda>d. d < 2.5) ic_diff) (map (\<lambda>t. t < 250) ir108))"

definition IceCloudFilter_filter_function ::
  "real list \<Rightarrow> real list \<Rightarrow> real list \<Rightarrow> filter_obj
     \<Rightarrow> log_entry list \<times> (error + filter_obj)" where
  "IceCloudFilter_filter_function ir120 ir087 ir108 =
     run_filter ''Applying Snow Filter'' ([], ice_mask ir120 ir087 ir108)"

text \<open>\<^verbatim>\<open>CloudPhysicsFilter.filter_function\<close>, on plain arrays.\<close>

definition cpp_mask :: "real list \<Rightarrow> real list \<Rightarrow> error + bool list" where
  "cpp_mask cotau reff =
     broadcast2 (\<or>) (map (\<lambda>c. c > 30) cotau) (map (\<lambda>r. r > 20 / 10 ^ 6) reff)"

definition CloudPhysicsFilter_filter_function ::
  "real list \<Rightarrow> real list \<Rightarrow> filter_obj \<Rightarrow> log_entry list \<times> (error + filter_obj)" where
  "CloudPhysicsFilter_filter_function cotau reff =
     run_filter ''Applying Spatial Clustering Inhomogenity Filter'' ([], cpp_mask cotau reff)"

definition CirrusCloudFilter_filter_function ::
  "real list \<Rightarrow> real list \<Rightarrow> real list \<Rightarrow> real list \<Rightarrow> filter_obj
     \<Rightarrow> log_entry list \<times> (error + filter_obj)" where
  "CirrusCloudFilter_filter_function ir108 ir120 ir087 secsza =
     run_filter ''Applying Cirrus Filter''
       ([], cirrus_filter_function ir108 ir120 ir087 secsza)"

section \<open>Properties of the filter contract\<close>

lemma list_all_map_id: "list_all (\<lambda>b. b) (map P xs) \<longleftrightarrow> (\<forall>x \<in> set xs. P x)"
  by (induction xs) auto

lemma isapplicable_Some:
  assumes "attrlist cls = Some al"
  shows "isapplicable cls self =
    Inr ((\<forall>a \<in> set al. hasattr self a), map Missing (filter (\<lambda>a. \<not> hasattr self a) al))"
  using assms by (simp add: isapplicable_def list_all_map_id)

lemma apply_filter_not_applicable:
  assumes "attrlist cls = Some al" and "\<not> (\<forall>a \<in> set al. hasattr self a)"
  shows "apply_filter cls ff self =
    (map Missing (filter (\<lambda>a. \<not> hasattr self a) al), Inl (NotApplicableError (class_name cls)))"
proof -
  have "isapplicable cls self =
      Inr (False, map Missing (filter (\<lambda>a. \<not> hasattr self a) al))"
    using assms isapplicable_Some [of cls al self] by simp
  then show ?thesis by (simp add: apply_filter_def)
qed

lemma length_resize_mask: "length m = n \<or> length m = 1 \<Longrightarrow> length (resize_mask m n) = n"
  by (auto simp: resize_mask_def)

lemma set_result_Inr:
  assumes "set_result self m = Inr self1"
  shows "msk self1 = Some m \<and> arr self1 = arr self \<and> inmask self1 = inmask self
    \<and> (length m = length (arr self) \<or> length m = 1)
    \<and> (\<exists>r. result self1 = Some r \<and> ma_data r = arr self
          \<and> ma_mask r = (case inmask self of
                           None \<Rightarrow> resize_mask m (length (arr self))
                         | Some im \<Rightarrow> map2 (\<or>) (resize_mask m (length (arr self))) im)
          \<and> length (ma_mask r) = length (arr self))"
proof -
  from assms obtain r where r: "ma_array (arr self) (inmask self) m = Inr r"
    and s: "self1 = self\<lparr>msk := Some m, result := Some r\<rparr>"
    by (auto simp: set_result_def split: sum.splits)
  from r have l: "length m = length (arr self) \<or> length m = 1"
    by (auto simp: ma_array_def split: if_splits)
  have lr: "length (resize_mask m (length (arr self))) = length (arr self)"
    using l by (rule length_resize_mask)
  from r lr have d: "ma_data r = arr self"
    and k: "ma_mask r = (case inmask self of
                          None \<Rightarrow> resize_mask m (length (arr self))
                        | Some im \<Rightarrow> map2 (\<or>) (resize_mask m (length (arr self))) im)"
    and lm: "length (ma_mask r) = length (arr self)"
    by (auto simp: ma_array_def split: if_splits option.splits)
  have "result self1 = Some r" using s by simp
  with d k lm have e: "\<exists>r. result self1 = Some r \<and> ma_data r = arr self
      \<and> ma_mask r = (case inmask self of
                       None \<Rightarrow> resize_mask m (length (arr self))
                     | Some im \<Rightarrow> map2 (\<or>) (resize_mask m (length (arr self))) im)
      \<and> length (ma_mask r) = length (arr self)"
    by blast
  have "msk self1 = Some m" "arr self1 = arr self" "inmask self1 = inmask self"
    using s by simp_all
  with l e show ?thesis by blast
qed

lemma run_filter_Inr:
  assumes "run_filter banner c self = (l, Inr self1)"
  shows "\<exists>m. snd c = Inr m \<and> set_result self m = Inr self1"
  using assms by (auto simp: run_filter_def split: prod.splits sum.splits)

lemma apply_filter_Inr:
  assumes "apply_filter cls ff self = (l, Inr out)"
  shows "\<exists>l1 self1. ff self = (l1, Inr self1) \<and> out = (result self1, msk self1)"
  using assms
  by (auto simp: apply_filter_def split: sum.splits prod.splits if_splits)

text \<open>
  The reading of "inputs of compatible shape" (section 3 of the specification: all inputs
  to a filter have one shape).
\<close>

definition compatible_shape :: "real list list \<Rightarrow> bool" where
  "compatible_shape gs \<longleftrightarrow> (\<forall>g \<in> set gs. \<forall>h \<in> set gs. length g = length h)"

text \<open>
  C8, as the code has it. For a filter class that declares its required inputs (every
  class but the base class), \<open>isapplicable\<close> returns without raising; it returns true
  exactly when every required attribute is an attribute of the instance (the shapes of
  the values are not looked at); its warnings are exactly the missing requirements; and
  when it returns false, \<open>apply\<close> raises \<open>NotApplicableError\<close> with the name of the
  class, whatever the filter's algorithm \<open>ff\<close> is, and logs nothing but those
  warnings: the algorithm has not run.
\<close>

theorem isapplicable_by_name_only:
  assumes "attrlist cls = Some al"
  shows "\<exists>ok ws. isapplicable cls self = Inr (ok, ws)
    \<and> (ok \<longleftrightarrow> (\<forall>a \<in> set al. hasattr self a))
    \<and> (\<forall>a. Missing a \<in> set ws \<longleftrightarrow> a \<in> set al \<and> \<not> hasattr self a)
    \<and> (\<not> ok \<longrightarrow>
         (\<forall>ff. apply_filter cls ff self = (ws, Inl (NotApplicableError (class_name cls)))))"
proof (intro exI conjI)
  show "isapplicable cls self =
    Inr ((\<forall>a \<in> set al. hasattr self a), map Missing (filter (\<lambda>a. \<not> hasattr self a) al))"
    using assms by (rule isapplicable_Some)
  show "(\<forall>a \<in> set al. hasattr self a) \<longleftrightarrow> (\<forall>a \<in> set al. hasattr self a)" ..
  show "\<forall>a. Missing a \<in> set (map Missing (filter (\<lambda>a. \<not> hasattr self a) al))
      \<longleftrightarrow> a \<in> set al \<and> \<not> hasattr self a"
    by auto
  show "\<not> (\<forall>a \<in> set al. hasattr self a) \<longrightarrow>
    (\<forall>ff. apply_filter cls ff self =
       (map Missing (filter (\<lambda>a. \<not> hasattr self a) al),
        Inl (NotApplicableError (class_name cls))))"
    using apply_filter_not_applicable [OF assms] by blast
qed

theorem isapplicable_by_name_only_witness:
  "isapplicable IceCloudFilter (init (NDArray [280]) [''ir120'', ''ir108''])
      = Inr (False, [Missing ''ir087''])
   \<and> apply_filter IceCloudFilter (IceCloudFilter_filter_function [290] [280] [280])
        (init (NDArray [280]) [''ir120'', ''ir108''])
      = ([Missing ''ir087''], Inl (NotApplicableError ''IceCloudFilter''))"
proof -
  let ?self = "init (NDArray [280]) [''ir120'', ''ir108'']"
  have a: "attrlist IceCloudFilter = Some [''ir120'', ''ir087'', ''ir108'']" by simp
  have i: "isapplicable IceCloudFilter ?self = Inr (False, [Missing ''ir087''])"
    by (simp add: isapplicable_def hasattr_def init_def init_attrs_def)
  from isapplicable_by_name_only [OF a, of ?self] i
  have "\<forall>ff. apply_filter IceCloudFilter ff ?self
      = ([Missing ''ir087''], Inl (NotApplicableError (class_name IceCloudFilter)))"
    by auto
  then have "apply_filter IceCloudFilter (IceCloudFilter_filter_function [290] [280] [280]) ?self
      = ([Missing ''ir087''], Inl (NotApplicableError (class_name IceCloudFilter)))"
    by blast
  with i show ?thesis by simp
qed

text \<open>
  The claim as the specification words it fails. A snow filter whose four required
  attributes are all present, with \<open>vis008\<close> of three pixels and the other grids of
  two, is applicable: the algorithm runs and numpy refuses to combine \<open>vis008\<close> with
  \<open>ir108\<close>. With \<open>vis008\<close> of two pixels and the other grids of one, the filter is
  applicable as well, numpy broadcasts, and the mask of two pixels is refused for the
  array of one. And on an instance of the base class \<open>isapplicable\<close> raises.
\<close>

theorem isapplicable_ignores_shape:
  "isapplicable SnowFilter
      (init (NDArray [50, 60]) [''vis006'', ''vis008'', ''nir016'', ''ir108''])
      = Inr (True, [])
   \<and> \<not> compatible_shape [[50, 60], [50, 60, 70], [10, 20], [260, 270]]
   \<and> apply_filter SnowFilter (SnowFilter_filter_function [50, 60] [50, 60, 70] [10, 20] [260, 270])
        (init (NDArray [50, 60]) [''vis006'', ''vis008'', ''nir016'', ''ir108''])
      = ([Info ''Applying Snow Filter''], Inl ValueError)
   \<and> \<not> compatible_shape [[50], [50, 60], [10], [260]]
   \<and> apply_filter SnowFilter (SnowFilter_filter_function [50] [50, 60] [10] [260])
        (init (NDArray [50]) [''vis006'', ''vis008'', ''nir016'', ''ir108''])
      = ([Info ''Applying Snow Filter''], Inl MaskError)
   \<and> isapplicable BaseArrayFilter (init (NDArray [1]) []) = Inl AttributeError"
  by (simp add: isapplicable_def hasattr_def init_def init_attrs_def compatible_shape_def
      apply_filter_def SnowFilter_filter_function_def run_filter_def snow_mask_def
      broadcast2_def bind_err_def set_result_def ma_array_def)

section \<open>CloudFilter\<close>

text \<open>\<^verbatim>\<open>numpy.diff\<close>, \<^verbatim>\<open>nonzero()[0]\<close> of a boolean array, indexing by a list of indices,
  and \<^verbatim>\<open>numpy.min\<close> and \<^verbatim>\<open>numpy.max\<close>, which raise on an empty array.\<close>

fun np_diff :: "int list \<Rightarrow> int list" where
  "np_diff (x # y # ys) = (y - x) # np_diff (y # ys)"
| "np_diff [x] = []"
| "np_diff [] = []"

fun nonzero_from :: "nat \<Rightarrow> bool list \<Rightarrow> nat list" where
  "nonzero_from i [] = []"
| "nonzero_from i (b # bs) = (if b then i # nonzero_from (Suc i) bs else nonzero_from (Suc i) bs)"

definition nonzero :: "bool list \<Rightarrow> nat list" where
  "nonzero bs = nonzero_from 0 bs"

definition take_idx :: "'a list \<Rightarrow> nat list \<Rightarrow> error + 'a list" where
  "take_idx xs idx = map_err (getitem xs) idx"

definition np_min :: "real list \<Rightarrow> error + real" where
  "np_min xs = (case xs of [] \<Rightarrow> Inl ValueError | x # r \<Rightarrow> Inr (fold min r x))"

definition np_max :: "real list \<Rightarrow> error + real" where
  "np_max xs = (case xs of [] \<Rightarrow> Inl ValueError | x # r \<Rightarrow> Inr (fold max r x))"

text \<open>
  The local minima of the histogram counts, as lines 269 and 270 find them: the sign of
  the first difference rises there.
\<close>

definition localmin :: "int list \<Rightarrow> nat list" where
  "localmin counts =
     (let peaks = map sgn (np_diff counts)
      in map Suc (nonzero (map (\<lambda>d. d > 0) (np_diff peaks))))"

definition localmax :: "int list \<Rightarrow> nat list" where
  "localmax counts =
     (let peaks = map sgn (np_diff counts)
      in map Suc (nonzero (map (\<lambda>d. d < 0) (np_diff peaks))))"

text \<open>
  \<^verbatim>\<open>CloudFilter.filter_function\<close> up to \<^verbatim>\<open>self.mask\<close>. The histogram
  \<open>(counts, edges)\<close> is what \<^verbatim>\<open>np.histogram(cm_diff.compressed(), bins='auto')\<close>
  returned and \<open>peakind\<close> what scipy's \<^verbatim>\<open>find_peaks_cwt\<close> returned for it: both
  are library results, given to the model. The outcome is the log and either the
  exception or the threshold \<^verbatim>\<open>self.thres\<close> with the mask.
\<close>

definition cloud_filter_function ::
  "real list \<Rightarrow> real list \<Rightarrow> int list \<Rightarrow> real list \<Rightarrow> nat list
     \<Rightarrow> log_entry list \<times> (error + (real \<times> bool list))" where
  "cloud_filter_function ir108 ir039 counts edges peakind =
     (if length ir039 \<noteq> length ir108 then ([], Inl ValueError)
      else
        (let cm_diff = map2 (-) ir108 ir039 in
         case take_idx edges peakind of
           Inl e \<Rightarrow> ([], Inl e)
         | Inr peak_edges \<Rightarrow>
             (let peakrange = filter (\<lambda>e. e \<ge> - 10 \<and> e < 10) peak_edges in
              case np_min peakrange of
                Inl e \<Rightarrow> ([], Inl e)
              | Inr minpeak \<Rightarrow>
                  (case np_max peakrange of
                     Inl e \<Rightarrow> ([], Inl e)
                   | Inr maxpeak \<Rightarrow>
                       (case take_idx edges (localmin counts) of
                          Inl e \<Rightarrow> ([HistRange minpeak maxpeak], Inl e)
                        | Inr localmin_edges \<Rightarrow>
                            (let candidates =
                                   filter (\<lambda>e. e \<le> maxpeak \<and> e \<ge> minpeak \<and> e < 0.5)
                                     localmin_edges in
                             case np_max candidates of
                               Inl e \<Rightarrow> ([HistRange minpeak maxpeak], Inl e)
                             | Inr thres \<Rightarrow>
                                 ([HistRange minpeak maxpeak,
                                   if thres > 0 \<or> thres < - 5 then ThresWarning thres
                                   else ThresDebug thres],
                                  Inr (thres, map (\<lambda>d. d > thres) cm_diff))))))))"

definition CloudFilter_filter_function ::
  "real list \<Rightarrow> real list \<Rightarrow> int list \<Rightarrow> real list \<Rightarrow> nat list \<Rightarrow> filter_obj
     \<Rightarrow> log_entry list \<times> (error + filter_obj)" where
  "CloudFilter_filter_function ir108 ir039 counts edges peakind =
     run_filter ''Applying Cloud Filter''
       (case cloud_filter_function ir108 ir039 counts edges peakind of
          (l, Inl e) \<Rightarrow> (l, Inl e)
        | (l, Inr (thres, m)) \<Rightarrow> (l, Inr m))"

text \<open>
  The terms of the claim, stated on the histogram itself rather than by the index
  arithmetic of the code. A local minimum of the histogram is an interior bin whose count
  is not above the count of either neighbour and is below the count of at least one of
  them (on the flat floor of a valley: its two ends). The bounds are the least and the
  greatest edge among the detected peaks within \<open>[-10, 10)\<close>, and the candidates are
  the edges at local minima that lie within the bounds and below 0.5.
\<close>

definition local_minimum :: "int list \<Rightarrow> nat \<Rightarrow> bool" where
  "local_minimum counts j \<longleftrightarrow>
     0 < j \<and> j + 1 < length counts
     \<and> counts ! j \<le> counts ! (j - 1) \<and> counts ! j \<le> counts ! (j + 1)
     \<and> (counts ! j < counts ! (j - 1) \<or> counts ! j < counts ! (j + 1))"

definition peak_edges_in_range :: "real list \<Rightarrow> nat list \<Rightarrow> real set" where
  "peak_edges_in_range edges peakind = {edges ! p | p. p \<in> set peakind \<and> - 10 \<le> edges ! p \<and> edges ! p < 10}"

definition candidate_edges :: "int list \<Rightarrow> real list \<Rightarrow> real \<Rightarrow> real \<Rightarrow> real set" where
  "candidate_edges counts edges minpeak maxpeak =
     {edges ! j | j. local_minimum counts j \<and> minpeak \<le> edges ! j \<and> edges ! j \<le> maxpeak
        \<and> edges ! j < 0.5}"

section \<open>Properties of the cloud filter\<close>

lemma length_np_diff: "length (np_diff xs) = length xs - 1"
  by (induction xs rule: np_diff.induct) auto

lemma nth_np_diff: "Suc i < length xs \<Longrightarrow> np_diff xs ! i = xs ! Suc i - xs ! i"
proof (induction xs arbitrary: i rule: np_diff.induct)
  case (1 x y ys)
  then show ?case by (cases i) auto
qed auto

lemma set_nonzero_from: "set (nonzero_from i bs) = {i + k | k. k < length bs \<and> bs ! k}"
proof (induction bs arbitrary: i)
  case Nil
  then show ?case by simp
next
  case (Cons b bs)
  have "{i + k | k. k < length (b # bs) \<and> (b # bs) ! k}
      = (if b then {i} else {}) \<union> {Suc i + k | k. k < length bs \<and> bs ! k}"
  proof (intro set_eqI iffI)
    fix x assume "x \<in> {i + k | k. k < length (b # bs) \<and> (b # bs) ! k}"
    then obtain k where k: "x = i + k" "k < length (b # bs)" "(b # bs) ! k" by blast
    show "x \<in> (if b then {i} else {}) \<union> {Suc i + k | k. k < length bs \<and> bs ! k}"
    proof (cases k)
      case 0
      with k show ?thesis by simp
    next
      case (Suc k')
      with k have "x = Suc i + k'" "k' < length bs" "bs ! k'" by simp_all
      then show ?thesis by blast
    qed
  next
    fix x assume "x \<in> (if b then {i} else {}) \<union> {Suc i + k | k. k < length bs \<and> bs ! k}"
    then consider "b" "x = i" | k where "x = Suc i + k" "k < length bs" "bs ! k"
      by (auto split: if_splits)
    then show "x \<in> {i + k | k. k < length (b # bs) \<and> (b # bs) ! k}"
    proof cases
      case 1
      then have "x = i + 0 \<and> 0 < length (b # bs) \<and> (b # bs) ! 0" by simp
      then show ?thesis by blast
    next
      case 2
      then have "x = i + Suc k \<and> Suc k < length (b # bs) \<and> (b # bs) ! Suc k" by simp
      then show ?thesis by blast
    qed
  qed
  then show ?case using Cons.IH [of "Suc i"] by auto
qed

lemma set_nonzero: "set (nonzero bs) = {i. i < length bs \<and> bs ! i}"
  by (simp add: nonzero_def set_nonzero_from)

text \<open>An index is a local minimum when the sign of the slope rises across it.\<close>

lemma localmin_iff:
  "j \<in> set (localmin counts) \<longleftrightarrow>
     0 < j \<and> Suc j < length counts
     \<and> sgn (counts ! Suc j - counts ! j) > sgn (counts ! j - counts ! (j - 1))"
proof -
  let ?peaks = "map sgn (np_diff counts)"
  have "j \<in> set (localmin counts) \<longleftrightarrow>
    (\<exists>i. j = Suc i \<and> i < length (np_diff ?peaks) \<and> np_diff ?peaks ! i > 0)"
    by (auto simp: localmin_def set_nonzero)
  also have "\<dots> \<longleftrightarrow> (\<exists>i. j = Suc i \<and> Suc (Suc i) < length counts
      \<and> sgn (counts ! Suc (Suc i) - counts ! Suc i) > sgn (counts ! Suc i - counts ! i))"
  proof -
    have "np_diff ?peaks ! i = sgn (counts ! Suc (Suc i) - counts ! Suc i)
        - sgn (counts ! Suc i - counts ! i)"
      if "Suc (Suc i) < length counts" for i
      using that by (simp add: nth_np_diff length_np_diff)
    moreover have "i < length (np_diff ?peaks) \<longleftrightarrow> Suc (Suc i) < length counts" for i
      by (auto simp: length_np_diff)
    ultimately show ?thesis by auto
  qed
  also have "\<dots> \<longleftrightarrow> 0 < j \<and> Suc j < length counts
     \<and> sgn (counts ! Suc j - counts ! j) > sgn (counts ! j - counts ! (j - 1))"
    by (cases j) auto
  finally show ?thesis .
qed

text \<open>The indices the code finds are exactly the local minima.\<close>

lemma sgn_rises_iff:
  fixes a b :: int
  shows "sgn a > sgn b \<longleftrightarrow> b \<le> 0 \<and> 0 \<le> a \<and> (b < 0 \<or> 0 < a)"
  by (auto simp: sgn_if)

lemma localmin_local_minimum: "j \<in> set (localmin counts) \<longleftrightarrow> local_minimum counts j"
proof -
  have "sgn (counts ! Suc j - counts ! j) > sgn (counts ! j - counts ! (j - 1)) \<longleftrightarrow>
      counts ! j \<le> counts ! (j - 1) \<and> counts ! j \<le> counts ! (j + 1)
      \<and> (counts ! j < counts ! (j - 1) \<or> counts ! j < counts ! (j + 1))"
    unfolding sgn_rises_iff by auto
  then show ?thesis
    unfolding localmin_iff local_minimum_def by simp
qed

lemma take_idx_Inr:
  assumes "take_idx xs idx = Inr ys"
  shows "ys = map ((!) xs) idx \<and> (\<forall>i \<in> set idx. i < length xs)"
proof -
  from map_err_Inr [OF assms [unfolded take_idx_def]]
  have l: "length ys = length idx" and v: "\<forall>i < length idx. getitem xs (idx ! i) = Inr (ys ! i)"
    by auto
  have "ys ! i = xs ! (idx ! i) \<and> idx ! i < length xs" if "i < length idx" for i
    using v that by (auto simp: getitem_def split: if_splits)
  then show ?thesis using l by (auto simp: list_eq_iff_nth_eq in_set_conv_nth)
qed

lemma take_idx_total:
  assumes "\<forall>i \<in> set idx. i < length xs"
  shows "take_idx xs idx = Inr (map ((!) xs) idx)"
  using assms by (induction idx) (auto simp: take_idx_def getitem_def)

lemma fold_max_Max: "fold max xs x = Max (set (x # xs))"
  by (simp only: Max.set_eq_fold)

lemma fold_min_Min: "fold min xs x = Min (set (x # xs))"
  by (simp only: Min.set_eq_fold)

lemma np_max_Inr: "np_max xs = Inr v \<Longrightarrow> xs \<noteq> [] \<and> v = Max (set xs)"
  by (cases xs) (auto simp: np_max_def fold_max_Max)

lemma np_min_Inr: "np_min xs = Inr v \<Longrightarrow> xs \<noteq> [] \<and> v = Min (set xs)"
  by (cases xs) (auto simp: np_min_def fold_min_Min)

lemma np_max_total: "xs \<noteq> [] \<Longrightarrow> np_max xs = Inr (Max (set xs))"
  by (cases xs) (auto simp: np_max_def fold_max_Max)

lemma np_min_total: "xs \<noteq> [] \<Longrightarrow> np_min xs = Inr (Min (set xs))"
  by (cases xs) (auto simp: np_min_def fold_min_Min)

lemma cloud_filter_function_Inr:
  assumes "cloud_filter_function ir108 ir039 counts edges peakind = (l, Inr (thres, m))"
  shows "\<exists>pe lme minpeak maxpeak.
    length ir039 = length ir108
    \<and> take_idx edges peakind = Inr pe
    \<and> np_min (filter (\<lambda>e. e \<ge> - 10 \<and> e < 10) pe) = Inr minpeak
    \<and> np_max (filter (\<lambda>e. e \<ge> - 10 \<and> e < 10) pe) = Inr maxpeak
    \<and> take_idx edges (localmin counts) = Inr lme
    \<and> np_max (filter (\<lambda>e. e \<le> maxpeak \<and> e \<ge> minpeak \<and> e < 0.5) lme) = Inr thres
    \<and> l = [HistRange minpeak maxpeak,
           if thres > 0 \<or> thres < - 5 then ThresWarning thres else ThresDebug thres]
    \<and> m = map (\<lambda>d. d > thres) (map2 (-) ir108 ir039)"
  using assms
  by (auto simp: cloud_filter_function_def Let_def split: if_splits sum.splits)

lemma peak_edges_set:
  "set (filter (\<lambda>e. e \<ge> - 10 \<and> e < 10) (map ((!) edges) peakind))
     = peak_edges_in_range edges peakind"
  by (auto simp: peak_edges_in_range_def)

lemma candidate_edges_set:
  "set (filter (\<lambda>e. e \<le> maxpeak \<and> e \<ge> minpeak \<and> e < 0.5) (map ((!) edges) (localmin counts)))
     = candidate_edges counts edges minpeak maxpeak"
  by (auto simp: candidate_edges_def localmin_local_minimum)

lemma cloud_filter_function_threshold:
  assumes "cloud_filter_function ir108 ir039 counts edges peakind = (l, Inr (thres, m))"
  shows "peak_edges_in_range edges peakind \<noteq> {}
    \<and> thres \<in> candidate_edges counts edges
        (Min (peak_edges_in_range edges peakind)) (Max (peak_edges_in_range edges peakind))
    \<and> (\<forall>e \<in> candidate_edges counts edges
        (Min (peak_edges_in_range edges peakind)) (Max (peak_edges_in_range edges peakind)).
          e \<le> thres)"
proof -
  let ?P = "\<lambda>e::real. e \<ge> - 10 \<and> e < 10"
  from cloud_filter_function_Inr [OF assms] obtain pe lme minpeak maxpeak where
    pe: "take_idx edges peakind = Inr pe"
    and mn: "np_min (filter ?P pe) = Inr minpeak"
    and mx: "np_max (filter ?P pe) = Inr maxpeak"
    and lme: "take_idx edges (localmin counts) = Inr lme"
    and th: "np_max (filter (\<lambda>e. e \<le> maxpeak \<and> e \<ge> minpeak \<and> e < 0.5) lme) = Inr thres"
    by blast
  have pe': "pe = map ((!) edges) peakind" using take_idx_Inr [OF pe] by simp
  have lme': "lme = map ((!) edges) (localmin counts)" using take_idx_Inr [OF lme] by simp
  from np_min_Inr [OF mn] have ne: "filter ?P pe \<noteq> []"
    and minpeak: "minpeak = Min (peak_edges_in_range edges peakind)"
    unfolding pe' peak_edges_set by simp_all
  from np_max_Inr [OF mx] have maxpeak: "maxpeak = Max (peak_edges_in_range edges peakind)"
    unfolding pe' peak_edges_set by simp
  have "set (filter ?P pe) \<noteq> {}" using ne set_empty [of "filter ?P pe"] by blast
  then have 1: "peak_edges_in_range edges peakind \<noteq> {}"
    unfolding pe' peak_edges_set .
  let ?C = "candidate_edges counts edges minpeak maxpeak"
  let ?cs = "filter (\<lambda>e. e \<le> maxpeak \<and> e \<ge> minpeak \<and> e < 0.5) lme"
  from np_max_Inr [OF th] have csne: "?cs \<noteq> []" and t0: "thres = Max (set ?cs)"
    by simp_all
  have cs: "set ?cs = ?C" unfolding lme' by (rule candidate_edges_set)
  have "set ?cs \<noteq> {}" using csne by (simp only: set_empty not_False_eq_True)
  then have cne: "?C \<noteq> {}" unfolding cs .
  have t: "thres = Max ?C" using t0 unfolding cs .
  have "finite (set ?cs)" by (rule finite_set)
  then have fin: "finite ?C" unfolding cs .
  have "thres \<in> ?C" using Max_in [OF fin cne] unfolding t .
  moreover have "\<forall>e \<in> ?C. e \<le> thres" using Max_ge [OF fin] unfolding t by blast
  ultimately show ?thesis using 1 unfolding minpeak maxpeak by blast
qed

lemma cloud_filter_function_mask:
  assumes "cloud_filter_function ir108 ir039 counts edges peakind = (l, Inr (thres, m))"
  shows "length m = length ir108
    \<and> (\<forall>i < length ir108. m ! i \<longleftrightarrow> ir108 ! i - ir039 ! i > thres)
    \<and> (ThresWarning thres \<in> set l \<longleftrightarrow> thres > 0 \<or> thres < - 5)
    \<and> (\<forall>t. ThresWarning t \<in> set l \<longrightarrow> t = thres)"
proof -
  from cloud_filter_function_Inr [OF assms] obtain minpeak maxpeak where
    len: "length ir039 = length ir108"
    and l: "l = [HistRange minpeak maxpeak,
           if thres > 0 \<or> thres < - 5 then ThresWarning thres else ThresDebug thres]"
    and m: "m = map (\<lambda>d. d > thres) (map2 (-) ir108 ir039)"
    by blast
  show ?thesis using len by (auto simp: l m)
qed

lemma localmin_in_range:
  assumes "length edges = length counts + 1" and "j \<in> set (localmin counts)"
  shows "j < length edges"
  using assms localmin_iff [of j counts] by simp

lemma cloud_filter_function_total:
  assumes "length ir039 = length ir108"
    and "\<forall>p \<in> set peakind. p < length edges"
    and "length edges = length counts + 1"
    and "peak_edges_in_range edges peakind \<noteq> {}"
    and "candidate_edges counts edges
        (Min (peak_edges_in_range edges peakind)) (Max (peak_edges_in_range edges peakind)) \<noteq> {}"
  shows "\<exists>l thres m. cloud_filter_function ir108 ir039 counts edges peakind = (l, Inr (thres, m))"
proof -
  let ?P = "\<lambda>e::real. e \<ge> - 10 \<and> e < 10"
  let ?pe = "map ((!) edges) peakind"
  let ?lme = "map ((!) edges) (localmin counts)"
  let ?mn = "Min (peak_edges_in_range edges peakind)"
  let ?mx = "Max (peak_edges_in_range edges peakind)"
  let ?Q = "\<lambda>e::real. e \<le> ?mx \<and> e \<ge> ?mn \<and> e < 0.5"
  have pe: "take_idx edges peakind = Inr ?pe" using assms(2) by (rule take_idx_total)
  have lme: "take_idx edges (localmin counts) = Inr ?lme"
    using localmin_in_range [OF assms(3)] by (intro take_idx_total) blast
  have "set (filter ?P ?pe) \<noteq> {}" using assms(4) unfolding peak_edges_set .
  then have ne: "filter ?P ?pe \<noteq> []" using set_empty [of "filter ?P ?pe"] by blast
  have mn: "np_min (filter ?P ?pe) = Inr ?mn"
    using np_min_total [OF ne] unfolding peak_edges_set .
  have mx: "np_max (filter ?P ?pe) = Inr ?mx"
    using np_max_total [OF ne] unfolding peak_edges_set .
  have "set (filter ?Q ?lme) \<noteq> {}" using assms(5) unfolding candidate_edges_set .
  then have cne: "filter ?Q ?lme \<noteq> []" using set_empty [of "filter ?Q ?lme"] by blast
  from np_max_total [OF cne] obtain thres where th: "np_max (filter ?Q ?lme) = Inr thres"
    by blast
  show ?thesis
    using assms(1) pe lme mn mx th by (simp add: cloud_filter_function_def Let_def)
qed

text \<open>
  C3. When the filter returns, (1) the peak range is not empty and the threshold is the
  greatest edge among the candidates: the bin edges at the local minima of the histogram
  that lie between the least and the greatest in-range peak edge and below 0.5, a local
  minimum being an interior bin whose count is not above either neighbour's and is below
  at least one of them (\<open>local_minimum\<close>, which does not refer to the code); (2) the
  mask has the grid's shape and masks exactly the pixels whose 10.8 um minus 3.9 um
  difference exceeds the threshold; (3) the log holds a warning for the threshold exactly
  when it is above 0 or below -5, and the outcome is the mask, not an error. (4) The
  filter does return for every well-formed histogram with in-range peaks whose candidate
  set is not empty.
\<close>

theorem cloud_threshold_is_greatest_candidate:
  "(cloud_filter_function ir108 ir039 counts edges peakind = (l, Inr (thres, m)) \<longrightarrow>
      peak_edges_in_range edges peakind \<noteq> {}
      \<and> thres \<in> candidate_edges counts edges
          (Min (peak_edges_in_range edges peakind)) (Max (peak_edges_in_range edges peakind))
      \<and> (\<forall>e \<in> candidate_edges counts edges
          (Min (peak_edges_in_range edges peakind)) (Max (peak_edges_in_range edges peakind)).
            e \<le> thres)
      \<and> length m = length ir108
      \<and> (\<forall>i < length ir108. m ! i \<longleftrightarrow> ir108 ! i - ir039 ! i > thres)
      \<and> (ThresWarning thres \<in> set l \<longleftrightarrow> thres > 0 \<or> thres < - 5)
      \<and> (\<forall>t. ThresWarning t \<in> set l \<longrightarrow> t = thres))
   \<and> (length ir039 = length ir108 \<and> (\<forall>p \<in> set peakind. p < length edges)
        \<and> length edges = length counts + 1
        \<and> peak_edges_in_range edges peakind \<noteq> {}
        \<and> candidate_edges counts edges
            (Min (peak_edges_in_range edges peakind)) (Max (peak_edges_in_range edges peakind))
            \<noteq> {} \<longrightarrow>
      (\<exists>l thres m. cloud_filter_function ir108 ir039 counts edges peakind = (l, Inr (thres, m))))"
proof (intro conjI impI)
  assume a: "cloud_filter_function ir108 ir039 counts edges peakind = (l, Inr (thres, m))"
  note t = cloud_filter_function_threshold [OF a]
  note k = cloud_filter_function_mask [OF a]
  show "peak_edges_in_range edges peakind \<noteq> {}" using t by (rule conjunct1)
  show "thres \<in> candidate_edges counts edges
          (Min (peak_edges_in_range edges peakind)) (Max (peak_edges_in_range edges peakind))"
    using t by (elim conjE)
  show "\<forall>e \<in> candidate_edges counts edges
          (Min (peak_edges_in_range edges peakind)) (Max (peak_edges_in_range edges peakind)).
            e \<le> thres"
    using t by (elim conjE)
  show "length m = length ir108" using k by (rule conjunct1)
  show "\<forall>i < length ir108. m ! i \<longleftrightarrow> ir108 ! i - ir039 ! i > thres"
    using k by (elim conjE)
  show "ThresWarning thres \<in> set l \<longleftrightarrow> thres > 0 \<or> thres < - 5"
    using k by (elim conjE)
  show "\<forall>t. ThresWarning t \<in> set l \<longrightarrow> t = thres"
    using k by (elim conjE)
next
  assume "length ir039 = length ir108 \<and> (\<forall>p \<in> set peakind. p < length edges)
        \<and> length edges = length counts + 1
        \<and> peak_edges_in_range edges peakind \<noteq> {}
        \<and> candidate_edges counts edges
            (Min (peak_edges_in_range edges peakind)) (Max (peak_edges_in_range edges peakind))
            \<noteq> {}"
  then show "\<exists>l thres m. cloud_filter_function ir108 ir039 counts edges peakind
      = (l, Inr (thres, m))"
    by (elim conjE) (rule cloud_filter_function_total)
qed


lemma localmin_example:
  "localmin [1, 2, 4, 7, 9, 7, 4, 2, 1, 3, 6, 10, 14, 10, 6, 3, 2, 1, 1] = [8, 17]"
  by (simp add: localmin_def nonzero_def)

lemma cloud_filter_function_example:
  "cloud_filter_function [270, 280, 285] [278, 280, 286]
     [1, 2, 4, 7, 9, 7, 4, 2, 1, 3, 6, 10, 14, 10, 6, 3, 2, 1, 1]
     [- 12, - 11, - 10, - 9, - 8, - 7, - 6, - 5, - 4, - 3, - 2, - 1, 0, 1, 2, 3, 4, 5, 6, 7]
     [4, 12]
     = ([HistRange (- 8) 0, ThresDebug (- 4)], Inr (- 4, [False, True, True]))"
  by (simp add: cloud_filter_function_def localmin_example take_idx_def getitem_def
      np_min_def np_max_def)

theorem cloud_threshold_is_greatest_candidate_witness:
  "cloud_filter_function [270, 280, 285] [278, 280, 286]
     [1, 2, 4, 7, 9, 7, 4, 2, 1, 3, 6, 10, 14, 10, 6, 3, 2, 1, 1]
     [- 12, - 11, - 10, - 9, - 8, - 7, - 6, - 5, - 4, - 3, - 2, - 1, 0, 1, 2, 3, 4, 5, 6, 7]
     [4, 12]
     = ([HistRange (- 8) 0, ThresDebug (- 4)], Inr (- 4, [False, True, True]))
   \<and> - 4 \<in> candidate_edges [1, 2, 4, 7, 9, 7, 4, 2, 1, 3, 6, 10, 14, 10, 6, 3, 2, 1, 1]
        [- 12, - 11, - 10, - 9, - 8, - 7, - 6, - 5, - 4, - 3, - 2, - 1, 0, 1, 2, 3, 4, 5, 6, 7]
        (Min (peak_edges_in_range
           [- 12, - 11, - 10, - 9, - 8, - 7, - 6, - 5, - 4, - 3, - 2, - 1, 0, 1, 2, 3, 4, 5, 6, 7]
           [4, 12]))
        (Max (peak_edges_in_range
           [- 12, - 11, - 10, - 9, - 8, - 7, - 6, - 5, - 4, - 3, - 2, - 1, 0, 1, 2, 3, 4, 5, 6, 7]
           [4, 12]))
   \<and> length [False, True, True] = length [270, 280, 285 :: real]
   \<and> ThresWarning (- 4) \<notin> set [HistRange (- 8) 0, ThresDebug (- 4)]"
proof -
  note e = cloud_filter_function_example
  from cloud_threshold_is_greatest_candidate [of "[270, 280, 285]" "[278, 280, 286]"
      "[1, 2, 4, 7, 9, 7, 4, 2, 1, 3, 6, 10, 14, 10, 6, 3, 2, 1, 1]"
      "[- 12, - 11, - 10, - 9, - 8, - 7, - 6, - 5, - 4, - 3, - 2, - 1, 0, 1, 2, 3, 4, 5, 6, 7]"
      "[4, 12]" "[HistRange (- 8) 0, ThresDebug (- 4)]" "- 4" "[False, True, True]"] e
  have "- 4 \<in> candidate_edges [1, 2, 4, 7, 9, 7, 4, 2, 1, 3, 6, 10, 14, 10, 6, 3, 2, 1, 1]
        [- 12, - 11, - 10, - 9, - 8, - 7, - 6, - 5, - 4, - 3, - 2, - 1, 0, 1, 2, 3, 4, 5, 6, 7]
        (Min (peak_edges_in_range
           [- 12, - 11, - 10, - 9, - 8, - 7, - 6, - 5, - 4, - 3, - 2, - 1, 0, 1, 2, 3, 4, 5, 6, 7]
           [4, 12]))
        (Max (peak_edges_in_range
           [- 12, - 11, - 10, - 9, - 8, - 7, - 6, - 5, - 4, - 3, - 2, - 1, 0, 1, 2, 3, 4, 5, 6, 7]
           [4, 12]))"
    by blast
  with e show ?thesis by simp
qed

section \<open>WaterCloudFilter\<close>

text \<open>
  This filter works row by row, so its grids are lists of rows. \<open>shape\<close> is the list
  of the row lengths; grids of different shapes cannot be combined.
\<close>

definition shape :: "'a list list \<Rightarrow> nat list" where
  "shape g = map length g"

definition grid_map2 :: "('a \<Rightarrow> 'b \<Rightarrow> 'c) \<Rightarrow> 'a list list \<Rightarrow> 'b list list \<Rightarrow> 'c list list" where
  "grid_map2 f a b = map2 (map2 f) a b"

text \<open>
  \<^verbatim>\<open>np.ma.mean\<close> of the values that are not masked: undefined (masked) when there is
  none.
\<close>

definition ma_mean :: "real option list \<Rightarrow> real option" where
  "ma_mean xs =
     (let vals = concat (map (\<lambda>x. case x of None \<Rightarrow> [] | Some v \<Rightarrow> [v]) xs)
      in if vals = [] then None else Some (sum_list vals / real (length vals)))"

text \<open>
  \<^verbatim>\<open>np.ma.masked_where(~self.cloudmask, self.ir039)\<close>: a pixel is masked where the
  cloud mask is false.
\<close>

definition masked_where_not :: "bool list list \<Rightarrow> real list list \<Rightarrow> real option list list" where
  "masked_where_not cloudmask g = grid_map2 (\<lambda>c v. if \<not> c then None else Some v) cloudmask g"

text \<open>
  \<^verbatim>\<open>find_watercloud\<close>, with the row counter \<^verbatim>\<open>self.line\<close> passed in and returned.
  The row \<open>lat\<close> is a plain array, so its mask is all false and \<^verbatim>\<open>all(lat.mask)\<close>
  holds only for an empty row. \<open>global_mean\<close> is \<^verbatim>\<open>np.mean(self.lat_cloudfree)\<close>;
  where it is undefined too, numpy compares with the masked constant and the outcome is
  not a boolean row: the model stops there with \<open>MaskError\<close>.
\<close>

definition find_watercloud ::
  "real option list \<Rightarrow> real option \<Rightarrow> nat \<Rightarrow> real list \<Rightarrow> error + (bool list \<times> nat)" where
  "find_watercloud thres global_mean line lat =
     (if lat = [] then Inr ([], line + 1)
      else
        (case getitem thres line of
           Inl e \<Rightarrow> Inl e
         | Inr None \<Rightarrow>
             (case global_mean of
                None \<Rightarrow> Inl MaskError
              | Some g \<Rightarrow> Inr (map (\<lambda>x. x \<le> g) lat, line + 1))
         | Inr (Some t) \<Rightarrow> Inr (map (\<lambda>x. x \<le> t) lat, line + 1)))"

text \<open>
  \<^verbatim>\<open>np.apply_along_axis(self.find_watercloud, 1, self.ir039, self.lat_cloudfree)\<close>: the
  rows in order, each call moving the counter on.
\<close>

fun apply_along_rows ::
  "real option list \<Rightarrow> real option \<Rightarrow> nat \<Rightarrow> real list list \<Rightarrow> error + bool list list" where
  "apply_along_rows thres global_mean line [] = Inr []"
| "apply_along_rows thres global_mean line (lat # rows) =
     (case find_watercloud thres global_mean line lat of
        Inl e \<Rightarrow> Inl e
      | Inr (res, line') \<Rightarrow>
          (case apply_along_rows thres global_mean line' rows of
             Inl e \<Rightarrow> Inl e
           | Inr rest \<Rightarrow> Inr (res # rest)))"

text \<open>
  \<^verbatim>\<open>WaterCloudFilter.filter_function\<close> up to \<^verbatim>\<open>self.mask\<close>.
  \<^verbatim>\<open>apply_along_axis\<close> raises on a grid without rows.
\<close>

definition water_filter_function ::
  "real list list \<Rightarrow> real list list \<Rightarrow> real list list \<Rightarrow> bool list list
     \<Rightarrow> error + bool list list" where
  "water_filter_function vis006 nir016 ir039 cloudmask =
     (if shape nir016 \<noteq> shape vis006 then Inl ValueError
      else
        (let ndsi_ci = grid_map2 (\<lambda>v n. np_div (v - n) (v + n)) vis006 nir016;
             water_mask = map (map (\<lambda>x. np_gt x 0.1)) ndsi_ci
         in if shape cloudmask \<noteq> shape ir039 then Inl IndexError
            else
              (let cloud_free_ma = masked_where_not cloudmask ir039;
                   lat_cloudfree = map ma_mean cloud_free_ma;
                   global_mean = ma_mean lat_cloudfree
               in if ir039 = [] then Inl ValueError
                  else
                    (case apply_along_rows lat_cloudfree global_mean 0 ir039 of
                       Inl e \<Rightarrow> Inl e
                     | Inr drop_mask \<Rightarrow>
                         if shape drop_mask \<noteq> shape water_mask then Inl ValueError
                         else Inr (grid_map2 (\<or>) water_mask drop_mask)))))"

definition WaterCloudFilter_filter_function ::
  "real list list \<Rightarrow> real list list \<Rightarrow> real list list \<Rightarrow> bool list list \<Rightarrow> filter_obj
     \<Rightarrow> log_entry list \<times> (error + filter_obj)" where
  "WaterCloudFilter_filter_function vis006 nir016 ir039 cloudmask =
     run_filter ''Applying Water Cloud Filter''
       (case water_filter_function vis006 nir016 ir039 cloudmask of
          Inl e \<Rightarrow> ([], Inl e)
        | Inr m \<Rightarrow> ([Debug ''Mean latitudinal threshold for cloudfree areas''], Inr (concat m)))"

text \<open>
  The threshold a row is compared with: the mean of the row's pixels where the cloud mask
  is true and, where the row has none, the mean of the row means that are defined.
\<close>

definition row_threshold :: "real list list \<Rightarrow> bool list list \<Rightarrow> nat \<Rightarrow> real option" where
  "row_threshold ir039 cloudmask r =
     (let lat_cloudfree = map ma_mean (masked_where_not cloudmask ir039)
      in case lat_cloudfree ! r of
           Some t \<Rightarrow> Some t
         | None \<Rightarrow> ma_mean lat_cloudfree)"

section \<open>Properties of the water-cloud filter\<close>

lemma shape_eq_length: "shape a = shape b \<Longrightarrow> length a = length b"
  unfolding shape_def by (rule map_eq_imp_length_eq)

lemma shape_eq_row: "shape a = shape b \<Longrightarrow> r < length a \<Longrightarrow> length (a ! r) = length (b ! r)"
proof -
  assume s: "shape a = shape b" and r: "r < length a"
  have "shape a ! r = shape b ! r" using s by simp
  then show ?thesis using r shape_eq_length [OF s] by (simp add: shape_def)
qed

lemma grid_map2_nth:
  assumes "shape a = shape b" "r < length a" "c < length (a ! r)"
  shows "grid_map2 f a b ! r ! c = f (a ! r ! c) (b ! r ! c)"
  using assms shape_eq_length [OF assms(1)] shape_eq_row [OF assms(1,2)]
  by (simp add: grid_map2_def)

lemma shape_grid_map2: "shape a = shape b \<Longrightarrow> shape (grid_map2 f a b) = shape a"
proof -
  assume s: "shape a = shape b"
  have l: "length a = length b" using s by (rule shape_eq_length)
  have "length (map2 f (a ! r) (b ! r)) = length (a ! r)" if "r < length a" for r
    using shape_eq_row [OF s that] by simp
  then show ?thesis using l by (simp add: shape_def grid_map2_def list_eq_iff_nth_eq)
qed

lemma shape_map_map: "shape (map (map f) g) = shape g"
  by (induction g) (simp_all add: shape_def)

lemma find_watercloud_Inr:
  assumes "find_watercloud thres g line lat = Inr (res, line')"
  shows "line' = line + 1 \<and> length res = length lat
    \<and> (lat \<noteq> [] \<longrightarrow> line < length thres
        \<and> (\<exists>t. (case thres ! line of Some t' \<Rightarrow> Some t' | None \<Rightarrow> g) = Some t
              \<and> res = map (\<lambda>x. x \<le> t) lat))"
  using assms
  by (auto simp: find_watercloud_def getitem_def split: if_splits option.splits)

lemma apply_along_rows_Inr:
  assumes "apply_along_rows thres g line rows = Inr dm"
  shows "length dm = length rows
    \<and> (\<forall>r < length rows. length (dm ! r) = length (rows ! r)
        \<and> (rows ! r \<noteq> [] \<longrightarrow> line + r < length thres
            \<and> (\<exists>t. (case thres ! (line + r) of Some t' \<Rightarrow> Some t' | None \<Rightarrow> g) = Some t
                  \<and> dm ! r = map (\<lambda>x. x \<le> t) (rows ! r))))"
  using assms
proof (induction rows arbitrary: line dm)
  case Nil
  then show ?case by simp
next
  case (Cons lat rows)
  from Cons.prems obtain res line' rest where
    f: "find_watercloud thres g line lat = Inr (res, line')"
    and a: "apply_along_rows thres g line' rows = Inr rest"
    and dm: "dm = res # rest"
    by (auto split: sum.splits prod.splits)
  note h = find_watercloud_Inr [OF f]
  from h have line': "line' = line + 1" by simp
  note ih = Cons.IH [OF a]
  show ?case
  proof (intro conjI allI impI)
    show "length dm = length (lat # rows)" using ih dm by simp
  next
    fix r assume r: "r < length (lat # rows)"
    show "length (dm ! r) = length ((lat # rows) ! r)"
      using r h ih dm by (cases r) auto
  next
    fix r assume r: "r < length (lat # rows)" and ne: "(lat # rows) ! r \<noteq> []"
    show "line + r < length thres"
      using r ne h ih dm line' by (cases r) auto
  next
    fix r assume r: "r < length (lat # rows)" and ne: "(lat # rows) ! r \<noteq> []"
    show "\<exists>t. (case thres ! (line + r) of Some t' \<Rightarrow> Some t' | None \<Rightarrow> g) = Some t
        \<and> dm ! r = map (\<lambda>x. x \<le> t) ((lat # rows) ! r)"
    proof (cases r)
      case 0
      then show ?thesis using ne h dm by simp
    next
      case (Suc r')
      then have "r' < length rows" "rows ! r' \<noteq> []" using r ne by simp_all
      with ih have "\<exists>t. (case thres ! (line' + r') of Some t' \<Rightarrow> Some t' | None \<Rightarrow> g) = Some t
          \<and> rest ! r' = map (\<lambda>x. x \<le> t) (rows ! r')"
        by blast
      then show ?thesis using Suc dm line' by simp
    qed
  qed
qed

lemma water_filter_function_Inr:
  assumes "water_filter_function vis006 nir016 ir039 cloudmask = Inr m"
  shows "\<exists>drop_mask. shape nir016 = shape vis006 \<and> shape cloudmask = shape ir039
    \<and> apply_along_rows (map ma_mean (masked_where_not cloudmask ir039))
         (ma_mean (map ma_mean (masked_where_not cloudmask ir039))) 0 ir039 = Inr drop_mask
    \<and> shape drop_mask = shape vis006
    \<and> m = grid_map2 (\<or>)
         (map (map (\<lambda>x. np_gt x 0.1)) (grid_map2 (\<lambda>v n. np_div (v - n) (v + n)) vis006 nir016))
         drop_mask"
proof -
  have s: "shape (map (map f) (grid_map2 h vis006 nir016)) = shape vis006"
    if "shape nir016 = shape vis006" for f :: "npfloat \<Rightarrow> bool" and h
    using shape_grid_map2 [of vis006 nir016 h] that by (simp add: shape_map_map)
  show ?thesis
    using assms s
    by (auto simp: water_filter_function_def Let_def split: if_splits sum.splits)
qed

text \<open>
  C7, as the code has it. When the filter returns, the mask has the shape of the 3.9 um
  grid, every row has a threshold (the mean of its own pixels where the cloud mask is
  true or, when the row has none, the mean of the defined row means), and a pixel is
  masked exactly when its normalised-difference index exceeds 0.1 or its 3.9 um value is
  at most (does not exceed) the threshold of its row.
\<close>

theorem water_cloud_mask:
  assumes "water_filter_function vis006 nir016 ir039 cloudmask = Inr m"
    and "r < length ir039" and "c < length (ir039 ! r)"
  shows "shape m = shape ir039
    \<and> (\<exists>t. row_threshold ir039 cloudmask r = Some t
          \<and> (m ! r ! c \<longleftrightarrow>
               np_gt (np_div (vis006 ! r ! c - nir016 ! r ! c) (vis006 ! r ! c + nir016 ! r ! c)) 0.1
               \<or> ir039 ! r ! c \<le> t))"
proof -
  let ?thres = "map ma_mean (masked_where_not cloudmask ir039)"
  let ?nd = "grid_map2 (\<lambda>v n. np_div (v - n) (v + n)) vis006 nir016"
  let ?wm = "map (map (\<lambda>x. np_gt x 0.1)) ?nd"
  from water_filter_function_Inr [OF assms(1)] obtain drop_mask where
    sn: "shape nir016 = shape vis006" and sc: "shape cloudmask = shape ir039"
    and a: "apply_along_rows ?thres (ma_mean ?thres) 0 ir039 = Inr drop_mask"
    and sd: "shape drop_mask = shape vis006"
    and m: "m = grid_map2 (\<or>) ?wm drop_mask"
    by blast
  note h = apply_along_rows_Inr [OF a]
  have ne: "ir039 ! r \<noteq> []" using assms(3) by auto
  from h have "ir039 ! r \<noteq> [] \<longrightarrow> 0 + r < length ?thres
      \<and> (\<exists>t. (case ?thres ! (0 + r) of Some t' \<Rightarrow> Some t' | None \<Rightarrow> ma_mean ?thres) = Some t
            \<and> drop_mask ! r = map (\<lambda>x. x \<le> t) (ir039 ! r))"
    using assms(2) by blast
  with ne obtain t where
    t: "(case ?thres ! r of Some t' \<Rightarrow> Some t' | None \<Rightarrow> ma_mean ?thres) = Some t"
    and d: "drop_mask ! r = map (\<lambda>x. x \<le> t) (ir039 ! r)"
    by auto
  have hl: "length drop_mask = length ir039" using h by (rule conjunct1)
  have hr: "length (drop_mask ! i) = length (ir039 ! i)" if "i < length ir039" for i
    using h that by blast
  have si: "shape drop_mask = shape ir039"
    unfolding shape_def
  proof (rule nth_equalityI)
    show "length (map length drop_mask) = length (map length ir039)" using hl by simp
  next
    fix i assume "i < length (map length drop_mask)"
    then show "map length drop_mask ! i = map length ir039 ! i" using hl hr by simp
  qed
  have sv: "shape vis006 = shape ir039" using sd si by simp
  have swm: "shape ?wm = shape vis006"
    using shape_grid_map2 [of vis006 nir016] sn by (simp add: shape_map_map)
  have rv: "r < length vis006" using assms(2) shape_eq_length [OF sv] by simp
  have cv: "c < length (vis006 ! r)" using assms(3) shape_eq_row [OF sv rv] by simp
  have rw: "r < length ?wm" using rv shape_eq_length [OF swm] by simp
  have cw: "c < length (?wm ! r)" using cv shape_eq_row [OF swm rw] by simp
  have rn: "r < length ?nd" using rw by simp
  have 1: "shape m = shape ir039"
    unfolding m using shape_grid_map2 [of ?wm drop_mask] swm sd sv by simp
  have "m ! r ! c = (?wm ! r ! c \<or> drop_mask ! r ! c)"
    unfolding m using swm sd rw cw by (intro grid_map2_nth) simp_all
  moreover have "?wm ! r ! c
      = np_gt (np_div (vis006 ! r ! c - nir016 ! r ! c) (vis006 ! r ! c + nir016 ! r ! c)) 0.1"
  proof -
    have "?nd ! r ! c = np_div (vis006 ! r ! c - nir016 ! r ! c) (vis006 ! r ! c + nir016 ! r ! c)"
      using sn rv cv by (intro grid_map2_nth) simp_all
    moreover have "?wm ! r ! c = np_gt (?nd ! r ! c) 0.1"
      using rn cw by simp
    ultimately show ?thesis by simp
  qed
  moreover have "drop_mask ! r ! c \<longleftrightarrow> ir039 ! r ! c \<le> t"
    using d assms(3) by simp
  moreover have "row_threshold ir039 cloudmask r = Some t"
    using t by (simp add: row_threshold_def Let_def)
  ultimately show ?thesis using 1 by blast
qed

lemma water_filter_function_example:
  "water_filter_function [[1, 1], [1, 1], [1, 1]] [[1, 1], [1, 1], [1, 1]]
     [[2, 4], [10, 0], [6, 8]] [[True, True], [True, False], [False, False]]
   = Inr [[True, False], [True, True], [True, False]]"
  by (simp add: water_filter_function_def shape_def grid_map2_def masked_where_not_def
      ma_mean_def find_watercloud_def getitem_def np_div_def)

lemma row_threshold_example:
  "row_threshold [[2, 4], [10, 0], [6, 8]] [[True, True], [True, False], [False, False]] 2
     = Some 6.5"
  by (simp add: row_threshold_def grid_map2_def masked_where_not_def ma_mean_def)

theorem water_cloud_mask_witness:
  "water_filter_function [[1, 1], [1, 1], [1, 1]] [[1, 1], [1, 1], [1, 1]]
     [[2, 4], [10, 0], [6, 8]] [[True, True], [True, False], [False, False]]
   = Inr [[True, False], [True, True], [True, False]]
   \<and> shape [[True, False], [True, True], [True, False]] = shape [[2, 4], [10, 0], [6, 8 :: real]]
   \<and> row_threshold [[2, 4], [10, 0], [6, 8]] [[True, True], [True, False], [False, False]] 2
       = Some 6.5
   \<and> [[True, False], [True, True], [True, False]] ! 2 ! 0
   \<and> [[2, 4], [10, 0], [6, 8 :: real]] ! 2 ! 0 \<le> 6.5"
proof -
  note e = water_filter_function_example
  have "shape [[True, False], [True, True], [True, False]] = shape [[2, 4], [10, 0], [6, 8 :: real]]"
    using water_cloud_mask [OF e, of 2 0] by simp
  with e row_threshold_example show ?thesis by simp
qed

text \<open>
  The claim as the specification words it fails. In a row whose mean is 5 (all pixels
  count, the index is 0 everywhere), the pixel with value 7 exceeds the mean and is not
  masked, and the pixel with value 3 does not exceed it and is masked. And the fallback
  of a row without mean is the mean of the row means (here of 3 and 10, that is 6.5),
  not the mean of all the pixels that count (16/3): the pixel with value 6 is masked.
\<close>

theorem water_cloud_masks_pixels_not_exceeding:
  "water_filter_function [[1, 1]] [[1, 1]] [[3, 7]] [[True, True]] = Inr [[True, False]]
   \<and> row_threshold [[3, 7]] [[True, True]] 0 = Some 5
   \<and> water_filter_function [[1, 1], [1, 1], [1, 1]] [[1, 1], [1, 1], [1, 1]]
        [[2, 4], [10, 0], [6, 8]] [[True, True], [True, False], [False, False]]
      = Inr [[True, False], [True, True], [True, False]]
   \<and> row_threshold [[2, 4], [10, 0], [6, 8]] [[True, True], [True, False], [False, False]] 2
       = Some 6.5
   \<and> (2 + 4 + 10) / 3 < (6 :: real)"
proof -
  have "water_filter_function [[1, 1]] [[1, 1]] [[3, 7]] [[True, True]] = Inr [[True, False]]"
    by (simp add: water_filter_function_def shape_def grid_map2_def masked_where_not_def
        ma_mean_def find_watercloud_def getitem_def np_div_def)
  moreover have "row_threshold [[3, 7]] [[True, True]] 0 = Some 5"
    by (simp add: row_threshold_def grid_map2_def masked_where_not_def ma_mean_def)
  ultimately show ?thesis
    using water_filter_function_example row_threshold_example by simp
qed

section \<open>The clustering filters\<close>

text \<open>
  The label grid \<^verbatim>\<open>clusters\<close> is a masked array of integers: the labels and, pixel by
  pixel, whether the pixel is masked. Comparing it with a label gives false at a masked
  pixel (the label is not zero wherever the filters compare), and numpy indexes with the
  data of that comparison: \<open>ma_eq\<close> is the selection \<^verbatim>\<open>clusters == key\<close> for a label
  grid whose mask currently is \<open>m\<close>. \<open>setitem\<close> is the assignment
  \<^verbatim>\<open>a[selection] = v\<close>.
\<close>

definition ma_eq :: "int list \<Rightarrow> bool list \<Rightarrow> int \<Rightarrow> bool list" where
  "ma_eq labels m key = map2 (\<lambda>l k. l = key \<and> \<not> k) labels m"

definition setitem :: "'a list \<Rightarrow> bool list \<Rightarrow> 'a \<Rightarrow> 'a list" where
  "setitem a sel v = map2 (\<lambda>old s. if s then v else old) a sel"

subsection \<open>SpatialCloudTopHeightFilter\<close>

text \<open>
  The first loop of \<^verbatim>\<open>SpatialCloudTopHeightFilter.filter_function\<close>. The dictionary
  \<^verbatim>\<open>cluster_z\<close> is the list of its items in iteration order. \<^verbatim>\<open>cluster_mask\<close> is the
  mask of the label grid itself, not a copy, so the mask \<open>m\<close> that the loop updates is
  also the mask the next comparison \<^verbatim>\<open>self.clusters == key\<close> sees.
\<close>

fun cth_loop :: "(int \<times> real list) list \<Rightarrow> int list \<Rightarrow> bool list \<Rightarrow> bool list" where
  "cth_loop [] labels m = m"
| "cth_loop ((key, item) # rest) labels m =
     cth_loop rest labels
       (if list_ex (\<lambda>c. c > 2000) item then setitem m (ma_eq labels m key) True else m)"

text \<open>
  The mask of the filter. The second loop builds the additional map \<^verbatim>\<open>cluster_cth\<close>,
  which is no part of the result and is not modelled, except that it raises: for an
  empty list of heights \<^verbatim>\<open>all([])\<close> holds and the mean \<^verbatim>\<open>nan\<close> cannot be stored in
  the integer grid (\<^verbatim>\<open>ValueError\<close>).
\<close>

definition cth_mask :: "int list \<Rightarrow> bool list \<Rightarrow> (int \<times> real list) list \<Rightarrow> error + bool list" where
  "cth_mask labels cmask cluster_z =
     (if length cmask \<noteq> length labels then Inl ValueError
      else
        (let cluster_mask = cth_loop cluster_z labels cmask
         in if list_ex (\<lambda>(key, item). item = []) cluster_z then Inl ValueError
            else Inr cluster_mask))"

definition SpatialCloudTopHeightFilter_filter_function ::
  "int list \<Rightarrow> bool list \<Rightarrow> (int \<times> real list) list \<Rightarrow> filter_obj
     \<Rightarrow> log_entry list \<times> (error + filter_obj)" where
  "SpatialCloudTopHeightFilter_filter_function labels cmask cluster_z =
     run_filter ''Applying Spatial Clustering Cloud Top Height Filter''
       ([], cth_mask labels cmask cluster_z)"

subsection \<open>SpatialHomogeneityFilter\<close>

text \<open>
  The loop over the labels \<open>1, ..., nlbl\<close>. \<^verbatim>\<open>cluster_ma\<close> is a copy of the label grid
  masked where the inbound mask or the grid's own mask is set; \<open>cma\<close> is that mask.
  \<^verbatim>\<open>cluster_mask\<close> is the inbound mask itself, updated in place.
\<close>

fun homog_loop :: "nat \<Rightarrow> int list \<Rightarrow> bool list \<Rightarrow> bool list \<Rightarrow> bool list \<Rightarrow> bool list" where
  "homog_loop 0 labels cma sdm m = m"
| "homog_loop (Suc n) labels cma sdm m =
     setitem (homog_loop n labels cma sdm m) (ma_eq labels cma (int (Suc n))) (sdm ! n)"

text \<open>
  \<^verbatim>\<open>SpatialHomogeneityFilter.filter_function\<close> up to \<^verbatim>\<open>self.mask\<close>. The number of
  labels \<open>nlbl\<close> is what \<^verbatim>\<open>ndimage.label(~self.clusters.mask)\<close> returned and
  \<open>cluster_sd\<close> what \<^verbatim>\<open>ndimage.standard_deviation\<close> returned for the labels
  \<open>1, ..., nlbl\<close>: results of scipy, given to the model. On a plain array there is no
  inbound mask and the filter raises.
\<close>

definition sd_mask :: "real list \<Rightarrow> bool list" where
  "sd_mask cluster_sd = map (\<lambda>s. s > 2.5) cluster_sd"

definition homog_mask ::
  "bool list option \<Rightarrow> int list \<Rightarrow> bool list \<Rightarrow> nat \<Rightarrow> real list \<Rightarrow> error + bool list" where
  "homog_mask inm labels cmask nlbl cluster_sd =
     (case inm of
        None \<Rightarrow> Inl TypeError
      | Some cluster_mask \<Rightarrow>
          if length cmask \<noteq> length labels \<or> length cluster_mask \<noteq> length labels
          then Inl IndexError
          else
            (let cma = map2 (\<or>) cluster_mask cmask
             in if length (sd_mask cluster_sd) < nlbl then Inl IndexError
                else Inr (homog_loop nlbl labels cma (sd_mask cluster_sd) cluster_mask)))"

text \<open>
  The filter function: the inbound mask of the instance is the updated mask afterwards
  (they are one object), and the result is built from it.
\<close>

definition SpatialHomogeneityFilter_filter_function ::
  "int list \<Rightarrow> bool list \<Rightarrow> nat \<Rightarrow> real list \<Rightarrow> filter_obj
     \<Rightarrow> log_entry list \<times> (error + filter_obj)" where
  "SpatialHomogeneityFilter_filter_function labels cmask nlbl cluster_sd self =
     (case homog_mask (inmask self) labels cmask nlbl cluster_sd of
        Inl e \<Rightarrow> ([Info ''Applying Spatial Clustering Inhomogeneity Filter''], Inl e)
      | Inr m \<Rightarrow>
          ([Info ''Applying Spatial Clustering Inhomogeneity Filter''],
           set_result (self\<lparr>inmask := Some m\<rparr>) m))"

section \<open>Properties of the clustering filters\<close>

lemma length_setitem: "length sel = length a \<Longrightarrow> length (setitem a sel v) = length a"
  by (simp add: setitem_def)

lemma nth_setitem:
  "length sel = length a \<Longrightarrow> i < length a \<Longrightarrow> setitem a sel v ! i = (if sel ! i then v else a ! i)"
  by (simp add: setitem_def)

lemma length_ma_eq: "length m = length labels \<Longrightarrow> length (ma_eq labels m key) = length labels"
  by (simp add: ma_eq_def)

lemma nth_ma_eq:
  "length m = length labels \<Longrightarrow> i < length labels \<Longrightarrow>
     ma_eq labels m key ! i \<longleftrightarrow> labels ! i = key \<and> \<not> m ! i"
  by (simp add: ma_eq_def)

lemma length_cth_loop:
  "length m = length labels \<Longrightarrow> length (cth_loop cz labels m) = length labels"
proof (induction cz arbitrary: m)
  case Nil
  then show ?case by simp
next
  case (Cons a cz)
  obtain key item where a: "a = (key, item)" by (cases a)
  show ?case
    using Cons.prems
    by (simp add: a Cons.IH length_setitem length_ma_eq)
qed

lemma nth_cth_loop:
  assumes "length m = length labels" "i < length labels"
  shows "cth_loop cz labels m ! i \<longleftrightarrow>
     m ! i \<or> (\<exists>(key, item) \<in> set cz. labels ! i = key \<and> (\<exists>c \<in> set item. c > 2000))"
  using assms
proof (induction cz arbitrary: m)
  case Nil
  then show ?case by simp
next
  case (Cons a cz)
  obtain key item where a: "a = (key, item)" by (cases a)
  let ?m = "if list_ex (\<lambda>c. c > 2000) item then setitem m (ma_eq labels m key) True else m"
  have l: "length ?m = length labels"
    using Cons.prems(1) by (simp add: length_setitem length_ma_eq)
  have s: "?m ! i \<longleftrightarrow> m ! i \<or> (labels ! i = key \<and> (\<exists>c \<in> set item. c > 2000))"
    using Cons.prems by (auto simp: nth_setitem length_ma_eq nth_ma_eq list_ex_iff)
  have "cth_loop (a # cz) labels m ! i = cth_loop cz labels ?m ! i" by (simp add: a)
  also have "\<dots> \<longleftrightarrow> ?m ! i
      \<or> (\<exists>(key, item) \<in> set cz. labels ! i = key \<and> (\<exists>c \<in> set item. c > 2000))"
    using Cons.IH [OF l Cons.prems(2)] .
  finally show ?case using s by (auto simp: a)
qed

lemma length_homog_loop:
  "length m = length labels \<Longrightarrow> length cma = length labels \<Longrightarrow>
     length (homog_loop n labels cma sd m) = length labels"
  by (induction n) (simp_all add: length_setitem length_ma_eq)

lemma nth_homog_loop:
  assumes "length m = length labels" "length cma = length labels" "i < length labels"
  shows "homog_loop n labels cma sd m ! i =
     (if \<not> cma ! i \<and> 1 \<le> labels ! i \<and> labels ! i \<le> int n
      then sd ! (nat (labels ! i) - 1) else m ! i)"
proof (induction n)
  case 0
  then show ?case by auto
next
  case (Suc n)
  have l: "length (homog_loop n labels cma sd m) = length labels"
    using assms(1,2) by (rule length_homog_loop)
  have n: "nat (int (Suc n)) - 1 = n" by simp
  have s: "homog_loop (Suc n) labels cma sd m ! i =
      (if labels ! i = int (Suc n) \<and> \<not> cma ! i then sd ! n
       else homog_loop n labels cma sd m ! i)"
    using assms l by (simp add: nth_setitem length_ma_eq nth_ma_eq)
  show ?case
  proof (cases "labels ! i = int (Suc n) \<and> \<not> cma ! i")
    case True
    have "homog_loop (Suc n) labels cma sd m ! i = sd ! n"
      by (subst s) (rule if_P [OF True])
    moreover have "\<not> cma ! i \<and> 1 \<le> labels ! i \<and> labels ! i \<le> int (Suc n)"
      using True by simp
    moreover have "nat (labels ! i) - 1 = n" using True n by simp
    ultimately show ?thesis by simp
  next
    case False
    have "homog_loop (Suc n) labels cma sd m ! i = homog_loop n labels cma sd m ! i"
      by (subst s) (rule if_not_P [OF False])
    also have "\<dots> = (if \<not> cma ! i \<and> 1 \<le> labels ! i \<and> labels ! i \<le> int n
        then sd ! (nat (labels ! i) - 1) else m ! i)"
      by (rule Suc)
    also have "\<dots> = (if \<not> cma ! i \<and> 1 \<le> labels ! i \<and> labels ! i \<le> int (Suc n)
        then sd ! (nat (labels ! i) - 1) else m ! i)"
      using False by auto
    finally show ?thesis .
  qed
qed

lemma cth_mask_Inr:
  assumes "cth_mask labels cmask cz = Inr m"
  shows "length cmask = length labels \<and> m = cth_loop cz labels cmask"
  using assms by (auto simp: cth_mask_def Let_def split: if_splits)

lemma homog_mask_Inr:
  assumes "homog_mask (Some im) labels cmask nlbl sd = Inr m"
  shows "length cmask = length labels \<and> length im = length labels \<and> nlbl \<le> length sd
    \<and> m = homog_loop nlbl labels (map2 (\<or>) im cmask) (sd_mask sd) im"
  using assms by (auto simp: homog_mask_def Let_def sd_mask_def split: if_splits)

lemma cth_mask_pixel:
  assumes "cth_mask labels cmask cz = Inr m" "i < length labels"
  shows "m ! i \<longleftrightarrow>
     cmask ! i \<or> (\<exists>(key, item) \<in> set cz. labels ! i = key \<and> (\<exists>c \<in> set item. c > 2000))"
  using cth_mask_Inr [OF assms(1)] nth_cth_loop [of cmask labels i cz] assms(2) by simp

lemma homog_mask_pixel:
  assumes "homog_mask (Some im) labels cmask nlbl sd = Inr m" "i < length labels"
  shows "m ! i =
     (if \<not> im ! i \<and> \<not> cmask ! i \<and> 1 \<le> labels ! i \<and> labels ! i \<le> int nlbl
      then sd ! (nat (labels ! i) - 1) > 2.5 else im ! i)"
proof -
  from homog_mask_Inr [OF assms(1)] have
    h: "length cmask = length labels" "length im = length labels" "nlbl \<le> length sd"
    and m: "m = homog_loop nlbl labels (map2 (\<or>) im cmask) (sd_mask sd) im"
    by simp_all
  define sdm where "sdm = sd_mask sd"
  have sdm: "\<forall>k < length sd. sdm ! k \<longleftrightarrow> sd ! k > 2.5"
    by (simp add: sdm_def sd_mask_def)
  note m = m [folded sdm_def]
  let ?cma = "map2 (\<or>) im cmask"
  have lc: "length ?cma = length labels" using h by simp
  have c: "?cma ! i \<longleftrightarrow> im ! i \<or> cmask ! i" using h assms(2) by simp
  have 1: "m ! i = (if \<not> ?cma ! i \<and> 1 \<le> labels ! i \<and> labels ! i \<le> int nlbl
      then sdm ! (nat (labels ! i) - 1) else im ! i)"
    unfolding m using h(2) lc assms(2) by (rule nth_homog_loop)
  have 2: "sdm ! (nat (labels ! i) - 1) \<longleftrightarrow> sd ! (nat (labels ! i) - 1) > 2.5"
    if "1 \<le> labels ! i" "labels ! i \<le> int nlbl"
  proof -
    have "nat (labels ! i) - 1 < length sd" using that h(3) by auto
    then show ?thesis using sdm by blast
  qed
  show ?thesis
  proof (cases "\<not> im ! i \<and> \<not> cmask ! i \<and> 1 \<le> labels ! i \<and> labels ! i \<le> int nlbl")
    case True
    then show ?thesis using 1 2 c by simp
  next
    case False
    then show ?thesis using 1 c by auto
  qed
qed

text \<open>
  C5, as the code has it. (1) The cloud-top-height filter returns a mask of the grid's
  shape in which a pixel is masked exactly when it was masked in the label grid already
  or its label has an entry with a height above 2000 m: it masks every pixel of a cluster
  with a height above 2000 m, and of the other clusters none that the label grid leaves
  unmasked; so (2) two pixels of one label that are not masked in the label grid get the
  same outcome. (3) The homogeneity filter gives a pixel that is masked neither inbound
  nor in the label grid, with a label among \<open>1, ..., nlbl\<close>, the outcome "standard
  deviation of the label above 2.5", and leaves every other pixel as the inbound mask has
  it; so (4) two pixels of one label that are masked neither inbound nor in the label
  grid get the same outcome.
\<close>

theorem cluster_mask_atomic_for_unmasked_pixels:
  "(cth_mask labels cmask cluster_z = Inr m \<longrightarrow>
      length m = length labels
      \<and> (\<forall>i < length labels. m ! i \<longleftrightarrow>
            cmask ! i
            \<or> (\<exists>(key, item) \<in> set cluster_z. labels ! i = key \<and> (\<exists>c \<in> set item. c > 2000)))
      \<and> (\<forall>i < length labels. \<forall>j < length labels.
            labels ! i = labels ! j \<and> \<not> cmask ! i \<and> \<not> cmask ! j \<longrightarrow> m ! i = m ! j))
   \<and> (homog_mask (Some im) labels cmask nlbl cluster_sd = Inr hm \<longrightarrow>
      length hm = length labels
      \<and> (\<forall>i < length labels. hm ! i =
            (if \<not> im ! i \<and> \<not> cmask ! i \<and> 1 \<le> labels ! i \<and> labels ! i \<le> int nlbl
             then cluster_sd ! (nat (labels ! i) - 1) > 2.5 else im ! i))
      \<and> (\<forall>i < length labels. \<forall>j < length labels.
            labels ! i = labels ! j \<and> \<not> im ! i \<and> \<not> im ! j \<and> \<not> cmask ! i \<and> \<not> cmask ! j
            \<longrightarrow> hm ! i = hm ! j))"
proof (intro conjI impI)
  assume a: "cth_mask labels cmask cluster_z = Inr m"
  show "length m = length labels"
    using cth_mask_Inr [OF a] length_cth_loop [of cmask labels cluster_z] by simp
  show p: "\<forall>i < length labels. m ! i \<longleftrightarrow>
      cmask ! i
      \<or> (\<exists>(key, item) \<in> set cluster_z. labels ! i = key \<and> (\<exists>c \<in> set item. c > 2000))"
    using cth_mask_pixel [OF a] by blast
  show "\<forall>i < length labels. \<forall>j < length labels.
      labels ! i = labels ! j \<and> \<not> cmask ! i \<and> \<not> cmask ! j \<longrightarrow> m ! i = m ! j"
  proof (intro allI impI)
    fix i j assume i: "i < length labels" and j: "j < length labels"
      and e: "labels ! i = labels ! j \<and> \<not> cmask ! i \<and> \<not> cmask ! j"
    show "m ! i = m ! j"
      using cth_mask_pixel [OF a i] cth_mask_pixel [OF a j] e by simp
  qed
next
  assume a: "homog_mask (Some im) labels cmask nlbl cluster_sd = Inr hm"
  show "length hm = length labels"
  proof -
    from homog_mask_Inr [OF a] have
      h: "length cmask = length labels" "length im = length labels"
      and m: "hm = homog_loop nlbl labels (map2 (\<or>) im cmask) (sd_mask cluster_sd) im"
      by simp_all
    have "length (map2 (\<or>) im cmask) = length labels" using h by simp
    then show ?thesis unfolding m using h(2) by (intro length_homog_loop)
  qed
  show "\<forall>i < length labels. hm ! i =
      (if \<not> im ! i \<and> \<not> cmask ! i \<and> 1 \<le> labels ! i \<and> labels ! i \<le> int nlbl
       then cluster_sd ! (nat (labels ! i) - 1) > 2.5 else im ! i)"
    using homog_mask_pixel [OF a] by blast
  show "\<forall>i < length labels. \<forall>j < length labels.
      labels ! i = labels ! j \<and> \<not> im ! i \<and> \<not> im ! j \<and> \<not> cmask ! i \<and> \<not> cmask ! j
      \<longrightarrow> hm ! i = hm ! j"
  proof (intro allI impI)
    fix i j assume i: "i < length labels" and j: "j < length labels"
      and e: "labels ! i = labels ! j \<and> \<not> im ! i \<and> \<not> im ! j \<and> \<not> cmask ! i \<and> \<not> cmask ! j"
    show "hm ! i = hm ! j"
      using homog_mask_pixel [OF a i] homog_mask_pixel [OF a j] e by simp
  qed
qed

lemma cth_mask_example:
  "cth_mask [1, 1, 0, 2] [False, False, True, False] [(1, [100, 3000]), (2, [5])]
     = Inr [True, True, True, False]"
  by (simp add: cth_mask_def ma_eq_def setitem_def)

lemma homog_mask_example:
  "homog_mask (Some [False, False, False, False]) [1, 1, 0, 2] [False, False, True, False] 2 [3, 0]
     = Inr [True, True, False, False]"
  by (simp add: homog_mask_def sd_mask_def ma_eq_def setitem_def eval_nat_numeral)

theorem cluster_mask_atomic_for_unmasked_pixels_witness:
  "cth_mask [1, 1, 0, 2] [False, False, True, False] [(1, [100, 3000]), (2, [5])]
     = Inr [True, True, True, False]
   \<and> homog_mask (Some [False, False, False, False]) [1, 1, 0, 2] [False, False, True, False]
        2 [3, 0]
     = Inr [True, True, False, False]
   \<and> length [True, True, True, False] = length [1, 1, 0, 2 :: int]
   \<and> length [True, True, False, False] = length [1, 1, 0, 2 :: int]"
proof -
  note c = cth_mask_example and h = homog_mask_example
  note t = cluster_mask_atomic_for_unmasked_pixels [of "[1, 1, 0, 2]"
      "[False, False, True, False]" "[(1, [100, 3000]), (2, [5])]" "[True, True, True, False]"
      "[False, False, False, False]" 2 "[3, 0]" "[True, True, False, False]"]
  from t c have 1: "length [True, True, True, False] = length [1, 1, 0, 2 :: int]" by blast
  from t h have 2: "length [True, True, False, False] = length [1, 1, 0, 2 :: int]" by blast
  from c h 1 2 show ?thesis by simp
qed

text \<open>
  The claim as the specification words it fails. Two pixels carry the label 1. In the
  homogeneity filter, with a homogeneous cluster (standard deviation 0), the first pixel
  is masked inbound and stays masked while the second is not masked; with an
  inhomogeneous cluster (standard deviation 3) and the first pixel masked in the label
  grid only, the second pixel is masked and the first is not. In the cloud-top-height
  filter, with the only height of the cluster at 100 m and the first pixel masked in the
  label grid, the returned mask has the first pixel masked and the second not.
\<close>

theorem masked_pixel_splits_cluster:
  "homog_mask (Some [True, False]) [1, 1] [False, False] 1 [0] = Inr [True, False]
   \<and> homog_mask (Some [False, False]) [1, 1] [True, False] 1 [3] = Inr [False, True]
   \<and> cth_mask [1, 1] [True, False] [(1, [100])] = Inr [True, False]"
  by (simp add: homog_mask_def cth_mask_def sd_mask_def ma_eq_def setitem_def)

section \<open>LowCloudFilter\<close>

fun np_sub :: "npfloat \<Rightarrow> real \<Rightarrow> npfloat" where
  "np_sub (Fin x) y = Fin (x - y)"
| "np_sub PosInf y = PosInf"
| "np_sub NegInf y = NegInf"
| "np_sub NaN y = NaN"

fun np_mul :: "npfloat \<Rightarrow> real \<Rightarrow> npfloat" where
  "np_mul (Fin x) y = Fin (x * y)"
| "np_mul PosInf y = (if y > 0 then PosInf else if y < 0 then NegInf else NaN)"
| "np_mul NegInf y = (if y > 0 then NegInf else if y < 0 then PosInf else NaN)"
| "np_mul NaN y = NaN"

text \<open>
  \<^verbatim>\<open>np.nanmean\<close> of a list whose entries are finite or \<^verbatim>\<open>nan\<close>, as
  \<^verbatim>\<open>get_cluster_mean\<close> builds them from the channel values: the mean of the entries that
  are not \<^verbatim>\<open>nan\<close>, and \<^verbatim>\<open>nan\<close> when there is none.
\<close>

fun fin_values :: "npfloat list \<Rightarrow> real list" where
  "fin_values [] = []"
| "fin_values (Fin x # vs) = x # fin_values vs"
| "fin_values (v # vs) = fin_values vs"

definition nanmean :: "npfloat list \<Rightarrow> npfloat" where
  "nanmean vs =
     (let xs = fin_values vs
      in if xs = [] then NaN else Fin (sum_list xs / real (length xs)))"

text \<open>
  \<^verbatim>\<open>result[key].append(val)\<close> on the \<^verbatim>\<open>defaultdict(list)\<close>. The dictionary is the list
  of its items; a new key goes to the end. (The iteration order of a Python 2 dictionary
  is fixed for a given dictionary but otherwise arbitrary: only its being the same for
  both calls of \<^verbatim>\<open>keys()\<close> matters below.)
\<close>

fun dict_append :: "int \<Rightarrow> npfloat \<Rightarrow> (int \<times> npfloat list) list \<Rightarrow> (int \<times> npfloat list) list" where
  "dict_append key v [] = [(key, [v])]"
| "dict_append key v ((k, vs) # d) =
     (if k = key then (k, vs @ [v]) # d else (k, vs) # dict_append key v d)"

text \<open>
  The loop of \<^verbatim>\<open>get_cluster_mean\<close> over the pixels of the filled label grid, \<open>i\<close>
  being the index of the pixel; \<^verbatim>\<open>values[index]\<close> raises outside the value grid.
\<close>

fun cluster_values ::
  "nat \<Rightarrow> int list \<Rightarrow> real list \<Rightarrow> real list \<Rightarrow> bool \<Rightarrow> (int \<times> npfloat list) list
     \<Rightarrow> error + (int \<times> npfloat list) list" where
  "cluster_values i [] vals exclude noneg d = Inr d"
| "cluster_values i (key # rest) vals exclude noneg d =
     (if key \<noteq> 0 then
        (case getitem vals i of
           Inl e \<Rightarrow> Inl e
         | Inr val \<Rightarrow>
             cluster_values (Suc i) rest vals exclude noneg
               (dict_append key
                  (if val \<in> set exclude then NaN else if val < 0 \<and> noneg then NaN else Fin val)
                  d))
      else cluster_values (Suc i) rest vals exclude noneg d)"

text \<open>
  \<^verbatim>\<open>get_cluster_mean\<close> for a label grid that is a masked array: the grid is filled with
  0 where it is masked, and pixels with label 0 are skipped.
\<close>

definition get_cluster_mean ::
  "int list \<Rightarrow> bool list \<Rightarrow> real list \<Rightarrow> real list \<Rightarrow> bool
     \<Rightarrow> error + (int \<times> npfloat) list" where
  "get_cluster_mean labels cmask vals exclude noneg =
     (let filled = map2 (\<lambda>l k. if k then 0 else l) labels cmask
      in case cluster_values 0 filled vals exclude noneg [] of
           Inl e \<Rightarrow> Inl e
         | Inr d \<Rightarrow> Inr (map (\<lambda>(k, v). (k, nanmean v)) d))"

definition lwp_corr :: real where
  "lwp_corr = 0.88"

text \<open>
  \<^verbatim>\<open>get_fog_base_height\<close>. The 1-D cloud model \<^verbatim>\<open>LowWaterCloud\<close> is outside this
  repository: \<open>model cth ctt cwp reff\<close> stands for building the model from these four
  numbers (with \<^verbatim>\<open>cbh=0\<close>) and running \<^verbatim>\<open>get_cloud_base_height(-100, 'basin')\<close> and
  \<^verbatim>\<open>get_fog_base_height()\<close> on it; it is \<open>None\<close> when one of the two calls raises and
  \<open>Some (cbh, fbh)\<close> otherwise. (The construction itself stands before the \<^verbatim>\<open>try\<close>; it
  is taken to return.)
\<close>

definition get_fog_base_height ::
  "(npfloat \<Rightarrow> npfloat \<Rightarrow> npfloat \<Rightarrow> npfloat \<Rightarrow> (npfloat \<times> npfloat) option)
     \<Rightarrow> npfloat \<Rightarrow> npfloat \<Rightarrow> npfloat \<Rightarrow> npfloat \<Rightarrow> npfloat \<times> npfloat" where
  "get_fog_base_height model cwp cth ctt reff =
     (case model cth ctt (np_mul cwp lwp_corr) reff of
        None \<Rightarrow> (NaN, NaN)
      | Some (cbh, fbh) \<Rightarrow> (cbh, fbh))"

text \<open>
  \<^verbatim>\<open>np.empty(shape)\<close>: an array of the shape whose content is whatever the memory holds,
  \<open>content i\<close> at pixel \<open>i\<close>.
\<close>

definition np_empty :: "(nat \<Rightarrow> npfloat) \<Rightarrow> nat \<Rightarrow> npfloat list" where
  "np_empty content n = map content [0..<n]"

text \<open>
  The loop that writes the results into the grids (lines 667 to 673). The \<open>i\<close>-th entry
  of \<^verbatim>\<open>self.result_list\<close> goes to the pixels of the \<open>i\<close>-th key. \<open>fog_mask\<close> is the mask
  of the label grid itself, so each comparison \<^verbatim>\<open>self.clusters == keys[i]\<close> sees the
  mask as the loop has left it. The elevation grid is combined with the fog base heights
  by broadcasting, and a selection that has not the shape of the mask is refused
  (\<^verbatim>\<open>IndexError\<close>).
\<close>

fun assemble ::
  "nat \<Rightarrow> (npfloat \<times> npfloat) list \<Rightarrow> int list \<Rightarrow> int list \<Rightarrow> real list
     \<Rightarrow> npfloat list \<times> npfloat list \<times> bool list
     \<Rightarrow> error + (npfloat list \<times> npfloat list \<times> bool list)" where
  "assemble i [] keys labels elev st = Inr st"
| "assemble i (res # rest) keys labels elev (cbh, fbh, fog_mask) =
     (case getitem keys i of
        Inl e \<Rightarrow> Inl e
      | Inr key \<Rightarrow>
          (let cbh' = setitem cbh (ma_eq labels fog_mask key) (fst res);
               fbh' = setitem fbh (ma_eq labels fog_mask key) (snd res)
           in case broadcast2 (\<lambda>f e. np_gt (np_sub f e) 0) fbh' elev of
                Inl e \<Rightarrow> Inl e
              | Inr above_ground \<Rightarrow>
                  (case broadcast2 (\<and>) (ma_eq labels fog_mask key) above_ground of
                     Inl e \<Rightarrow> Inl e
                   | Inr sel \<Rightarrow>
                       if length sel \<noteq> length fog_mask then Inl IndexError
                       else assemble (Suc i) rest keys labels elev
                              (cbh', fbh', setitem fog_mask sel True))))"

text \<open>
  The work of one cluster: look its four means up and run the model on them.
\<close>

definition cluster_work ::
  "(npfloat \<Rightarrow> npfloat \<Rightarrow> npfloat \<Rightarrow> npfloat \<Rightarrow> (npfloat \<times> npfloat) option)
     \<Rightarrow> (int \<times> npfloat) list \<Rightarrow> (int \<times> npfloat) list \<Rightarrow> (int \<times> npfloat) list
     \<Rightarrow> (int \<times> npfloat) list \<Rightarrow> int \<Rightarrow> error + (npfloat \<times> npfloat)" where
  "cluster_work model lwp_cluster cth_cluster ctt_cluster reff_cluster key =
     (case dict_get lwp_cluster key of
        Inl e \<Rightarrow> Inl e
      | Inr cwp \<Rightarrow>
          (case dict_get cth_cluster key of
             Inl e \<Rightarrow> Inl e
           | Inr cth \<Rightarrow>
               (case dict_get ctt_cluster key of
                  Inl e \<Rightarrow> Inl e
                | Inr ctt \<Rightarrow>
                    (case dict_get reff_cluster key of
                       Inl e \<Rightarrow> Inl e
                     | Inr reff \<Rightarrow> Inr (get_fog_base_height model cwp cth ctt reff)))))"

text \<open>
  The four dictionaries of cluster means (lines 647 to 654); \<^verbatim>\<open>ctt_cluster\<close> is computed
  with the default arguments of \<^verbatim>\<open>get_cluster_mean\<close>.
\<close>

definition cluster_means ::
  "real list \<Rightarrow> real list \<Rightarrow> real list \<Rightarrow> real list \<Rightarrow> int list \<Rightarrow> bool list
     \<Rightarrow> error + ((int \<times> npfloat) list \<times> (int \<times> npfloat) list
                \<times> (int \<times> npfloat) list \<times> (int \<times> npfloat) list)" where
  "cluster_means lwp cth ir108 reff labels cmask =
     (case get_cluster_mean labels cmask (map (\<lambda>x. x * 1000) lwp) [0] True of
        Inl e \<Rightarrow> Inl e
      | Inr lwp_cluster \<Rightarrow>
     (case get_cluster_mean labels cmask cth [0] True of
        Inl e \<Rightarrow> Inl e
      | Inr cth_cluster \<Rightarrow>
     (case get_cluster_mean labels cmask ir108 [0] True of
        Inl e \<Rightarrow> Inl e
      | Inr ctt_cluster \<Rightarrow>
     (case get_cluster_mean labels cmask reff [] False of
        Inl e \<Rightarrow> Inl e
      | Inr reff_cluster \<Rightarrow> Inr (lwp_cluster, cth_cluster, ctt_cluster, reff_cluster)))))"

text \<open>
  Lines 655 to 666: one piece of work per key, and the list \<^verbatim>\<open>self.result_list\<close> as the
  pool leaves it, returned with the keys. The callback appends each result when it
  completes: \<open>order\<close> is the order of completion, the \<open>i\<close>-th result to arrive being that
  of the key submitted at position \<open>order ! i\<close>.
\<close>

definition run_models ::
  "(npfloat \<Rightarrow> npfloat \<Rightarrow> npfloat \<Rightarrow> npfloat \<Rightarrow> (npfloat \<times> npfloat) option)
     \<Rightarrow> nat list
     \<Rightarrow> (int \<times> npfloat) list \<times> (int \<times> npfloat) list
         \<times> (int \<times> npfloat) list \<times> (int \<times> npfloat) list
     \<Rightarrow> error + (int list \<times> (npfloat \<times> npfloat) list)" where
  "run_models model order means =
     (case means of (lwp_cluster, cth_cluster, ctt_cluster, reff_cluster) \<Rightarrow>
        (let keys = map fst lwp_cluster in
         case map_err (cluster_work model lwp_cluster cth_cluster ctt_cluster reff_cluster)
                keys of
           Inl e \<Rightarrow> Inl e
         | Inr results \<Rightarrow>
             (case take_idx results order of
                Inl e \<Rightarrow> Inl e
              | Inr result_list \<Rightarrow> Inr (keys, result_list))))"

text \<open>
  \<^verbatim>\<open>LowCloudFilter.filter_function\<close> up to \<^verbatim>\<open>self.mask\<close>, returning what it logged
  after the banner, and the two height grids and the mask. The label grid is a masked
  array: its labels and its mask, of one shape. \<open>cbh_mem\<close> and \<open>fbh_mem\<close> are the
  contents of the memory that the two calls of \<^verbatim>\<open>np.empty\<close> return.
\<close>

definition lowcloud_filter_function ::
  "(npfloat \<Rightarrow> npfloat \<Rightarrow> npfloat \<Rightarrow> npfloat \<Rightarrow> (npfloat \<times> npfloat) option)
     \<Rightarrow> nat list \<Rightarrow> (nat \<Rightarrow> npfloat) \<Rightarrow> (nat \<Rightarrow> npfloat)
     \<Rightarrow> real list \<Rightarrow> real list \<Rightarrow> real list \<Rightarrow> real list \<Rightarrow> real list
     \<Rightarrow> int list \<Rightarrow> bool list
     \<Rightarrow> log_entry list \<times> (error + (npfloat list \<times> npfloat list \<times> bool list))" where
  "lowcloud_filter_function model order cbh_mem fbh_mem lwp cth ir108 reff elev labels cmask =
     (if length cmask \<noteq> length labels then ([], Inl ValueError)
      else
        (let cbh = np_empty cbh_mem (length labels);
             fbh = np_empty fbh_mem (length labels);
             fog_mask = cmask
         in case cluster_means lwp cth ir108 reff labels cmask of
              Inl e \<Rightarrow> ([], Inl e)
            | Inr means \<Rightarrow>
                (case run_models model order means of
                   Inl e \<Rightarrow> ([Info ''Run low cloud models''], Inl e)
                 | Inr (keys, result_list) \<Rightarrow>
                     ([Info ''Run low cloud models''],
                      assemble 0 result_list keys labels elev (cbh, fbh, fog_mask)))))"

definition LowCloudFilter_filter_function ::
  "(npfloat \<Rightarrow> npfloat \<Rightarrow> npfloat \<Rightarrow> npfloat \<Rightarrow> (npfloat \<times> npfloat) option)
     \<Rightarrow> nat list \<Rightarrow> (nat \<Rightarrow> npfloat) \<Rightarrow> (nat \<Rightarrow> npfloat)
     \<Rightarrow> real list \<Rightarrow> real list \<Rightarrow> real list \<Rightarrow> real list \<Rightarrow> real list
     \<Rightarrow> int list \<Rightarrow> bool list \<Rightarrow> filter_obj
     \<Rightarrow> log_entry list \<times> (error + filter_obj)" where
  "LowCloudFilter_filter_function model order cbh_mem fbh_mem lwp cth ir108 reff elev labels cmask =
     run_filter ''Applying Low Cloud Filter''
       (case lowcloud_filter_function model order cbh_mem fbh_mem lwp cth ir108 reff elev labels
               cmask of
          (l, Inl e) \<Rightarrow> (l, Inl e)
        | (l, Inr (cbh, fbh, fog_mask)) \<Rightarrow> (l, Inr fog_mask))"

section \<open>The low-cloud filter at work\<close>

text \<open>
  C2 at a scene of two pixels and two clusters with labels 1 and 2, terrain at 0 m. The
  model returns cloud base \<open>c1\<close> and fog base \<open>f1\<close> for the cluster whose mean cloud-top
  height is 1 (label 1), and \<open>c2\<close> and \<open>f2\<close> for the other. When the results arrive in
  the order of submission, the pixel of label 1 gets \<open>(c1, f1)\<close> and the pixel of label
  2 gets \<open>(c2, f2)\<close>. When the result of label 2 arrives first, the grids are swapped: the
  pixel of label 1 gets the heights computed for label 2, and is masked when \<open>f2\<close> is
  above the terrain, and the pixel of label 2 gets those of label 1. The list has two
  results in both runs, and \<open>Run low cloud models\<close> is what the filter logs after its
  banner.
\<close>

theorem lowcloud_attribution_follows_completion_order:
  "lowcloud_filter_function
     (\<lambda>cth ctt cwp reff. if cth = Fin 1 then Some (Fin c1, Fin f1) else Some (Fin c2, Fin f2))
     [0, 1] cbh_mem fbh_mem [1, 1] [1, 2] [280, 280] [1, 1] [0, 0] [1, 2] [False, False]
   = ([Info ''Run low cloud models''], Inr ([Fin c1, Fin c2], [Fin f1, Fin f2], [0 < f1, 0 < f2]))
   \<and> lowcloud_filter_function
     (\<lambda>cth ctt cwp reff. if cth = Fin 1 then Some (Fin c1, Fin f1) else Some (Fin c2, Fin f2))
     [1, 0] cbh_mem fbh_mem [1, 1] [1, 2] [280, 280] [1, 1] [0, 0] [1, 2] [False, False]
   = ([Info ''Run low cloud models''], Inr ([Fin c2, Fin c1], [Fin f2, Fin f1], [0 < f2, 0 < f1]))"
  by (simp add: lowcloud_filter_function_def cluster_means_def run_models_def
      get_cluster_mean_def nanmean_def cluster_work_def
      dict_get_def get_fog_base_height_def take_idx_def getitem_def ma_eq_def setitem_def
      broadcast2_def np_empty_def)

theorem lowcloud_attribution_follows_completion_order_witness:
  "lowcloud_filter_function
     (\<lambda>cth ctt cwp reff. if cth = Fin 1 then Some (Fin 100, Fin 50) else Some (Fin 10, Fin (- 5)))
     [0, 1] (\<lambda>i. Fin 0) (\<lambda>i. Fin 0) [1, 1] [1, 2] [280, 280] [1, 1] [0, 0] [1, 2]
     [False, False]
   = ([Info ''Run low cloud models''], Inr ([Fin 100, Fin 10], [Fin 50, Fin (- 5)], [True, False]))
   \<and> lowcloud_filter_function
     (\<lambda>cth ctt cwp reff. if cth = Fin 1 then Some (Fin 100, Fin 50) else Some (Fin 10, Fin (- 5)))
     [1, 0] (\<lambda>i. Fin 0) (\<lambda>i. Fin 0) [1, 1] [1, 2] [280, 280] [1, 1] [0, 0] [1, 2]
     [False, False]
   = ([Info ''Run low cloud models''], Inr ([Fin 10, Fin 100], [Fin (- 5), Fin 50], [False, True]))"
  using lowcloud_attribution_follows_completion_order
    [of 100 50 10 "- 5" "\<lambda>i. Fin 0" "\<lambda>i. Fin 0"]
  by simp

text \<open>
  C4 at the same scene. Now the model raises for label 1 and returns \<open>(c, f)\<close> for label
  2. \<open>get_fog_base_height\<close> turns the failure into \<open>(nan, nan)\<close>. When the results
  arrive in the order of submission, the pixel of the failed cluster holds \<open>nan\<close>
  heights and keeps its inbound mask value (unmasked). When the result of label 2 arrives
  first, the pixel of the failed cluster holds the heights \<open>c\<close> and \<open>f\<close> of its sibling,
  and is masked when \<open>f\<close> is above the terrain, and the sibling holds \<open>nan\<close>.
\<close>

theorem lowcloud_failed_cluster_takes_sibling_result:
  "get_fog_base_height (\<lambda>cth ctt cwp reff. None) cwp cth ctt reff = (NaN, NaN)
   \<and> lowcloud_filter_function
     (\<lambda>cth ctt cwp reff. if cth = Fin 1 then None else Some (Fin c, Fin f))
     [0, 1] cbh_mem fbh_mem [1, 1] [1, 2] [280, 280] [1, 1] [0, 0] [1, 2] [False, False]
   = ([Info ''Run low cloud models''], Inr ([NaN, Fin c], [NaN, Fin f], [False, 0 < f]))
   \<and> lowcloud_filter_function
     (\<lambda>cth ctt cwp reff. if cth = Fin 1 then None else Some (Fin c, Fin f))
     [1, 0] cbh_mem fbh_mem [1, 1] [1, 2] [280, 280] [1, 1] [0, 0] [1, 2] [False, False]
   = ([Info ''Run low cloud models''], Inr ([Fin c, NaN], [Fin f, NaN], [0 < f, False]))"
  by (simp add: lowcloud_filter_function_def cluster_means_def run_models_def
      get_cluster_mean_def nanmean_def cluster_work_def
      dict_get_def get_fog_base_height_def take_idx_def getitem_def ma_eq_def setitem_def
      broadcast2_def np_empty_def)

theorem lowcloud_failed_cluster_takes_sibling_result_witness:
  "lowcloud_filter_function
     (\<lambda>cth ctt cwp reff. if cth = Fin 1 then None else Some (Fin 10, Fin 50))
     [0, 1] (\<lambda>i. Fin 0) (\<lambda>i. Fin 0) [1, 1] [1, 2] [280, 280] [1, 1] [0, 0] [1, 2]
     [False, False]
   = ([Info ''Run low cloud models''], Inr ([NaN, Fin 10], [NaN, Fin 50], [False, True]))
   \<and> lowcloud_filter_function
     (\<lambda>cth ctt cwp reff. if cth = Fin 1 then None else Some (Fin 10, Fin 50))
     [1, 0] (\<lambda>i. Fin 0) (\<lambda>i. Fin 0) [1, 1] [1, 2] [280, 280] [1, 1] [0, 0] [1, 2]
     [False, False]
   = ([Info ''Run low cloud models''], Inr ([Fin 10, NaN], [Fin 50, NaN], [True, False]))"
  using lowcloud_failed_cluster_takes_sibling_result
    [of "Fin 1" "Fin 1" "Fin 1" "Fin 1" 10 50 "\<lambda>i. Fin 0" "\<lambda>i. Fin 0"]
  by simp

section \<open>The masks as shared arrays\<close>

text \<open>
  Whether a filter changes the label grid, and whether the mask it returns is a new
  array, depends on which names refer to one array. Here the arrays live in a heap, the
  integer arrays and the boolean arrays each under their addresses, and a masked array of
  integers such as the label grid is the address of its data and the address of its mask.
  \<^verbatim>\<open>cluster_mask = self.clusters.mask\<close> copies the address, not the array. A filter
  function returns the heap as it has left it, also when it raises.
\<close>

type_synonym addr = nat

record heap =
  int_arrays :: "addr \<Rightarrow> int list"
  bool_arrays :: "addr \<Rightarrow> bool list"

record masked_grid =
  data_at :: addr
  mask_at :: addr

definition grid_labels :: "heap \<Rightarrow> masked_grid \<Rightarrow> int list" where
  "grid_labels h g = int_arrays h (data_at g)"

definition grid_mask :: "heap \<Rightarrow> masked_grid \<Rightarrow> bool list" where
  "grid_mask h g = bool_arrays h (mask_at g)"

text \<open>\<^verbatim>\<open>a[selection] = v\<close> on the boolean array at address \<open>a\<close>.\<close>

definition setitem_at :: "addr \<Rightarrow> bool list \<Rightarrow> bool \<Rightarrow> heap \<Rightarrow> heap" where
  "setitem_at a sel v h = h\<lparr>bool_arrays := (bool_arrays h)(a := setitem (bool_arrays h a) sel v)\<rparr>"

subsection \<open>SpatialCloudTopHeightFilter\<close>

text \<open>
  The first loop of \<^verbatim>\<open>SpatialCloudTopHeightFilter.filter_function\<close> on the heap: the
  comparison \<^verbatim>\<open>self.clusters == key\<close> reads the label grid, and the assignment writes
  the array at \<open>cluster_mask\<close>.
\<close>

fun cth_loop_st :: "(int \<times> real list) list \<Rightarrow> masked_grid \<Rightarrow> addr \<Rightarrow> heap \<Rightarrow> heap" where
  "cth_loop_st [] clusters cluster_mask h = h"
| "cth_loop_st ((key, item) # rest) clusters cluster_mask h =
     cth_loop_st rest clusters cluster_mask
       (if list_ex (\<lambda>c. c > 2000) item
        then setitem_at cluster_mask (ma_eq (grid_labels h clusters) (grid_mask h clusters) key)
               True h
        else h)"

text \<open>
  The filter function on the heap: the heap afterwards and either the exception or the
  address that \<^verbatim>\<open>self.mask\<close> holds. The second loop works on a copy of the label grid
  and writes no array of the heap.
\<close>

definition cth_filter_function_st ::
  "masked_grid \<Rightarrow> (int \<times> real list) list \<Rightarrow> heap \<Rightarrow> heap \<times> (error + addr)" where
  "cth_filter_function_st clusters cluster_z h =
     (if length (grid_mask h clusters) \<noteq> length (grid_labels h clusters) then (h, Inl ValueError)
      else
        (let cluster_mask = mask_at clusters;
             h1 = cth_loop_st cluster_z clusters cluster_mask h
         in if list_ex (\<lambda>(key, item). item = []) cluster_z then (h1, Inl ValueError)
            else (h1, Inr cluster_mask)))"

subsection \<open>SpatialHomogeneityFilter\<close>

text \<open>
  The homogeneity filter on the heap. \<^verbatim>\<open>cluster_mask = self.inmask\<close> is the address of
  the mask of \<open>arr\<close> (\<open>None\<close> for a plain array); the mask \<open>cma\<close> of \<^verbatim>\<open>cluster_ma\<close> is a
  new array made before the loop.
\<close>

fun homog_loop_st :: "nat \<Rightarrow> int list \<Rightarrow> bool list \<Rightarrow> bool list \<Rightarrow> addr \<Rightarrow> heap \<Rightarrow> heap" where
  "homog_loop_st 0 labels cma sdm cluster_mask h = h"
| "homog_loop_st (Suc n) labels cma sdm cluster_mask h =
     setitem_at cluster_mask (ma_eq labels cma (int (Suc n))) (sdm ! n)
       (homog_loop_st n labels cma sdm cluster_mask h)"

definition homog_filter_function_st ::
  "addr option \<Rightarrow> masked_grid \<Rightarrow> nat \<Rightarrow> real list \<Rightarrow> heap \<Rightarrow> heap \<times> (error + addr)" where
  "homog_filter_function_st inmask_at clusters nlbl cluster_sd h =
     (case inmask_at of
        None \<Rightarrow> (h, Inl TypeError)
      | Some cluster_mask \<Rightarrow>
          if length (grid_mask h clusters) \<noteq> length (grid_labels h clusters)
             \<or> length (bool_arrays h cluster_mask) \<noteq> length (grid_labels h clusters)
          then (h, Inl IndexError)
          else
            (let cma = map2 (\<or>) (bool_arrays h cluster_mask) (grid_mask h clusters)
             in if length (sd_mask cluster_sd) < nlbl then (h, Inl IndexError)
                else (homog_loop_st nlbl (grid_labels h clusters) cma (sd_mask cluster_sd)
                        cluster_mask h,
                      Inr cluster_mask)))"

subsection \<open>LowCloudFilter\<close>

text \<open>
  The loop of the low-cloud filter on the heap: \<^verbatim>\<open>self.fog_mask = self.clusters.mask\<close>
  is the address \<open>fog_mask\<close>; the two height grids are new arrays of the filter. The log
  is left out here.
\<close>

fun assemble_st ::
  "nat \<Rightarrow> (npfloat \<times> npfloat) list \<Rightarrow> int list \<Rightarrow> masked_grid \<Rightarrow> real list \<Rightarrow> addr
     \<Rightarrow> npfloat list \<times> npfloat list \<Rightarrow> heap
     \<Rightarrow> heap \<times> (error + (npfloat list \<times> npfloat list))" where
  "assemble_st i [] keys clusters elev fog_mask st h = (h, Inr st)"
| "assemble_st i (res # rest) keys clusters elev fog_mask (cbh, fbh) h =
     (case getitem keys i of
        Inl e \<Rightarrow> (h, Inl e)
      | Inr key \<Rightarrow>
          (let cbh' = setitem cbh (ma_eq (grid_labels h clusters) (grid_mask h clusters) key)
                        (fst res);
               fbh' = setitem fbh (ma_eq (grid_labels h clusters) (grid_mask h clusters) key)
                        (snd res)
           in case broadcast2 (\<lambda>f e. np_gt (np_sub f e) 0) fbh' elev of
                Inl e \<Rightarrow> (h, Inl e)
              | Inr above_ground \<Rightarrow>
                  (case broadcast2 (\<and>)
                          (ma_eq (grid_labels h clusters) (grid_mask h clusters) key)
                          above_ground of
                     Inl e \<Rightarrow> (h, Inl e)
                   | Inr sel \<Rightarrow>
                       if length sel \<noteq> length (bool_arrays h fog_mask) then (h, Inl IndexError)
                       else assemble_st (Suc i) rest keys clusters elev fog_mask (cbh', fbh')
                              (setitem_at fog_mask sel True h))))"

definition lowcloud_filter_function_st ::
  "(npfloat \<Rightarrow> npfloat \<Rightarrow> npfloat \<Rightarrow> npfloat \<Rightarrow> (npfloat \<times> npfloat) option)
     \<Rightarrow> nat list \<Rightarrow> (nat \<Rightarrow> npfloat) \<Rightarrow> (nat \<Rightarrow> npfloat)
     \<Rightarrow> real list \<Rightarrow> real list \<Rightarrow> real list \<Rightarrow> real list \<Rightarrow> real list
     \<Rightarrow> masked_grid \<Rightarrow> heap
     \<Rightarrow> heap \<times> (error + (npfloat list \<times> npfloat list \<times> addr))" where
  "lowcloud_filter_function_st model order cbh_mem fbh_mem lwp cth ir108 reff elev clusters h =
     (if length (grid_mask h clusters) \<noteq> length (grid_labels h clusters)
      then (h, Inl ValueError)
      else
        (let cbh = np_empty cbh_mem (length (grid_labels h clusters));
             fbh = np_empty fbh_mem (length (grid_labels h clusters));
             fog_mask = mask_at clusters
         in case cluster_means lwp cth ir108 reff (grid_labels h clusters) (grid_mask h clusters) of
              Inl e \<Rightarrow> (h, Inl e)
            | Inr means \<Rightarrow>
                (case run_models model order means of
                   Inl e \<Rightarrow> (h, Inl e)
                 | Inr (keys, result_list) \<Rightarrow>
                     (case assemble_st 0 result_list keys clusters elev fog_mask (cbh, fbh) h of
                        (h1, Inl e) \<Rightarrow> (h1, Inl e)
                      | (h1, Inr (cbh1, fbh1)) \<Rightarrow> (h1, Inr (cbh1, fbh1, fog_mask))))))"

subsection \<open>What a filter may do to the heap\<close>

text \<open>A mask only grows: it keeps its shape and what was masked is masked.\<close>

definition mask_le :: "bool list \<Rightarrow> bool list \<Rightarrow> bool" where
  "mask_le m m' \<longleftrightarrow> length m' = length m \<and> (\<forall>i < length m. m ! i \<longrightarrow> m' ! i)"

text \<open>
  From heap \<open>h\<close> to heap \<open>h'\<close> nothing has changed but the boolean array at address
  \<open>a\<close>, and that array has only grown.
\<close>

definition only_masks_more :: "addr \<Rightarrow> heap \<Rightarrow> heap \<Rightarrow> bool" where
  "only_masks_more a h h' \<longleftrightarrow>
     int_arrays h' = int_arrays h
     \<and> (\<forall>b. b \<noteq> a \<longrightarrow> bool_arrays h' b = bool_arrays h b)
     \<and> mask_le (bool_arrays h a) (bool_arrays h' a)"

section \<open>What the clustering filters do to shared masks\<close>

lemma int_arrays_setitem_at: "int_arrays (setitem_at a sel v h) = int_arrays h"
  by (simp add: setitem_at_def)

lemma bool_arrays_setitem_at:
  "bool_arrays (setitem_at a sel v h) = (bool_arrays h)(a := setitem (bool_arrays h a) sel v)"
  by (simp add: setitem_at_def)

lemma grid_labels_setitem_at: "grid_labels (setitem_at a sel v h) g = grid_labels h g"
  by (simp add: grid_labels_def int_arrays_setitem_at)

lemma mask_le_refl: "mask_le m m"
  by (simp add: mask_le_def)

lemma mask_le_trans: "mask_le a b \<Longrightarrow> mask_le b c \<Longrightarrow> mask_le a c"
  by (auto simp: mask_le_def)

lemma mask_le_setitem_True: "length sel = length m \<Longrightarrow> mask_le m (setitem m sel True)"
  by (simp add: mask_le_def setitem_def)

lemma only_masks_more_refl: "only_masks_more a h h"
  by (simp add: only_masks_more_def mask_le_refl)

lemma only_masks_more_trans:
  "only_masks_more a h h1 \<Longrightarrow> only_masks_more a h1 h2 \<Longrightarrow> only_masks_more a h h2"
  unfolding only_masks_more_def using mask_le_trans by auto

lemma only_masks_more_setitem_at:
  assumes "mask_le (bool_arrays h a) (setitem (bool_arrays h a) sel v)"
  shows "only_masks_more a h (setitem_at a sel v h)"
  using assms by (simp add: only_masks_more_def setitem_at_def)

lemma grid_mask_setitem_at:
  "grid_mask (setitem_at (mask_at g) sel v h) g = setitem (grid_mask h g) sel v"
  by (simp add: grid_mask_def bool_arrays_setitem_at)

lemma int_arrays_cth_loop_st: "int_arrays (cth_loop_st cz cl a h) = int_arrays h"
proof (induction cz arbitrary: h)
  case Nil
  then show ?case by simp
next
  case (Cons x cz)
  obtain key item where x: "x = (key, item)" by (cases x)
  show ?case by (simp add: x Cons.IH int_arrays_setitem_at)
qed

lemma bool_arrays_cth_loop_st:
  "bool_arrays (cth_loop_st cz cl (mask_at cl) h) =
     (bool_arrays h)(mask_at cl := cth_loop cz (grid_labels h cl) (grid_mask h cl))"
proof (induction cz arbitrary: h)
  case Nil
  then show ?case by (simp add: grid_mask_def)
next
  case (Cons x cz)
  obtain key item where x: "x = (key, item)" by (cases x)
  show ?case
  proof (cases "list_ex (\<lambda>c. c > 2000) item")
    case False
    then show ?thesis by (simp add: x Cons.IH)
  next
    case True
    let ?sel = "ma_eq (grid_labels h cl) (grid_mask h cl) key"
    let ?h1 = "setitem_at (mask_at cl) ?sel True h"
    have "bool_arrays (cth_loop_st (x # cz) cl (mask_at cl) h)
        = bool_arrays (cth_loop_st cz cl (mask_at cl) ?h1)"
      using True by (simp add: x)
    also have "\<dots> = (bool_arrays ?h1)(mask_at cl :=
        cth_loop cz (grid_labels ?h1 cl) (grid_mask ?h1 cl))"
      by (rule Cons.IH)
    also have "\<dots> = (bool_arrays h)(mask_at cl :=
        cth_loop cz (grid_labels h cl) (setitem (grid_mask h cl) ?sel True))"
      by (simp only: grid_labels_setitem_at grid_mask_setitem_at bool_arrays_setitem_at
          fun_upd_upd)
    also have "\<dots> = (bool_arrays h)(mask_at cl :=
        cth_loop (x # cz) (grid_labels h cl) (grid_mask h cl))"
      using True by (simp add: x)
    finally show ?thesis .
  qed
qed

lemma int_arrays_homog_loop_st: "int_arrays (homog_loop_st n labels cma sdm a h) = int_arrays h"
  by (induction n) (simp_all add: int_arrays_setitem_at)

lemma bool_arrays_homog_loop_st:
  "bool_arrays (homog_loop_st n labels cma sdm a h) =
     (bool_arrays h)(a := homog_loop n labels cma sdm (bool_arrays h a))"
proof (induction n)
  case 0
  then show ?case by simp
next
  case (Suc n)
  have "bool_arrays (homog_loop_st (Suc n) labels cma sdm a h)
      = (bool_arrays (homog_loop_st n labels cma sdm a h))(a :=
          setitem (bool_arrays (homog_loop_st n labels cma sdm a h) a)
            (ma_eq labels cma (int (Suc n))) (sdm ! n))"
    by (simp only: homog_loop_st.simps bool_arrays_setitem_at)
  also have "\<dots> = (bool_arrays h)(a :=
      setitem (homog_loop n labels cma sdm (bool_arrays h a))
        (ma_eq labels cma (int (Suc n))) (sdm ! n))"
    by (simp only: Suc fun_upd_upd fun_upd_same)
  also have "\<dots> = (bool_arrays h)(a := homog_loop (Suc n) labels cma sdm (bool_arrays h a))"
    by (simp only: homog_loop.simps)
  finally show ?case .
qed

lemma mask_le_cth_loop:
  assumes "length m = length labels"
  shows "mask_le m (cth_loop cz labels m)"
  unfolding mask_le_def
proof (intro conjI allI impI)
  show "length (cth_loop cz labels m) = length m"
    using length_cth_loop [OF assms] assms by simp
next
  fix i assume "i < length m" and "m ! i"
  then show "cth_loop cz labels m ! i"
    using nth_cth_loop [OF assms, of i cz] assms by simp
qed

lemma mask_le_homog_loop:
  assumes "length im = length labels" and "length cmask = length labels"
  shows "mask_le im (homog_loop n labels (map2 (\<or>) im cmask) sdm im)"
  unfolding mask_le_def
proof (intro conjI allI impI)
  have lc: "length (map2 (\<or>) im cmask) = length labels" using assms by simp
  show "length (homog_loop n labels (map2 (\<or>) im cmask) sdm im) = length im"
    using length_homog_loop [OF assms(1) lc] assms(1) by simp
  fix i assume i: "i < length im" and m: "im ! i"
  have il: "i < length labels" using i assms(1) by simp
  have c: "map2 (\<or>) im cmask ! i" using i m assms by simp
  show "homog_loop n labels (map2 (\<or>) im cmask) sdm im ! i"
    using nth_homog_loop [OF assms(1) lc il, of n sdm] c m by simp
qed

lemma only_masks_more_write:
  assumes "int_arrays h' = int_arrays h" and "bool_arrays h' = (bool_arrays h)(a := m)"
    and "mask_le (bool_arrays h a) m"
  shows "only_masks_more a h h'"
  using assms by (simp add: only_masks_more_def)

lemma cth_filter_function_st_frame:
  "only_masks_more (mask_at cl) h (fst (cth_filter_function_st cl cz h))"
proof (cases "length (grid_mask h cl) = length (grid_labels h cl)")
  case False
  then show ?thesis by (simp add: cth_filter_function_st_def only_masks_more_refl)
next
  case True
  have "mask_le (bool_arrays h (mask_at cl)) (cth_loop cz (grid_labels h cl) (grid_mask h cl))"
    using mask_le_cth_loop [OF True] by (simp add: grid_mask_def)
  with int_arrays_cth_loop_st bool_arrays_cth_loop_st
  have "only_masks_more (mask_at cl) h (cth_loop_st cz cl (mask_at cl) h)"
    by (rule only_masks_more_write)
  then show ?thesis using True by (simp add: cth_filter_function_st_def Let_def)
qed

lemma cth_filter_function_st_Inr:
  assumes "snd (cth_filter_function_st cl cz h) = Inr a"
  shows "a = mask_at cl
    \<and> cth_mask (grid_labels h cl) (grid_mask h cl) cz
        = Inr (bool_arrays (fst (cth_filter_function_st cl cz h)) a)"
  using assms
  by (auto simp: cth_filter_function_st_def cth_mask_def Let_def bool_arrays_cth_loop_st
      split: if_splits)

lemma homog_filter_function_st_Inl:
  assumes "snd (homog_filter_function_st ia cl nlbl sd h) = Inl e"
  shows "fst (homog_filter_function_st ia cl nlbl sd h) = h"
  using assms
  by (auto simp: homog_filter_function_st_def Let_def split: option.splits if_splits)

lemma homog_filter_function_st_Inr:
  assumes "snd (homog_filter_function_st ia cl nlbl sd h) = Inr a"
  shows "ia = Some a
    \<and> only_masks_more a h (fst (homog_filter_function_st ia cl nlbl sd h))
    \<and> homog_mask (Some (bool_arrays h a)) (grid_labels h cl) (grid_mask h cl) nlbl sd
        = Inr (bool_arrays (fst (homog_filter_function_st ia cl nlbl sd h)) a)"
proof -
  from assms have ia: "ia = Some a"
    and l1: "length (grid_mask h cl) = length (grid_labels h cl)"
    and l2: "length (bool_arrays h a) = length (grid_labels h cl)"
    and l3: "\<not> length (sd_mask sd) < nlbl"
    by (auto simp: homog_filter_function_st_def Let_def split: option.splits if_splits)
  let ?cma = "map2 (\<or>) (bool_arrays h a) (grid_mask h cl)"
  let ?m = "homog_loop nlbl (grid_labels h cl) ?cma (sd_mask sd) (bool_arrays h a)"
  let ?h' = "homog_loop_st nlbl (grid_labels h cl) ?cma (sd_mask sd) a h"
  have f: "fst (homog_filter_function_st ia cl nlbl sd h) = ?h'"
    using ia l1 l2 l3 by (simp add: homog_filter_function_st_def Let_def)
  have "mask_le (bool_arrays h a) ?m" using l2 l1 by (rule mask_le_homog_loop)
  with int_arrays_homog_loop_st bool_arrays_homog_loop_st
  have "only_masks_more a h ?h'" by (rule only_masks_more_write)
  then have 1: "only_masks_more a h (fst (homog_filter_function_st ia cl nlbl sd h))"
    unfolding f .
  have "bool_arrays ?h' a = ?m" by (simp add: bool_arrays_homog_loop_st)
  then have 2: "homog_mask (Some (bool_arrays h a)) (grid_labels h cl) (grid_mask h cl) nlbl sd
      = Inr (bool_arrays (fst (homog_filter_function_st ia cl nlbl sd h)) a)"
    unfolding f using l1 l2 l3 by (simp add: homog_mask_def Let_def)
  from ia 1 2 show ?thesis by blast
qed

lemma assemble_st_frame:
  "only_masks_more a h (fst (assemble_st i rs keys cl elev a (cbh, fbh) h))"
proof (induction rs arbitrary: i cbh fbh h)
  case Nil
  then show ?case by (simp add: only_masks_more_refl)
next
  case (Cons r rs)
  show ?case
  proof (cases "getitem keys i")
    case (Inl e)
    then show ?thesis by (simp add: only_masks_more_refl)
  next
    case key: (Inr key)
    let ?eq = "ma_eq (grid_labels h cl) (grid_mask h cl) key"
    let ?cbh = "setitem cbh ?eq (fst r)"
    let ?fbh = "setitem fbh ?eq (snd r)"
    show ?thesis
    proof (cases "broadcast2 (\<lambda>f e. np_gt (np_sub f e) 0) ?fbh elev")
      case (Inl e)
      then show ?thesis using key by (simp add: Let_def only_masks_more_refl)
    next
      case ab: (Inr above_ground)
      show ?thesis
      proof (cases "broadcast2 (\<and>) ?eq above_ground")
        case (Inl e)
        then show ?thesis using key ab by (simp add: Let_def only_masks_more_refl)
      next
        case sel: (Inr sel)
        show ?thesis
        proof (cases "length sel = length (bool_arrays h a)")
          case False
          then show ?thesis using key ab sel by (simp add: Let_def only_masks_more_refl)
        next
          case True
          let ?h1 = "setitem_at a sel True h"
          have "mask_le (bool_arrays h a) (setitem (bool_arrays h a) sel True)"
            using True by (rule mask_le_setitem_True)
          then have 1: "only_masks_more a h ?h1" by (rule only_masks_more_setitem_at)
          have 2: "only_masks_more a ?h1
              (fst (assemble_st (Suc i) rs keys cl elev a (?cbh, ?fbh) ?h1))"
            by (rule Cons.IH)
          have "assemble_st i (r # rs) keys cl elev a (cbh, fbh) h
              = assemble_st (Suc i) rs keys cl elev a (?cbh, ?fbh) ?h1"
            using key ab sel True by (simp add: Let_def)
          then show ?thesis using only_masks_more_trans [OF 1 2] by simp
        qed
      qed
    qed
  qed
qed

lemma assemble_st_Inr:
  assumes "assemble_st i rs keys cl elev (mask_at cl) (cbh, fbh) h = (h', Inr (c, f))"
  shows "assemble i rs keys (grid_labels h cl) elev (cbh, fbh, grid_mask h cl)
    = Inr (c, f, grid_mask h' cl)"
  using assms
proof (induction rs arbitrary: i cbh fbh h)
  case Nil
  then show ?case by simp
next
  case (Cons r rs)
  note a = Cons.prems
  from a obtain key where key: "getitem keys i = Inr key"
    by (cases "getitem keys i") auto
  let ?eq = "ma_eq (grid_labels h cl) (grid_mask h cl) key"
  let ?cbh = "setitem cbh ?eq (fst r)"
  let ?fbh = "setitem fbh ?eq (snd r)"
  from a key obtain above_ground where
    ab: "broadcast2 (\<lambda>f e. np_gt (np_sub f e) 0) ?fbh elev = Inr above_ground"
    by (cases "broadcast2 (\<lambda>f e. np_gt (np_sub f e) 0) ?fbh elev") (auto simp: Let_def)
  from a key ab obtain sel where sel: "broadcast2 (\<and>) ?eq above_ground = Inr sel"
    by (cases "broadcast2 (\<and>) ?eq above_ground") (auto simp: Let_def)
  from a key ab sel have len: "length sel = length (bool_arrays h (mask_at cl))"
    by (cases "length sel = length (bool_arrays h (mask_at cl))") (auto simp: Let_def)
  let ?h1 = "setitem_at (mask_at cl) sel True h"
  have step: "assemble_st (Suc i) rs keys cl elev (mask_at cl) (?cbh, ?fbh) ?h1 = (h', Inr (c, f))"
    using a key ab sel len by (simp add: Let_def)
  have "assemble (Suc i) rs keys (grid_labels ?h1 cl) elev (?cbh, ?fbh, grid_mask ?h1 cl)
      = Inr (c, f, grid_mask h' cl)"
    using step by (rule Cons.IH)
  then have "assemble (Suc i) rs keys (grid_labels h cl) elev
      (?cbh, ?fbh, setitem (grid_mask h cl) sel True) = Inr (c, f, grid_mask h' cl)"
    by (simp only: grid_labels_setitem_at grid_mask_setitem_at)
  moreover have "length sel = length (grid_mask h cl)" using len by (simp add: grid_mask_def)
  ultimately show ?case using key ab sel by (simp add: Let_def)
qed

lemma lowcloud_filter_function_st_frame:
  "only_masks_more (mask_at cl) h
     (fst (lowcloud_filter_function_st model order cbh_mem fbh_mem lwp cth ir108 reff elev cl h))"
proof (cases "length (grid_mask h cl) = length (grid_labels h cl)")
  case False
  then show ?thesis by (simp add: lowcloud_filter_function_st_def only_masks_more_refl)
next
  case True
  show ?thesis
  proof (cases "cluster_means lwp cth ir108 reff (grid_labels h cl) (grid_mask h cl)")
    case (Inl e)
    then show ?thesis
      using True by (simp add: lowcloud_filter_function_st_def only_masks_more_refl)
  next
    case means: (Inr means)
    show ?thesis
    proof (cases "run_models model order means")
      case (Inl e)
      then show ?thesis
        using True means by (simp add: lowcloud_filter_function_st_def only_masks_more_refl)
    next
      case (Inr kr)
      obtain keys result_list where kr: "kr = (keys, result_list)" by (cases kr)
      let ?cbh = "np_empty cbh_mem (length (grid_labels h cl))"
      let ?fbh = "np_empty fbh_mem (length (grid_labels h cl))"
      let ?r = "assemble_st 0 result_list keys cl elev (mask_at cl) (?cbh, ?fbh) h"
      have "fst (lowcloud_filter_function_st model order cbh_mem fbh_mem lwp cth ir108 reff elev
          cl h) = fst ?r"
        using True means Inr kr
        by (simp add: lowcloud_filter_function_st_def Let_def split: prod.splits sum.splits)
      then show ?thesis
        using assemble_st_frame [of "mask_at cl" h 0 result_list keys cl elev ?cbh ?fbh]
        by simp
    qed
  qed
qed

lemma lowcloud_filter_function_st_Inr:
  assumes "snd (lowcloud_filter_function_st model order cbh_mem fbh_mem lwp cth ir108 reff elev
      cl h) = Inr (cbh, fbh, a)"
  shows "a = mask_at cl
    \<and> snd (lowcloud_filter_function model order cbh_mem fbh_mem lwp cth ir108 reff elev
         (grid_labels h cl) (grid_mask h cl))
       = Inr (cbh, fbh,
           bool_arrays (fst (lowcloud_filter_function_st model order cbh_mem fbh_mem lwp cth
             ir108 reff elev cl h)) a)"
proof -
  let ?L = "lowcloud_filter_function_st model order cbh_mem fbh_mem lwp cth ir108 reff elev cl h"
  from assms have len: "length (grid_mask h cl) = length (grid_labels h cl)"
    by (cases "length (grid_mask h cl) = length (grid_labels h cl)")
      (auto simp: lowcloud_filter_function_st_def)
  from assms len obtain means where
    cm: "cluster_means lwp cth ir108 reff (grid_labels h cl) (grid_mask h cl) = Inr means"
    by (cases "cluster_means lwp cth ir108 reff (grid_labels h cl) (grid_mask h cl)")
      (auto simp: lowcloud_filter_function_st_def)
  from assms len cm obtain keys result_list where
    rm: "run_models model order means = Inr (keys, result_list)"
    by (cases "run_models model order means") (auto simp: lowcloud_filter_function_st_def)
  let ?cbh = "np_empty cbh_mem (length (grid_labels h cl))"
  let ?fbh = "np_empty fbh_mem (length (grid_labels h cl))"
  obtain h1 r1 where as: "assemble_st 0 result_list keys cl elev (mask_at cl) (?cbh, ?fbh) h
      = (h1, r1)"
    by (cases "assemble_st 0 result_list keys cl elev (mask_at cl) (?cbh, ?fbh) h")
  from assms len cm rm as have r1: "r1 = Inr (cbh, fbh)" and a: "a = mask_at cl"
    by (auto simp: lowcloud_filter_function_st_def Let_def split: sum.splits)
  have f: "fst ?L = h1"
    using len cm rm as r1 by (simp add: lowcloud_filter_function_st_def Let_def)
  from as r1 have "assemble 0 result_list keys (grid_labels h cl) elev (?cbh, ?fbh, grid_mask h cl)
      = Inr (cbh, fbh, grid_mask h1 cl)"
    by (intro assemble_st_Inr) simp
  then have "snd (lowcloud_filter_function model order cbh_mem fbh_mem lwp cth ir108 reff elev
      (grid_labels h cl) (grid_mask h cl)) = Inr (cbh, fbh, grid_mask h1 cl)"
    using len cm rm by (simp add: lowcloud_filter_function_def Let_def)
  then show ?thesis using a f by (simp add: grid_mask_def)
qed

text \<open>
  C9, as the code has it. The cloud-top-height filter and the low-cloud filter change
  nothing on the heap but the mask of the label grid, which only grows (the labels and
  all other arrays are as before), also when they raise; when they return, their mask
  \<^verbatim>\<open>self.mask\<close> is the mask array of the label grid itself, and its content is the mask
  computed by \<open>cth_mask\<close> and by \<open>lowcloud_filter_function\<close>. The homogeneity filter
  leaves the heap as it is when it raises; when it returns, its mask is the inbound mask
  array of \<open>arr\<close>, nothing but this array has changed (so the mask of the label grid has
  not, unless it is this array), the array has only grown, and its content is the mask
  computed by \<open>homog_mask\<close>. No filter returns a new array.
\<close>

theorem cluster_filters_update_shared_masks_in_place:
  "only_masks_more (mask_at clusters) h (fst (cth_filter_function_st clusters cluster_z h))
   \<and> (\<forall>a. snd (cth_filter_function_st clusters cluster_z h) = Inr a \<longrightarrow>
          a = mask_at clusters
          \<and> cth_mask (grid_labels h clusters) (grid_mask h clusters) cluster_z
              = Inr (bool_arrays (fst (cth_filter_function_st clusters cluster_z h)) a))
   \<and> only_masks_more (mask_at clusters) h
        (fst (lowcloud_filter_function_st model order cbh_mem fbh_mem lwp cth ir108 reff elev
           clusters h))
   \<and> (\<forall>cbh fbh a.
          snd (lowcloud_filter_function_st model order cbh_mem fbh_mem lwp cth ir108 reff elev
            clusters h) = Inr (cbh, fbh, a) \<longrightarrow>
          a = mask_at clusters
          \<and> snd (lowcloud_filter_function model order cbh_mem fbh_mem lwp cth ir108 reff elev
                 (grid_labels h clusters) (grid_mask h clusters))
              = Inr (cbh, fbh,
                  bool_arrays (fst (lowcloud_filter_function_st model order cbh_mem fbh_mem lwp
                    cth ir108 reff elev clusters h)) a))
   \<and> (\<forall>e. snd (homog_filter_function_st inmask_at clusters nlbl cluster_sd h) = Inl e \<longrightarrow>
          fst (homog_filter_function_st inmask_at clusters nlbl cluster_sd h) = h)
   \<and> (\<forall>a. snd (homog_filter_function_st inmask_at clusters nlbl cluster_sd h) = Inr a \<longrightarrow>
          inmask_at = Some a
          \<and> only_masks_more a h
               (fst (homog_filter_function_st inmask_at clusters nlbl cluster_sd h))
          \<and> homog_mask (Some (bool_arrays h a)) (grid_labels h clusters) (grid_mask h clusters)
               nlbl cluster_sd
              = Inr (bool_arrays
                  (fst (homog_filter_function_st inmask_at clusters nlbl cluster_sd h)) a))"
proof (intro conjI allI impI)
  show "only_masks_more (mask_at clusters) h (fst (cth_filter_function_st clusters cluster_z h))"
    by (rule cth_filter_function_st_frame)
  show "only_masks_more (mask_at clusters) h
      (fst (lowcloud_filter_function_st model order cbh_mem fbh_mem lwp cth ir108 reff elev
         clusters h))"
    by (rule lowcloud_filter_function_st_frame)
next
  fix a assume a: "snd (cth_filter_function_st clusters cluster_z h) = Inr a"
  show "a = mask_at clusters"
    using cth_filter_function_st_Inr [OF a] by (rule conjunct1)
  show "cth_mask (grid_labels h clusters) (grid_mask h clusters) cluster_z
      = Inr (bool_arrays (fst (cth_filter_function_st clusters cluster_z h)) a)"
    using cth_filter_function_st_Inr [OF a] by (rule conjunct2)
next
  fix cbh fbh a
  assume a: "snd (lowcloud_filter_function_st model order cbh_mem fbh_mem lwp cth ir108 reff
      elev clusters h) = Inr (cbh, fbh, a)"
  show "a = mask_at clusters"
    using lowcloud_filter_function_st_Inr [OF a] by (rule conjunct1)
  show "snd (lowcloud_filter_function model order cbh_mem fbh_mem lwp cth ir108 reff elev
      (grid_labels h clusters) (grid_mask h clusters))
      = Inr (cbh, fbh,
          bool_arrays (fst (lowcloud_filter_function_st model order cbh_mem fbh_mem lwp
            cth ir108 reff elev clusters h)) a)"
    using lowcloud_filter_function_st_Inr [OF a] by (rule conjunct2)
next
  fix e assume "snd (homog_filter_function_st inmask_at clusters nlbl cluster_sd h) = Inl e"
  then show "fst (homog_filter_function_st inmask_at clusters nlbl cluster_sd h) = h"
    by (rule homog_filter_function_st_Inl)
next
  fix a assume a: "snd (homog_filter_function_st inmask_at clusters nlbl cluster_sd h) = Inr a"
  note r = homog_filter_function_st_Inr [OF a]
  show "inmask_at = Some a" using r by (rule conjunct1)
  show "only_masks_more a h
      (fst (homog_filter_function_st inmask_at clusters nlbl cluster_sd h))"
    using r by (elim conjE)
  show "homog_mask (Some (bool_arrays h a)) (grid_labels h clusters) (grid_mask h clusters)
      nlbl cluster_sd
      = Inr (bool_arrays
          (fst (homog_filter_function_st inmask_at clusters nlbl cluster_sd h)) a)"
    using r by (elim conjE)
qed

lemma cth_filter_function_st_example:
  "snd (cth_filter_function_st \<lparr>data_at = 0, mask_at = 1\<rparr> [(1, [100, 3000]), (2, [5])]
          \<lparr>int_arrays = (\<lambda>a. [])(0 := [1, 1, 0, 2]),
           bool_arrays = (\<lambda>a. [])(1 := [False, False, True, False])\<rparr>)
     = Inr 1"
  by (simp add: cth_filter_function_st_def grid_mask_def grid_labels_def)

theorem cluster_filters_update_shared_masks_in_place_witness:
  "snd (cth_filter_function_st \<lparr>data_at = 0, mask_at = 1\<rparr> [(1, [100, 3000]), (2, [5])]
          \<lparr>int_arrays = (\<lambda>a. [])(0 := [1, 1, 0, 2]),
           bool_arrays = (\<lambda>a. [])(1 := [False, False, True, False])\<rparr>)
     = Inr 1
   \<and> bool_arrays
        (fst (cth_filter_function_st \<lparr>data_at = 0, mask_at = 1\<rparr> [(1, [100, 3000]), (2, [5])]
               \<lparr>int_arrays = (\<lambda>a. [])(0 := [1, 1, 0, 2]),
                bool_arrays = (\<lambda>a. [])(1 := [False, False, True, False])\<rparr>)) 1
     = [True, True, True, False]"
proof -
  let ?cl = "\<lparr>data_at = 0, mask_at = 1\<rparr>"
  let ?h = "\<lparr>int_arrays = (\<lambda>a. [])(0 := [1, 1, 0, 2]),
    bool_arrays = (\<lambda>a. [])(1 := [False, False, True, False])\<rparr>"
  note e = cth_filter_function_st_example
  have c: "cth_mask (grid_labels ?h ?cl) (grid_mask ?h ?cl) [(1, [100, 3000]), (2, [5])]
      = Inr [True, True, True, False]"
    by (simp add: grid_labels_def grid_mask_def cth_mask_example)
  from cluster_filters_update_shared_masks_in_place [of ?cl ?h "[(1, [100, 3000]), (2, [5])]"] e
  have "cth_mask (grid_labels ?h ?cl) (grid_mask ?h ?cl) [(1, [100, 3000]), (2, [5])]
      = Inr (bool_arrays
          (fst (cth_filter_function_st ?cl [(1, [100, 3000]), (2, [5])] ?h)) 1)"
    by blast
  with c have "bool_arrays (fst (cth_filter_function_st ?cl [(1, [100, 3000]), (2, [5])] ?h)) 1
      = [True, True, True, False]"
    by simp
  with e show ?thesis by simp
qed

text \<open>
  The claim as the specification words it fails. The label grid has the labels
  \<open>[1, 1, 0]\<close> at address 0 and the mask \<open>[False, False, True]\<close> at address 1. The
  cloud-top-height filter, with a height of 3000 m for label 1, returns the array at
  address 1 as its mask, and that array, the mask of the label grid, is
  \<open>[True, True, True]\<close> afterwards. So does the low-cloud filter with a fog base of 50 m
  above terrain at 0 m. The homogeneity filter, with the inbound mask
  \<open>[False, False, True]\<close> at address 2 and a standard deviation of 3, returns the array
  at address 2, the mask of its input array, which is \<open>[True, True, True]\<close> afterwards.
\<close>

theorem label_grid_mask_is_changed_and_returned:
  "snd (cth_filter_function_st \<lparr>data_at = 0, mask_at = 1\<rparr> [(1, [3000])]
          \<lparr>int_arrays = (\<lambda>a. [])(0 := [1, 1, 0]),
           bool_arrays = (\<lambda>a. [])(1 := [False, False, True])\<rparr>)
     = Inr 1
   \<and> bool_arrays
        (fst (cth_filter_function_st \<lparr>data_at = 0, mask_at = 1\<rparr> [(1, [3000])]
               \<lparr>int_arrays = (\<lambda>a. [])(0 := [1, 1, 0]),
                bool_arrays = (\<lambda>a. [])(1 := [False, False, True])\<rparr>)) 1
     = [True, True, True]
   \<and> snd (lowcloud_filter_function_st (\<lambda>cth ctt cwp reff. Some (Fin 10, Fin 50)) [0]
          (\<lambda>i. Fin 0) (\<lambda>i. Fin 0) [1, 1, 1] [1, 1, 1] [280, 280, 280] [1, 1, 1] [0, 0, 0]
          \<lparr>data_at = 0, mask_at = 1\<rparr>
          \<lparr>int_arrays = (\<lambda>a. [])(0 := [1, 1, 0]),
           bool_arrays = (\<lambda>a. [])(1 := [False, False, True])\<rparr>)
     = Inr ([Fin 10, Fin 10, Fin 0], [Fin 50, Fin 50, Fin 0], 1)
   \<and> bool_arrays
        (fst (lowcloud_filter_function_st (\<lambda>cth ctt cwp reff. Some (Fin 10, Fin 50)) [0]
               (\<lambda>i. Fin 0) (\<lambda>i. Fin 0) [1, 1, 1] [1, 1, 1] [280, 280, 280] [1, 1, 1] [0, 0, 0]
               \<lparr>data_at = 0, mask_at = 1\<rparr>
               \<lparr>int_arrays = (\<lambda>a. [])(0 := [1, 1, 0]),
                bool_arrays = (\<lambda>a. [])(1 := [False, False, True])\<rparr>)) 1
     = [True, True, True]
   \<and> snd (homog_filter_function_st (Some 2) \<lparr>data_at = 0, mask_at = 1\<rparr> 1 [3]
          \<lparr>int_arrays = (\<lambda>a. [])(0 := [1, 1, 0]),
           bool_arrays = (\<lambda>a. [])(1 := [False, False, True], 2 := [False, False, True])\<rparr>)
     = Inr 2
   \<and> bool_arrays
        (fst (homog_filter_function_st (Some 2) \<lparr>data_at = 0, mask_at = 1\<rparr> 1 [3]
               \<lparr>int_arrays = (\<lambda>a. [])(0 := [1, 1, 0]),
                bool_arrays = (\<lambda>a. [])(1 := [False, False, True], 2 := [False, False, True])\<rparr>))
        2
     = [True, True, True]"
  by (simp add: cth_filter_function_st_def lowcloud_filter_function_st_def
      homog_filter_function_st_def grid_mask_def grid_labels_def setitem_at_def ma_eq_def
      setitem_def sd_mask_def cluster_means_def run_models_def get_cluster_mean_def nanmean_def cluster_work_def
      dict_get_def get_fog_base_height_def take_idx_def getitem_def broadcast2_def np_empty_def)

section \<open>Every filter under the contract\<close>

text \<open>
  \<^verbatim>\<open>apply\<close> calls \<^verbatim>\<open>self.filter_function()\<close>, which is the method of the instance's class
  and reads the instance's inputs. \<open>filter_inputs\<close> is a filter instance seen this way:
  its class together with the values its \<open>filter_function\<close> works on (the keyword
  arguments and, where the filter calls a library, what the library returned), and
  \<open>filter_function\<close> is the method that \<^verbatim>\<open>apply\<close> runs for it.
\<close>

datatype filter_inputs =
    BaseInputs
  | CloudInputs "real list" "real list" "int list" "real list" "nat list"
  | SnowInputs "real list" "real list" "real list" "real list"
  | IceCloudInputs "real list" "real list" "real list"
  | CirrusCloudInputs "real list" "real list" "real list" "real list"
  | WaterCloudInputs "real list list" "real list list" "real list list" "bool list list"
  | SpatialCloudTopHeightInputs "int list" "bool list" "(int \<times> real list) list"
  | SpatialHomogeneityInputs "int list" "bool list" nat "real list"
  | CloudPhysicsInputs "real list" "real list"
  | LowCloudInputs
      "npfloat \<Rightarrow> npfloat \<Rightarrow> npfloat \<Rightarrow> npfloat \<Rightarrow> (npfloat \<times> npfloat) option"
      "nat list" "nat \<Rightarrow> npfloat" "nat \<Rightarrow> npfloat"
      "real list" "real list" "real list" "real list" "real list" "int list" "bool list"

fun class_of :: "filter_inputs \<Rightarrow> filter_class" where
  "class_of BaseInputs = BaseArrayFilter"
| "class_of (CloudInputs ir108 ir039 counts edges peakind) = CloudFilter"
| "class_of (SnowInputs vis006 vis008 nir016 ir108) = SnowFilter"
| "class_of (IceCloudInputs ir120 ir087 ir108) = IceCloudFilter"
| "class_of (CirrusCloudInputs ir108 ir120 ir087 secsza) = CirrusCloudFilter"
| "class_of (WaterCloudInputs vis006 nir016 ir039 cloudmask) = WaterCloudFilter"
| "class_of (SpatialCloudTopHeightInputs labels cmask cluster_z) = SpatialCloudTopHeightFilter"
| "class_of (SpatialHomogeneityInputs labels cmask nlbl cluster_sd) = SpatialHomogeneityFilter"
| "class_of (CloudPhysicsInputs cotau reff) = CloudPhysicsFilter"
| "class_of (LowCloudInputs model order cbh_mem fbh_mem lwp cth ir108 reff elev labels cmask)
     = LowCloudFilter"

fun filter_function :: "filter_inputs \<Rightarrow> filter_obj \<Rightarrow> log_entry list \<times> (error + filter_obj)" where
  "filter_function BaseInputs = BaseArrayFilter_filter_function"
| "filter_function (CloudInputs ir108 ir039 counts edges peakind) =
     CloudFilter_filter_function ir108 ir039 counts edges peakind"
| "filter_function (SnowInputs vis006 vis008 nir016 ir108) =
     SnowFilter_filter_function vis006 vis008 nir016 ir108"
| "filter_function (IceCloudInputs ir120 ir087 ir108) =
     IceCloudFilter_filter_function ir120 ir087 ir108"
| "filter_function (CirrusCloudInputs ir108 ir120 ir087 secsza) =
     CirrusCloudFilter_filter_function ir108 ir120 ir087 secsza"
| "filter_function (WaterCloudInputs vis006 nir016 ir039 cloudmask) =
     WaterCloudFilter_filter_function vis006 nir016 ir039 cloudmask"
| "filter_function (SpatialCloudTopHeightInputs labels cmask cluster_z) =
     SpatialCloudTopHeightFilter_filter_function labels cmask cluster_z"
| "filter_function (SpatialHomogeneityInputs labels cmask nlbl cluster_sd) =
     SpatialHomogeneityFilter_filter_function labels cmask nlbl cluster_sd"
| "filter_function (CloudPhysicsInputs cotau reff) =
     CloudPhysicsFilter_filter_function cotau reff"
| "filter_function
     (LowCloudInputs model order cbh_mem fbh_mem lwp cth ir108 reff elev labels cmask) =
     LowCloudFilter_filter_function model order cbh_mem fbh_mem lwp cth ir108 reff elev labels
       cmask"

text \<open>
  The mask that the algorithm of a filter computes, which \<open>filter_function\<close> stores in
  \<^verbatim>\<open>self.mask\<close>.
\<close>

fun computed_mask :: "filter_inputs \<Rightarrow> filter_obj \<Rightarrow> error + bool list" where
  "computed_mask BaseInputs self = Inr (replicate (length (arr self)) True)"
| "computed_mask (CloudInputs ir108 ir039 counts edges peakind) self =
     (case cloud_filter_function ir108 ir039 counts edges peakind of
        (l, Inl e) \<Rightarrow> Inl e
      | (l, Inr (thres, m)) \<Rightarrow> Inr m)"
| "computed_mask (SnowInputs vis006 vis008 nir016 ir108) self =
     snow_mask vis006 vis008 nir016 ir108"
| "computed_mask (IceCloudInputs ir120 ir087 ir108) self = ice_mask ir120 ir087 ir108"
| "computed_mask (CirrusCloudInputs ir108 ir120 ir087 secsza) self =
     cirrus_filter_function ir108 ir120 ir087 secsza"
| "computed_mask (WaterCloudInputs vis006 nir016 ir039 cloudmask) self =
     (case water_filter_function vis006 nir016 ir039 cloudmask of
        Inl e \<Rightarrow> Inl e
      | Inr m \<Rightarrow> Inr (concat m))"
| "computed_mask (SpatialCloudTopHeightInputs labels cmask cluster_z) self =
     cth_mask labels cmask cluster_z"
| "computed_mask (SpatialHomogeneityInputs labels cmask nlbl cluster_sd) self =
     homog_mask (inmask self) labels cmask nlbl cluster_sd"
| "computed_mask (CloudPhysicsInputs cotau reff) self = cpp_mask cotau reff"
| "computed_mask
     (LowCloudInputs model order cbh_mem fbh_mem lwp cth ir108 reff elev labels cmask) self =
     (case lowcloud_filter_function model order cbh_mem fbh_mem lwp cth ir108 reff elev labels
             cmask of
        (l, Inl e) \<Rightarrow> Inl e
      | (l, Inr (cbh, fbh, fog_mask)) \<Rightarrow> Inr fog_mask)"

text \<open>
  The inbound mask of a filter, pixel by pixel: the mask of \<open>arr\<close> as the filter was
  constructed, and nothing for a plain array.
\<close>

definition inbound :: "filter_obj \<Rightarrow> bool list" where
  "inbound self =
     (case inmask self of None \<Rightarrow> replicate (length (arr self)) False | Some im \<Rightarrow> im)"

text \<open>
  A sequence of filters as \<^verbatim>\<open>FogLowStratusAlgorithm.procedure\<close> chains them: each filter
  is constructed on the masked array that the \<open>apply\<close> of the one before returned, with
  its own keyword arguments, and applied. The outcome is the array that the last filter
  returned. (A filter cannot be constructed on \<^verbatim>\<open>None\<close>: \<^verbatim>\<open>__init__\<close> raises
  \<^verbatim>\<open>ImportError\<close>.)
\<close>

fun apply_sequence :: "(filter_inputs \<times> string list) list \<Rightarrow> masked \<Rightarrow> error + masked" where
  "apply_sequence [] r = Inr r"
| "apply_sequence ((c, kwargs) # rest) r =
     (case apply_filter (class_of c) (filter_function c)
             (init (MaskedArray (ma_data r) (ma_mask r)) kwargs) of
        (l, Inl e) \<Rightarrow> Inl e
      | (l, Inr (None, m)) \<Rightarrow> Inl ImportError
      | (l, Inr (Some r1, m)) \<Rightarrow> apply_sequence rest r1)"

section \<open>The returned array accumulates the masks\<close>

lemma nth_resize_mask_same: "length m = n \<Longrightarrow> resize_mask m n = m"
  by (simp add: resize_mask_def)

lemma set_result_merges:
  assumes "set_result self m = Inr self1"
  shows "\<exists>r. result self1 = Some r \<and> msk self1 = Some m \<and> ma_data r = arr self
    \<and> length (ma_mask r) = length (arr self)
    \<and> (\<forall>i < length (arr self).
          ma_mask r ! i \<longleftrightarrow> resize_mask m (length (arr self)) ! i \<or> inbound self ! i)"
proof -
  from set_result_Inr [OF assms] obtain r where
    m: "msk self1 = Some m" and lm: "length m = length (arr self) \<or> length m = 1"
    and r: "result self1 = Some r" and d: "ma_data r = arr self"
    and k: "ma_mask r = (case inmask self of
                          None \<Rightarrow> resize_mask m (length (arr self))
                        | Some im \<Rightarrow> map2 (\<or>) (resize_mask m (length (arr self))) im)"
    and l: "length (ma_mask r) = length (arr self)"
    by blast
  have lr: "length (resize_mask m (length (arr self))) = length (arr self)"
    using lm by (rule length_resize_mask)
  have "ma_mask r ! i \<longleftrightarrow> resize_mask m (length (arr self)) ! i \<or> inbound self ! i"
    if i: "i < length (arr self)" for i
  proof (cases "inmask self")
    case None
    then show ?thesis using k i by (simp add: inbound_def)
  next
    case (Some im)
    have "length (map2 (\<or>) (resize_mask m (length (arr self))) im) = length (arr self)"
      using k l Some by simp
    then have "i < length im" using i lr by simp
    then show ?thesis using k Some i lr by (simp add: inbound_def)
  qed
  with r m d l show ?thesis by blast
qed

lemma run_filter_merges:
  assumes "run_filter banner c self = (l, Inr self1)"
  shows "\<exists>r m. snd c = Inr m \<and> result self1 = Some r \<and> msk self1 = Some m
    \<and> ma_data r = arr self \<and> length (ma_mask r) = length (arr self)
    \<and> (\<forall>i < length (arr self).
          ma_mask r ! i \<longleftrightarrow> resize_mask m (length (arr self)) ! i \<or> inbound self ! i)"
proof -
  from run_filter_Inr [OF assms] obtain m where
    c: "snd c = Inr m" and s: "set_result self m = Inr self1" by blast
  from set_result_merges [OF s] c show ?thesis by blast
qed

lemma homogeneity_filter_merges:
  assumes "SpatialHomogeneityFilter_filter_function labels cmask nlbl sd self = (l, Inr self1)"
  shows "\<exists>r m. homog_mask (inmask self) labels cmask nlbl sd = Inr m
    \<and> result self1 = Some r \<and> msk self1 = Some m \<and> ma_data r = arr self
    \<and> length (ma_mask r) = length (arr self)
    \<and> (\<forall>i < length (arr self).
          ma_mask r ! i \<longleftrightarrow> resize_mask m (length (arr self)) ! i \<or> inbound self ! i)"
proof -
  from assms obtain m where hm: "homog_mask (inmask self) labels cmask nlbl sd = Inr m"
    and sr: "set_result (self\<lparr>inmask := Some m\<rparr>) m = Inr self1"
    by (auto simp: SpatialHomogeneityFilter_filter_function_def split: sum.splits)
  from hm obtain im where im: "inmask self = Some im"
    by (cases "inmask self") (auto simp: homog_mask_def)
  note hm' = hm [unfolded im]
  from set_result_Inr [OF sr] obtain r where
    m: "msk self1 = Some m" and r: "result self1 = Some r" and d: "ma_data r = arr self"
    and k: "ma_mask r = map2 (\<or>) (resize_mask m (length (arr self))) m"
    and l: "length (ma_mask r) = length (arr self)"
    by auto
  from sr have lma: "length m = length (arr self)"
    by (auto simp: set_result_def ma_array_def split: if_splits sum.splits)
  have rs: "resize_mask m (length (arr self)) = m" using lma by (rule nth_resize_mask_same)
  have lml: "length m = length labels"
    using homog_mask_Inr [OF hm']
      length_homog_loop [of im labels "map2 (\<or>) im cmask" nlbl "sd_mask sd"]
    by simp
  have "ma_mask r ! i \<longleftrightarrow> resize_mask m (length (arr self)) ! i \<or> inbound self ! i"
    if i: "i < length (arr self)" for i
  proof -
    have il: "i < length labels" using i lma lml by simp
    have "im ! i \<longrightarrow> m ! i" using homog_mask_pixel [OF hm' il] by simp
    moreover have "ma_mask r ! i = m ! i" using k rs i lma by simp
    ultimately show ?thesis using rs im by (auto simp: inbound_def)
  qed
  with hm r m d l show ?thesis by blast
qed

lemma snd_cloud_case:
  "snd (case x of (l, Inl e) \<Rightarrow> (l, Inl e) | (l, Inr (thres, m)) \<Rightarrow> (l, Inr m)) =
     (case x of (l, Inl e) \<Rightarrow> Inl e | (l, Inr (thres, m)) \<Rightarrow> Inr m)"
  by (auto split: prod.splits sum.splits)

lemma snd_water_case:
  "snd (case x of Inl e \<Rightarrow> (l1, Inl e) | Inr m \<Rightarrow> (l2, Inr (f m))) =
     (case x of Inl e \<Rightarrow> Inl e | Inr m \<Rightarrow> Inr (f m))"
  by (auto split: sum.splits)

lemma snd_lowcloud_case:
  "snd (case x of (l, Inl e) \<Rightarrow> (l, Inl e) | (l, Inr (cbh, fbh, fog_mask)) \<Rightarrow> (l, Inr fog_mask)) =
     (case x of (l, Inl e) \<Rightarrow> Inl e | (l, Inr (cbh, fbh, fog_mask)) \<Rightarrow> Inr fog_mask)"
  by (auto split: sum.splits prod.splits)

lemma filter_function_merges:
  assumes "filter_function c self = (l, Inr self1)"
  shows "\<exists>r m. computed_mask c self = Inr m \<and> result self1 = Some r \<and> msk self1 = Some m
    \<and> ma_data r = arr self \<and> length (ma_mask r) = length (arr self)
    \<and> (\<forall>i < length (arr self).
          ma_mask r ! i \<longleftrightarrow> resize_mask m (length (arr self)) ! i \<or> inbound self ! i)"
proof (cases c)
  case BaseInputs
  with assms have "set_result self (replicate (length (arr self)) True) = Inr self1"
    by (simp add: BaseArrayFilter_filter_function_def)
  from set_result_merges [OF this] show ?thesis by (auto simp: BaseInputs)
next
  case (CloudInputs ir108 ir039 counts edges peakind)
  from assms have "run_filter ''Applying Cloud Filter''
      (case cloud_filter_function ir108 ir039 counts edges peakind of
         (l, Inl e) \<Rightarrow> (l, Inl e) | (l, Inr (thres, m)) \<Rightarrow> (l, Inr m)) self = (l, Inr self1)"
    by (simp add: CloudInputs CloudFilter_filter_function_def)
  from run_filter_merges [OF this] show ?thesis
    unfolding snd_cloud_case CloudInputs computed_mask.simps .
next
  case (SnowInputs vis006 vis008 nir016 ir108)
  from assms have "run_filter ''Applying Snow Filter''
      ([], snow_mask vis006 vis008 nir016 ir108) self = (l, Inr self1)"
    by (simp add: SnowInputs SnowFilter_filter_function_def)
  from run_filter_merges [OF this] show ?thesis
    unfolding snd_conv SnowInputs computed_mask.simps .
next
  case (IceCloudInputs ir120 ir087 ir108)
  from assms have "run_filter ''Applying Snow Filter''
      ([], ice_mask ir120 ir087 ir108) self = (l, Inr self1)"
    by (simp add: IceCloudInputs IceCloudFilter_filter_function_def)
  from run_filter_merges [OF this] show ?thesis
    unfolding snd_conv IceCloudInputs computed_mask.simps .
next
  case (CirrusCloudInputs ir108 ir120 ir087 secsza)
  from assms have "run_filter ''Applying Cirrus Filter''
      ([], cirrus_filter_function ir108 ir120 ir087 secsza) self = (l, Inr self1)"
    by (simp add: CirrusCloudInputs CirrusCloudFilter_filter_function_def)
  from run_filter_merges [OF this] show ?thesis
    unfolding snd_conv CirrusCloudInputs computed_mask.simps .
next
  case (WaterCloudInputs vis006 nir016 ir039 cloudmask)
  from assms have "run_filter ''Applying Water Cloud Filter''
      (case water_filter_function vis006 nir016 ir039 cloudmask of
         Inl e \<Rightarrow> ([], Inl e)
       | Inr m \<Rightarrow> ([Debug ''Mean latitudinal threshold for cloudfree areas''], Inr (concat m)))
      self = (l, Inr self1)"
    by (simp add: WaterCloudInputs WaterCloudFilter_filter_function_def)
  from run_filter_merges [OF this] show ?thesis
    unfolding snd_water_case WaterCloudInputs computed_mask.simps .
next
  case (SpatialCloudTopHeightInputs labels cmask cluster_z)
  from assms have "run_filter ''Applying Spatial Clustering Cloud Top Height Filter''
      ([], cth_mask labels cmask cluster_z) self = (l, Inr self1)"
    by (simp add: SpatialCloudTopHeightInputs SpatialCloudTopHeightFilter_filter_function_def)
  from run_filter_merges [OF this] show ?thesis
    unfolding snd_conv SpatialCloudTopHeightInputs computed_mask.simps .
next
  case (SpatialHomogeneityInputs labels cmask nlbl cluster_sd)
  from assms have
    "SpatialHomogeneityFilter_filter_function labels cmask nlbl cluster_sd self = (l, Inr self1)"
    by (simp add: SpatialHomogeneityInputs)
  from homogeneity_filter_merges [OF this] show ?thesis
    unfolding SpatialHomogeneityInputs computed_mask.simps .
next
  case (CloudPhysicsInputs cotau reff)
  from assms have "run_filter ''Applying Spatial Clustering Inhomogenity Filter''
      ([], cpp_mask cotau reff) self = (l, Inr self1)"
    by (simp add: CloudPhysicsInputs CloudPhysicsFilter_filter_function_def)
  from run_filter_merges [OF this] show ?thesis
    unfolding snd_conv CloudPhysicsInputs computed_mask.simps .
next
  case (LowCloudInputs model order cbh_mem fbh_mem lwp cth ir108 reff elev labels cmask)
  from assms have "run_filter ''Applying Low Cloud Filter''
      (case lowcloud_filter_function model order cbh_mem fbh_mem lwp cth ir108 reff elev labels
              cmask of
         (l, Inl e) \<Rightarrow> (l, Inl e)
       | (l, Inr (cbh, fbh, fog_mask)) \<Rightarrow> (l, Inr fog_mask))
      self = (l, Inr self1)"
    by (simp add: LowCloudInputs LowCloudFilter_filter_function_def)
  from run_filter_merges [OF this] show ?thesis
    unfolding snd_lowcloud_case LowCloudInputs computed_mask.simps .
qed

lemma apply_filter_merges:
  assumes "apply_filter (class_of c) (filter_function c) self = (l, Inr (res, mk))"
  shows "\<exists>r m. res = Some r \<and> mk = Some m \<and> computed_mask c self = Inr m
    \<and> ma_data r = arr self \<and> length (ma_mask r) = length (arr self)
    \<and> (\<forall>i < length (arr self).
          ma_mask r ! i \<longleftrightarrow> resize_mask m (length (arr self)) ! i \<or> inbound self ! i)"
proof -
  from apply_filter_Inr [OF assms] obtain l1 self1 where
    f: "filter_function c self = (l1, Inr self1)" and o: "(res, mk) = (result self1, msk self1)"
    by blast
  from filter_function_merges [OF f] o show ?thesis by auto
qed

lemma arr_init_MaskedArray: "arr (init (MaskedArray d m) kwargs) = d"
  by (simp add: init_def)

lemma inbound_init_MaskedArray: "inbound (init (MaskedArray d m) kwargs) = m"
  by (simp add: init_def inbound_def)

lemma apply_sequence_monotone:
  assumes "apply_sequence cs r = Inr r'"
  shows "ma_data r' = ma_data r \<and> (\<forall>i < length (ma_data r). ma_mask r ! i \<longrightarrow> ma_mask r' ! i)"
  using assms
proof (induction cs arbitrary: r)
  case Nil
  then show ?case by simp
next
  case (Cons a cs)
  obtain c kwargs where a: "a = (c, kwargs)" by (cases a)
  let ?self = "init (MaskedArray (ma_data r) (ma_mask r)) kwargs"
  from Cons.prems obtain l r1 mk where
    ap: "apply_filter (class_of c) (filter_function c) ?self = (l, Inr (Some r1, mk))"
    and rest: "apply_sequence cs r1 = Inr r'"
    by (auto simp: a split: prod.splits sum.splits option.splits)
  from apply_filter_merges [OF ap] obtain m where
    d: "ma_data r1 = ma_data r"
    and p: "\<forall>i < length (ma_data r).
      ma_mask r1 ! i \<longleftrightarrow> resize_mask m (length (ma_data r)) ! i \<or> ma_mask r ! i"
    by (auto simp: arr_init_MaskedArray inbound_init_MaskedArray)
  from Cons.IH [OF rest] have d': "ma_data r' = ma_data r1"
    and p': "\<forall>i < length (ma_data r1). ma_mask r1 ! i \<longrightarrow> ma_mask r' ! i"
    by simp_all
  show ?case using d d' p p' by auto
qed


text \<open>
  C1, as the code has it. (1) When \<open>apply\<close> returns, it returns a masked array and a
  mask. The mask is the mask that the filter's algorithm computed, by itself. The array
  has the data of the array the filter was constructed on, and its mask is, pixel by
  pixel, the logical OR of the computed mask (a mask of one element standing for every
  pixel) with the inbound mask: so every pixel masked inbound is masked in the returned
  array. (2) In a sequence of filters, each constructed on the array the one before
  returned, every pixel that is masked in the array at the start is masked in the array
  at the end.
\<close>

theorem returned_array_mask_is_merged_with_inbound:
  "(apply_filter (class_of c) (filter_function c) self = (l, Inr (res, mk)) \<longrightarrow>
      (\<exists>r m. res = Some r \<and> mk = Some m \<and> computed_mask c self = Inr m
         \<and> ma_data r = arr self \<and> length (ma_mask r) = length (arr self)
         \<and> (\<forall>i < length (arr self).
               ma_mask r ! i \<longleftrightarrow> resize_mask m (length (arr self)) ! i \<or> inbound self ! i)))
   \<and> (apply_sequence cs r0 = Inr r1 \<longrightarrow>
        ma_data r1 = ma_data r0
        \<and> (\<forall>i < length (ma_data r0). ma_mask r0 ! i \<longrightarrow> ma_mask r1 ! i))"
proof (intro conjI impI)
  assume "apply_filter (class_of c) (filter_function c) self = (l, Inr (res, mk))"
  then show "\<exists>r m. res = Some r \<and> mk = Some m \<and> computed_mask c self = Inr m
      \<and> ma_data r = arr self \<and> length (ma_mask r) = length (arr self)
      \<and> (\<forall>i < length (arr self).
            ma_mask r ! i \<longleftrightarrow> resize_mask m (length (arr self)) ! i \<or> inbound self ! i)"
    by (rule apply_filter_merges)
next
  assume a: "apply_sequence cs r0 = Inr r1"
  show "ma_data r1 = ma_data r0" using apply_sequence_monotone [OF a] by (rule conjunct1)
  show "\<forall>i < length (ma_data r0). ma_mask r0 ! i \<longrightarrow> ma_mask r1 ! i"
    using apply_sequence_monotone [OF a] by (rule conjunct2)
qed

lemma apply_ice_filter_example:
  "apply_filter IceCloudFilter (IceCloudFilter_filter_function [290, 284] [280, 283] [280, 285])
     (init (MaskedArray [280, 285] [True, False]) [''ir120'', ''ir087'', ''ir108''])
   = ([Info ''Applying Snow Filter'', Stats 2 1 1 1 0],
      Inr (Some \<lparr>ma_data = [280, 285], ma_mask = [True, True]\<rparr>, Some [False, True]))"
  by (simp add: apply_filter_def isapplicable_def hasattr_def init_def init_attrs_def
      IceCloudFilter_filter_function_def run_filter_def ice_mask_def broadcast2_def bind_err_def
      set_result_def ma_array_def resize_mask_def check_results_def filter_stats_def
      count_true_def)

theorem returned_array_mask_is_merged_with_inbound_witness:
  "apply_filter (class_of (IceCloudInputs [290, 284] [280, 283] [280, 285]))
     (filter_function (IceCloudInputs [290, 284] [280, 283] [280, 285]))
     (init (MaskedArray [280, 285] [True, False]) [''ir120'', ''ir087'', ''ir108''])
   = ([Info ''Applying Snow Filter'', Stats 2 1 1 1 0],
      Inr (Some \<lparr>ma_data = [280, 285], ma_mask = [True, True]\<rparr>, Some [False, True]))
   \<and> computed_mask (IceCloudInputs [290, 284] [280, 283] [280, 285])
       (init (MaskedArray [280, 285] [True, False]) [''ir120'', ''ir087'', ''ir108''])
     = Inr [False, True]
   \<and> apply_sequence [(IceCloudInputs [290, 284] [280, 283] [280, 285],
                      [''ir120'', ''ir087'', ''ir108''])]
       \<lparr>ma_data = [280, 285], ma_mask = [True, False]\<rparr>
     = Inr \<lparr>ma_data = [280, 285], ma_mask = [True, True]\<rparr>"
proof -
  let ?c = "IceCloudInputs [290, 284] [280, 283] [280, 285]"
  let ?self = "init (MaskedArray [280, 285] [True, False]) [''ir120'', ''ir087'', ''ir108'']"
  have e: "apply_filter (class_of ?c) (filter_function ?c) ?self
      = ([Info ''Applying Snow Filter'', Stats 2 1 1 1 0],
         Inr (Some \<lparr>ma_data = [280, 285], ma_mask = [True, True]\<rparr>, Some [False, True]))"
    using apply_ice_filter_example by simp
  from returned_array_mask_is_merged_with_inbound [of ?c ?self
      "[Info ''Applying Snow Filter'', Stats 2 1 1 1 0]"
      "Some \<lparr>ma_data = [280, 285], ma_mask = [True, True]\<rparr>" "Some [False, True]"] e
  have c: "computed_mask ?c ?self = Inr [False, True]" by auto
  have s: "apply_sequence [(?c, [''ir120'', ''ir087'', ''ir108''])]
      \<lparr>ma_data = [280, 285], ma_mask = [True, False]\<rparr>
      = Inr \<lparr>ma_data = [280, 285], ma_mask = [True, True]\<rparr>"
    using e by simp
  from e c s show ?thesis by blast
qed

text \<open>
  The claim as the specification words it fails. An ice-cloud filter is constructed on
  an array of two pixels whose first pixel is masked. Its algorithm masks the second
  pixel only. \<open>apply\<close> returns the mask \<open>[False, True]\<close>: the first pixel, masked
  inbound, is not masked in the returned mask. It is masked in the returned array.
\<close>

theorem returned_mask_omits_inbound_mask:
  "apply_filter IceCloudFilter (IceCloudFilter_filter_function [290, 284] [280, 283] [280, 285])
     (init (MaskedArray [280, 285] [True, False]) [''ir120'', ''ir087'', ''ir108''])
   = ([Info ''Applying Snow Filter'', Stats 2 1 1 1 0],
      Inr (Some \<lparr>ma_data = [280, 285], ma_mask = [True, True]\<rparr>, Some [False, True]))
   \<and> inbound (init (MaskedArray [280, 285] [True, False]) [''ir120'', ''ir087'', ''ir108''])
     = [True, False]"
  by (simp add: apply_ice_filter_example) (simp add: inbound_def init_def)

end
